(* ===== verification/Py_Prelude.thy ===== *)
theory Py_Prelude
  imports Complex_Main
begin

text \<open>
  The part of Python's semantics that the sources of the starter kit rely on, written as
  HOL functions, and the generic lemmas on lists, options and integer ranges that the
  component theories share.
  \<^item> \<open>py_truthy\<close> and \<open>py_or\<close>: the truth value of an optional string and the
    operator \<open>a or b\<close> on such values (\<open>api_key or os.getenv(...)\<close>);
  \<^item> \<open>py_slice_from\<close>: the slice \<open>xs[i:]\<close> with Python's rules for negative and
    out-of-range indices (\<open>conversation_history[-max_history:]\<close>);
  \<^item> \<open>py_index\<close>: the subscript \<open>xs[i]\<close>, \<open>None\<close> where Python raises
    \<open>IndexError\<close>;
  \<^item> \<open>py_range\<close>: \<open>range(n)\<close> on Python's unbounded integers;
  \<^item> \<open>py_str_int\<close>: \<open>str(i)\<close> of an integer, its decimal digits;
  \<^item> \<open>bind_kwargs\<close>: binding a call's keyword arguments \<open>f(**kwargs)\<close> to the
    parameters of a function without defaults, \<open>None\<close> where Python raises
    \<open>TypeError\<close> (a missing or unexpected keyword).
  The collection \<open>py_simps\<close> gathers the equations that evaluate these helpers; the
  component proofs and the example runs add it to the simplifier.
\<close>

named_theorems py_simps "equations that evaluate the Python helpers"

section \<open>Definitions\<close>

text \<open>
  An optional string (\<open>Optional[str]\<close>) is true in Python when it is a non-empty
  string; \<open>None\<close> and \<open>''''\<close> are false. \<open>a or b\<close> returns \<open>a\<close> when \<open>a\<close> is
  true and \<open>b\<close> otherwise.
\<close>

definition py_truthy :: "string option \<Rightarrow> bool" where
  "py_truthy x = (case x of None \<Rightarrow> False | Some s \<Rightarrow> s \<noteq> [])"

definition py_or :: "string option \<Rightarrow> string option \<Rightarrow> string option" where
  "py_or a b = (if py_truthy a then a else b)"

text \<open>
  \<open>xs[i:]\<close>: a negative start counts from the end (\<open>len(xs) + i\<close>, clamped at 0), a
  start beyond the end gives the empty list. In particular \<open>xs[-0:]\<close> is \<open>xs[0:]\<close>,
  the whole list.
\<close>

definition py_slice_from :: "'a list \<Rightarrow> int \<Rightarrow> 'a list" where
  "py_slice_from xs i =
     (if i < 0 then drop (nat (int (length xs) + i)) xs else drop (nat i) xs)"

text \<open>\<open>xs[i]\<close> for an index \<open>i\<close>, negative ones counting from the end.\<close>

definition py_index :: "'a list \<Rightarrow> int \<Rightarrow> 'a option" where
  "py_index xs i =
     (let j = (if i < 0 then int (length xs) + i else i)
      in if 0 \<le> j \<and> j < int (length xs) then Some (xs ! nat j) else None)"

text \<open>\<open>range(n)\<close> is the list \<open>[0..n-1]\<close> of integers, empty when \<open>n \<le> 0\<close>.\<close>

definition py_range :: "int \<Rightarrow> int list" where
  "py_range n = [0..n - 1]"

text \<open>\<open>str(i)\<close> for an integer: its decimal digits, with a minus sign when negative.\<close>

fun py_nat_digits :: "nat \<Rightarrow> string" where
  "py_nat_digits n =
     (if n < 10 then [''0123456789'' ! n]
      else py_nat_digits (n div 10) @ [''0123456789'' ! (n mod 10)])"

definition py_str_int :: "int \<Rightarrow> string" where
  "py_str_int i = (if i < 0 then CHR ''-'' # py_nat_digits (nat (- i)) else py_nat_digits (nat i))"

text \<open>
  \<open>f(**kwargs)\<close> for a function whose parameters \<open>names\<close> (distinct, none with a
  default) must each be given once, and no other: the argument values in parameter order.
\<close>

definition bind_kwargs :: "string list \<Rightarrow> (string \<times> 'v) list \<Rightarrow> 'v list option" where
  "bind_kwargs names kwargs =
     (if distinct (map fst kwargs) \<and> length kwargs = length names
         \<and> list_all (\<lambda>k. k \<in> set names) (map fst kwargs)
      then Some (map (\<lambda>n. the (map_of kwargs n)) names) else None)"

text \<open>
  \<open>f(**kwargs)\<close> for a function whose parameters \<open>params\<close> are given with their default
  values (\<open>None\<close> for a parameter without default): every keyword names a parameter,
  every parameter without default is given; the argument values in parameter order.
\<close>

definition bind_kwargs_dflt :: "(string \<times> 'v option) list \<Rightarrow> (string \<times> 'v) list \<Rightarrow> 'v list option" where
  "bind_kwargs_dflt params kwargs =
     (if distinct (map fst kwargs) \<and> list_all (\<lambda>k. k \<in> set (map fst params)) (map fst kwargs)
         \<and> list_all (\<lambda>(n, d). case d of None \<Rightarrow> n \<in> set (map fst kwargs) | Some _ \<Rightarrow> True) params
      then Some (map (\<lambda>(n, d). case map_of kwargs n of Some v \<Rightarrow> v | None \<Rightarrow> the d) params)
      else None)"

text \<open>\<open>s.split(sep)[0]\<close> for a one-character separator: the part of \<open>s\<close> before its first \<open>sep\<close>.\<close>

definition py_split_first :: "char \<Rightarrow> string \<Rightarrow> string" where
  "py_split_first sep s = takeWhile (\<lambda>c. c \<noteq> sep) s"

text \<open>
  \<open>round(n / d)\<close> for integers with \<open>d > 0\<close>: Python rounds halves to the even neighbour.
  The quotient is exact here; the floating-point division it stands for is exact enough
  whenever \<open>n / d\<close> is not within rounding error of a half.
\<close>

definition py_round_div :: "int \<Rightarrow> int \<Rightarrow> int" where
  "py_round_div n d =
     (let q = n div d; r = n mod d
      in if 2 * r < d then q else if 2 * r > d then q + 1 else if even q then q else q + 1)"

text \<open>
  \<open>repr(s)\<close> of a string whose characters are code points below 256: single quotes
  unless the string contains a single quote and no double quote; the quote and the
  backslash escaped; tab, newline and return by their escapes; the other characters that
  are not printable (the controls, \<open>DEL\<close>, \<open>0x80\<close>--\<open>0xA0\<close> and the soft hyphen
  \<open>0xAD\<close>) as \<open>\xhh\<close> with lower-case hex digits.
\<close>

definition py_hex2 :: "nat \<Rightarrow> string" where
  "py_hex2 n = [''0123456789abcdef'' ! (n div 16), ''0123456789abcdef'' ! (n mod 16)]"

definition py_printable :: "char \<Rightarrow> bool" where
  "py_printable c =
     (let n = of_char c :: nat in (32 \<le> n \<and> n < 127) \<or> (160 < n \<and> n \<noteq> 173))"

definition py_repr_char :: "char \<Rightarrow> char \<Rightarrow> string" where
  "py_repr_char q c =
     (if c = q \<or> c = CHR 0x5C then [CHR 0x5C, c]
      else if c = CHR 0x09 then [CHR 0x5C, CHR ''t'']
      else if c = CHR 0x0A then [CHR 0x5C, CHR ''n'']
      else if c = CHR 0x0D then [CHR 0x5C, CHR ''r'']
      else if py_printable c then [c]
      else [CHR 0x5C, CHR ''x''] @ py_hex2 (of_char c))"

definition py_repr_str :: "string \<Rightarrow> string" where
  "py_repr_str s =
     (let q = (if CHR 0x27 \<in> set s \<and> CHR 0x22 \<notin> set s then CHR 0x22 else CHR 0x27)
      in q # concat (map (py_repr_char q) s) @ [q])"

section \<open>Lemmas\<close>

subsection \<open>Truth values\<close>

lemma py_truthy_simps [simp, py_simps]:
  "py_truthy None = False"
  "py_truthy (Some s) = (s \<noteq> [])"
  by (simp_all add: py_truthy_def)

lemma py_or_truthy_iff [simp]: "py_truthy (py_or a b) = (py_truthy a \<or> py_truthy b)"
  by (simp add: py_or_def)

subsection \<open>Slices and subscripts\<close>

lemma py_slice_from_neg [py_simps]:
  "0 < n \<Longrightarrow> py_slice_from xs (- int n) = drop (length xs - n) xs"
  by (simp add: py_slice_from_def nat_diff_distrib')

lemma py_slice_from_zero [simp, py_simps]: "py_slice_from xs 0 = xs"
  by (simp add: py_slice_from_def)

lemma length_py_slice_from_neg:
  "length (py_slice_from xs (- int n)) = (if n = 0 then length xs else min n (length xs))"
  by (cases "n = 0") (auto simp: py_slice_from_def nat_diff_distrib' min_def)

lemma py_index_0 [simp, py_simps]: "py_index (x # xs) 0 = Some x"
  by (simp add: py_index_def)

lemma py_index_Nil [simp, py_simps]: "py_index [] i = None"
  by (simp add: py_index_def)

subsection \<open>Integer ranges\<close>

lemma py_range_empty [simp]: "n \<le> 0 \<Longrightarrow> py_range n = []"
  by (simp add: py_range_def)

lemma py_range_snoc: "0 \<le> m \<Longrightarrow> py_range (m + 1) = [0..m - 1] @ [m]"
  by (simp add: py_range_def upto_rec2)

text \<open>Walking a range from its low end: the step the retry loop takes.\<close>

lemma upto_Cons_step [py_simps]: "k \<le> m \<Longrightarrow> [k..m] = k # [k + 1..m]"
  by (rule upto_rec1)

subsection \<open>Evaluation of str and keyword binding\<close>

declare py_nat_digits.simps [simp del]

lemmas py_str_int_eval [py_simps] = py_str_int_def py_nat_digits.simps

declare bind_kwargs_def [py_simps] bind_kwargs_dflt_def [py_simps] py_split_first_def [py_simps]
  py_repr_str_def [py_simps] py_repr_char_def [py_simps] py_printable_def [py_simps] py_hex2_def [py_simps]
  py_round_div_def [py_simps]

lemma py_nat_digits_nonempty: "py_nat_digits n \<noteq> []"
  by (subst py_nat_digits.simps) simp

subsection \<open>Rounding\<close>

text \<open>\<open>round(n / d)\<close> is within one half of the exact quotient.\<close>

lemma py_round_div_bound:
  assumes "0 < d"
  shows "\<bar>real_of_int (py_round_div n d) - real_of_int n / real_of_int d\<bar> \<le> 1 / 2"
proof -
  let ?q = "n div d" and ?r = "n mod d"
  have n: "real_of_int n / real_of_int d = real_of_int ?q + real_of_int ?r / real_of_int d"
    using assms by (simp add: field_simps flip: of_int_mult of_int_add)
  define x where "x = real_of_int ?r / real_of_int d"
  have x: "0 \<le> x" "x < 1" using assms by (simp_all add: x_def)
  have lt: "2 * ?r < d \<longleftrightarrow> x < 1 / 2" and gt: "2 * ?r > d \<longleftrightarrow> x > 1 / 2"
    using assms by (simp_all add: x_def field_simps, metis of_int_less_iff of_int_mult of_int_numeral)+
  show ?thesis
    unfolding py_round_div_def Let_def n x_def[symmetric] lt gt using x
    by (auto simp: abs_if)
qed

subsection \<open>Lists and products\<close>

text \<open>The first element of a list that satisfies a predicate, split at an append.\<close>

lemma find_append_none:
  "find P xs = None \<Longrightarrow> find P (xs @ ys) = find P ys"
  by (induction xs) (auto split: if_splits)

lemma find_Some_in_set: "find P xs = Some x \<Longrightarrow> x \<in> set xs \<and> P x"
  by (induction xs) (auto split: if_splits)

text \<open>The result part of a computation that also returns an effect list.\<close>

lemma fst_case_prod_keep [simp]: "fst (case p of (r, es) \<Rightarrow> (r, g es)) = fst p"
  by (cases p) simp

end
