(* ===== verification/Anthropic_Api.thy ===== *)
theory Anthropic_Api
  imports Py_Prelude
begin

text \<open>
  The interface of the vendor SDK (package \<open>anthropic\<close>) as the sources use it. The SDK
  is not part of the repository: these types follow the spec (sections 3, 6 and 7) and the
  attributes the sources read (\<open>stop_reason\<close>, \<open>content[0].text\<close>, \<open>block.type\<close>,
  \<open>block.name\<close>, \<open>block.input\<close>, \<open>block.id\<close>, \<open>usage.input_tokens\<close>, \<open>usage.output_tokens\<close>).
  \<^item> \<open>py_exc\<close>: the exceptions that reach the code, the SDK's hierarchy
    (\<open>APIError\<close> with its subclasses) and the Python built-ins the code can raise, with
    the \<open>isinstance\<close> tests the \<open>except\<close> clauses perform;
  \<^item> \<open>content_block\<close>, \<open>message\<close>, \<open>response\<close>: the transcript entries and the
    result of \<open>client.messages.create\<close>;
  \<^item> \<open>param\<close> and \<open>params\<close>: the keyword arguments of \<open>create\<close> as a dictionary, and
    \<open>request_wf\<close>, their typing by the interface (spec section 6);
  \<^item> \<open>api\<close>: the remote call as an oracle. Its \<open>n\<close>-th answer (counting from 0) may
    depend on the call's number and on the request, so a model run is determined by the
    answers the server gives.
\<close>

section \<open>Exceptions\<close>

text \<open>
  The SDK maps an HTTP status to a subclass of \<open>APIStatusError\<close>; \<open>RateLimitError\<close>
  is status 429. \<open>APITimeoutError\<close> is a subclass of \<open>APIConnectionError\<close>.
  The string is the text \<open>str(e)\<close> that the diagnostics print.
\<close>

datatype api_status =
    BadRequest | Authentication | PermissionDenied | NotFound | Conflict
  | UnprocessableEntity | RateLimit | InternalServer | OtherStatus int

datatype py_exc =
    APIStatusError api_status string
  | APIConnectionError string
  | APITimeoutError string
  | APIResponseValidationError string
  | ValueError string
  | KeyError string
  | IndexError string
  | AttributeError string
  | TypeError string
  | JSONDecodeError string
  | StopIteration
  | OtherException string

text \<open>The \<open>isinstance\<close> tests of the \<open>except\<close> clauses.\<close>

fun is_RateLimitError :: "py_exc \<Rightarrow> bool" where
  "is_RateLimitError (APIStatusError RateLimit _) = True"
| "is_RateLimitError _ = False"

fun is_APIConnectionError :: "py_exc \<Rightarrow> bool" where
  "is_APIConnectionError (APIConnectionError _) = True"
| "is_APIConnectionError (APITimeoutError _) = True"
| "is_APIConnectionError _ = False"

fun is_APIError :: "py_exc \<Rightarrow> bool" where
  "is_APIError (APIStatusError _ _) = True"
| "is_APIError (APIConnectionError _) = True"
| "is_APIError (APITimeoutError _) = True"
| "is_APIError (APIResponseValidationError _) = True"
| "is_APIError _ = False"

lemma is_RateLimitError_APIError: "is_RateLimitError e \<Longrightarrow> is_APIError e"
  by (cases e rule: is_RateLimitError.cases) auto

lemma is_APIConnectionError_APIError: "is_APIConnectionError e \<Longrightarrow> is_APIError e"
  by (cases e rule: is_APIConnectionError.cases) auto

section \<open>Messages and responses\<close>

text \<open>JSON values: tool inputs and input schemas.\<close>

datatype json =
    JNull | JBool bool | JInt int | JStr string | JList "json list"
  | JObj "(string \<times> json) list"

type_synonym tool_input = "(string \<times> json) list"

text \<open>
  A content block of a response: text, or a tool invocation request carrying its
  correlation id, the tool's name and its arguments (\<open>block.type == "tool_use"\<close>).
\<close>

datatype content_block =
    TextBlock string
  | ToolUseBlock string string tool_input

text \<open>A tool result entry, \<open>{"type": "tool_result", "tool_use_id": ..., "content": ...}\<close>.\<close>

record tool_result =
  tool_use_id :: string
  result_content :: string

datatype role = User | Assistant

text \<open>
  The content of a transcript entry: a plain string, the content blocks of an assistant
  response, or a list of tool results.
\<close>

datatype msg_content =
    Str string
  | Blocks "content_block list"
  | Results "tool_result list"

record message =
  msg_role :: role
  msg_content :: msg_content

datatype stop_reason = EndTurn | MaxTokens | StopSequence | ToolUse | PauseTurn | Refusal

record usage =
  input_tokens :: nat
  output_tokens :: nat

record response =
  resp_model :: string
  stop_reason :: stop_reason
  resp_content :: "content_block list"
  resp_usage :: usage

text \<open>A tool descriptor: name, description and input schema.\<close>

record tool =
  tool_name :: string
  tool_description :: string
  input_schema :: json

section \<open>Requests\<close>

text \<open>The values passed as keyword arguments to \<open>create\<close> and \<open>stream\<close>.\<close>

datatype param =
    PStr string
  | PInt int
  | PReal real
  | PMessages "message list"
  | PTools "tool list"
  | PJson json

type_synonym params = "string \<rightharpoonup> param"

type_synonym api = "nat \<Rightarrow> params \<Rightarrow> py_exc + response"

text \<open>The transcript a request carries (its \<open>messages\<close> argument).\<close>

definition req_messages :: "params \<Rightarrow> message list option" where
  "req_messages p = (case p ''messages'' of Some (PMessages ms) \<Rightarrow> Some ms | _ \<Rightarrow> None)"

text \<open>
  The typing of a request by the interface (spec section 6): a model identifier, a
  positive token budget, a non-empty transcript that opens with the user, and, when
  present, a system text, a temperature in \<open>[0, 1]\<close> and a list of tool descriptors.
\<close>

definition request_wf :: "params \<Rightarrow> bool" where
  "request_wf p =
     ((case p ''model'' of Some (PStr m) \<Rightarrow> m \<noteq> [] | _ \<Rightarrow> False)
      \<and> (case p ''max_tokens'' of Some (PInt n) \<Rightarrow> 0 < n | _ \<Rightarrow> False)
      \<and> (case p ''messages'' of Some (PMessages ms) \<Rightarrow> ms \<noteq> [] \<and> msg_role (hd ms) = User | _ \<Rightarrow> False)
      \<and> (case p ''system'' of None \<Rightarrow> True | Some (PStr _) \<Rightarrow> True | _ \<Rightarrow> False)
      \<and> (case p ''temperature'' of None \<Rightarrow> True | Some (PReal t) \<Rightarrow> 0 \<le> t \<and> t \<le> 1 | _ \<Rightarrow> False)
      \<and> (case p ''tools'' of None \<Rightarrow> True | Some (PTools _) \<Rightarrow> True | _ \<Rightarrow> False))"

section \<open>Reading a response\<close>

text \<open>
  \<open>response.content[0].text\<close>: \<open>IndexError\<close> on an empty content list,
  \<open>AttributeError\<close> when the first block is a tool invocation (it has no \<open>text\<close>).
\<close>

definition first_text :: "response \<Rightarrow> py_exc + string" where
  "first_text r =
     (case py_index (resp_content r) 0 of
        None \<Rightarrow> Inl (IndexError ''list index out of range'')
      | Some (TextBlock t) \<Rightarrow> Inr t
      | Some (ToolUseBlock _ _ _) \<Rightarrow> Inl (AttributeError ''text''))"

lemma first_text_simps [simp]:
  "first_text (r\<lparr>resp_content := []\<rparr>) = Inl (IndexError ''list index out of range'')"
  "resp_content r = TextBlock t # bs \<Longrightarrow> first_text r = Inr t"
  "resp_content r = ToolUseBlock i n a # bs \<Longrightarrow> first_text r = Inl (AttributeError ''text'')"
  by (simp_all add: first_text_def)

text \<open>The ids of the tool invocation requests of a content list, in order.\<close>

fun tool_use_ids :: "content_block list \<Rightarrow> string list" where
  "tool_use_ids [] = []"
| "tool_use_ids (TextBlock _ # bs) = tool_use_ids bs"
| "tool_use_ids (ToolUseBlock i _ _ # bs) = i # tool_use_ids bs"

end
