(* ===== verification/Error_Handler.thy ===== *)
theory Error_Handler
  imports Anthropic_Api
begin

text \<open>
  \<open>src/utils/error_handler.py\<close>: the decorators \<open>handle_api_errors\<close> and
  \<open>retry_with_backoff\<close>. A decorated call is modelled by the outcome of the wrapped
  function (its value or the exception it raises) and the list of effects the wrapper
  performs: the lines it prints (\<open>diag\<close>, one constructor per \<open>print\<close> of the
  source), its \<open>time.sleep\<close> calls and its invocations of the wrapped function.
  The wrapped function is an oracle: \<open>f i\<close> is what its call in attempt \<open>i\<close>
  returns or raises, since the attempts call it with the same arguments one after the
  other and the outcome of each is up to the server.
  Delays are \<open>real\<close>: Python's floats are modelled exactly, without rounding.
  \<open>time.sleep\<close> raises \<open>ValueError\<close> on a negative delay (\<open>time_sleep\<close>): the
  trace theorems assume a non-negative \<open>initial_delay\<close> and \<open>backoff_factor\<close>, and
  \<open>retry_negative_delay_raises\<close> gives the run when a delay of the schedule is negative.
\<close>

section \<open>Effects of the wrappers\<close>

datatype diag =
    Rate_limit_exceeded py_exc
  | Try_again_later
  | Connection_error py_exc
  | Check_connection
  | Api_error py_exc
  | Unexpected_error py_exc
  | Failed_after int
  | Attempt_failed int py_exc
  | Retrying_in real

datatype event = Print diag | Sleep real | Invoke int

text \<open>The delays slept and the attempts invoked, in order, read off an effect list.\<close>

fun sleeps :: "event list \<Rightarrow> real list" where
  "sleeps [] = []"
| "sleeps (Sleep d # es) = d # sleeps es"
| "sleeps (_ # es) = sleeps es"

fun invocations :: "event list \<Rightarrow> int list" where
  "invocations [] = []"
| "invocations (Invoke i # es) = i # invocations es"
| "invocations (_ # es) = invocations es"

section \<open>handle\_api\_errors\<close>

text \<open>
  The wrapper calls the function once; on an exception it prints the diagnostic of the
  first \<open>except\<close> clause whose class matches, in the source's order (\<open>RateLimitError\<close>,
  \<open>APIConnectionError\<close>, \<open>APIError\<close>, \<open>Exception\<close>), and re-raises it.
\<close>

definition handle_api_errors :: "('x \<Rightarrow> py_exc + 'a) \<Rightarrow> 'x \<Rightarrow> (py_exc + 'a) \<times> event list" where
  "handle_api_errors func args =
     (case func args of
        Inr v \<Rightarrow> (Inr v, [])
      | Inl e \<Rightarrow>
          (Inl e,
           if is_RateLimitError e then [Print (Rate_limit_exceeded e), Print Try_again_later]
           else if is_APIConnectionError e then [Print (Connection_error e), Print Check_connection]
           else if is_APIError e then [Print (Api_error e)]
           else [Print (Unexpected_error e)]))"

section \<open>retry\_with\_backoff\<close>

record retry_cfg =
  max_retries :: int
  initial_delay :: real
  backoff_factor :: real

text \<open>The exception classes the retry loop catches: \<open>(RateLimitError, APIConnectionError)\<close>.\<close>

definition retryable :: "py_exc \<Rightarrow> bool" where
  "retryable e = (is_RateLimitError e \<or> is_APIConnectionError e)"

text \<open>An outcome that the loop retries.\<close>

definition fails_retryably :: "py_exc + 'a \<Rightarrow> bool" where
  "fails_retryably r = (case r of Inl e \<Rightarrow> retryable e | Inr _ \<Rightarrow> False)"

text \<open>
  The body of \<open>wrapper\<close>: the loop \<open>for attempt in range(max_retries + 1)\<close> over the
  attempts still to run, with the current \<open>delay\<close> and \<open>last_exception\<close>; when the
  range is exhausted without a \<open>return\<close> or \<open>raise\<close>, the code after the loop runs.
  The \<open>ValueError\<close> of \<open>time.sleep\<close> is raised inside the \<open>except\<close> clause, so no
  clause of the same \<open>try\<close> catches it and it leaves the wrapper.
  The value of a call that returns is \<open>Inr (Some v)\<close>; \<open>Inr None\<close> is the implicit
  \<open>None\<close> that \<open>wrapper\<close> returns when it falls off its end.
\<close>

text \<open>
  \<open>time.sleep(delay)\<close>: a negative length raises \<open>ValueError\<close> (CPython's message);
  otherwise the call returns once the delay has passed.
\<close>

definition time_sleep :: "real \<Rightarrow> py_exc + unit" where
  "time_sleep secs = (if secs < 0 then Inl (ValueError ''sleep length must be non-negative'') else Inr ())"

fun retry_loop ::
  "retry_cfg \<Rightarrow> (int \<Rightarrow> py_exc + 'a) \<Rightarrow> int list \<Rightarrow> real \<Rightarrow> py_exc option
     \<Rightarrow> (py_exc + 'a option) \<times> event list" where
  "retry_loop cfg f [] delay last_exception =
     (case last_exception of
        Some e \<Rightarrow> (Inl e, [])
      | None \<Rightarrow> (Inr None, []))"
| "retry_loop cfg f (attempt # rest) delay last_exception =
     (case f attempt of
        Inr v \<Rightarrow> (Inr (Some v), [Invoke attempt])
      | Inl e \<Rightarrow>
          if retryable e then
            (if attempt = max_retries cfg
             then (Inl e, [Invoke attempt, Print (Failed_after (max_retries cfg))])
             else
               (let printed = [Invoke attempt, Print (Attempt_failed (attempt + 1) e), Print (Retrying_in delay)]
                in case time_sleep delay of
                     Inl err \<Rightarrow> (Inl err, printed)
                   | Inr _ \<Rightarrow>
                       (let (r, es) = retry_loop cfg f rest (delay * backoff_factor cfg) (Some e)
                        in (r, printed @ Sleep delay # es))))
          else (Inl e, [Invoke attempt]))"

text \<open>\<open>retry_with_backoff(max_retries, initial_delay, backoff_factor)(func)(*args)\<close>.\<close>

definition retry_with_backoff ::
  "retry_cfg \<Rightarrow> (int \<Rightarrow> py_exc + 'a) \<Rightarrow> (py_exc + 'a option) \<times> event list" where
  "retry_with_backoff cfg f =
     retry_loop cfg f (py_range (max_retries cfg + 1)) (initial_delay cfg) None"

section \<open>The contract of the retry wrapper\<close>

text \<open>
  The abstract specification (spec, section 4.1): the result is the outcome of the first
  attempt that does not fail with a retryable error, or, when every attempt does, the
  error of the last one; with a negative budget no attempt runs.
\<close>

definition retry_spec :: "retry_cfg \<Rightarrow> (int \<Rightarrow> py_exc + 'a) \<Rightarrow> py_exc + 'a option" where
  "retry_spec cfg f =
     (if max_retries cfg < 0 then Inr None
      else
        (let i = (case find (\<lambda>i. \<not> fails_retryably (f i)) [0..max_retries cfg] of
                    Some i \<Rightarrow> i
                  | None \<Rightarrow> max_retries cfg)
         in map_sum id Some (f i)))"

text \<open>The delays of the geometric schedule \<open>initial_delay * backoff_factor ^ i\<close>.\<close>

definition backoff_schedule :: "real \<Rightarrow> real \<Rightarrow> nat \<Rightarrow> real list" where
  "backoff_schedule d b n = map (\<lambda>i. d * b ^ i) [0..<n]"

subsection \<open>Example runs\<close>

text \<open>
  A budget of three retries starting at one second and doubling; a call that is
  rate-limited twice and then returns 42; a server that is unreachable on every attempt.
\<close>

definition demo_cfg :: retry_cfg where
  "demo_cfg = \<lparr>max_retries = 3, initial_delay = 1, backoff_factor = 2\<rparr>"

definition demo_flaky :: "int \<Rightarrow> py_exc + nat" where
  "demo_flaky i = (if i < 2 then Inl (APIStatusError RateLimit ''429'') else Inr 42)"

definition demo_down :: "int \<Rightarrow> py_exc + nat" where
  "demo_down i = Inl (APIConnectionError (''attempt'' @ (if i = 3 then ''3'' else ''n'')))"

section \<open>Lemmas on the retry loop\<close>

lemma fails_retryably_simps [simp]:
  "fails_retryably (Inl e) = retryable e"
  "fails_retryably (Inr v) = False"
  by (simp_all add: fails_retryably_def)

lemma time_sleep_simps [simp]:
  "0 \<le> d \<Longrightarrow> time_sleep d = Inr ()"
  "d < 0 \<Longrightarrow> time_sleep d = Inl (ValueError ''sleep length must be non-negative'')"
  by (simp_all add: time_sleep_def)

lemma backoff_nonneg: "0 \<le> (d :: real) \<Longrightarrow> 0 \<le> b \<Longrightarrow> \<forall>i<n. 0 \<le> d * b ^ i"
  by (auto intro!: mult_nonneg_nonneg zero_le_power)

lemma retry_loop_refines:
  assumes "m = max_retries cfg" "m \<notin> set xs" "0 \<le> d" "0 \<le> backoff_factor cfg"
  shows "fst (retry_loop cfg f (xs @ [m]) d l) =
     map_sum id Some (f (case find (\<lambda>i. \<not> fails_retryably (f i)) (xs @ [m]) of Some i \<Rightarrow> i | None \<Rightarrow> m))"
  using assms
proof (induction xs arbitrary: d l)
  case Nil
  then show ?case
    by (auto split: sum.splits)
next
  case (Cons x xs)
  have "0 \<le> d * backoff_factor cfg" using Cons.prems(3,4) by simp
  with Cons show ?case by (cases "f x") (auto simp: Let_def)
qed

lemma sleeps_append [simp]: "sleeps (xs @ ys) = sleeps xs @ sleeps ys"
  by (induction xs rule: sleeps.induct) auto

lemma invocations_append [simp]: "invocations (xs @ ys) = invocations xs @ invocations ys"
  by (induction xs rule: invocations.induct) auto

lemma backoff_schedule_0 [simp]: "backoff_schedule d b 0 = []"
  by (simp add: backoff_schedule_def)

lemma backoff_schedule_Suc: "backoff_schedule d b (Suc n) = d # backoff_schedule (d * b) b n"
  unfolding backoff_schedule_def map_upt_Suc by (simp add: mult.assoc)

lemma retry_loop_retry_step:
  assumes "f k = Inl e" "retryable e" "k < max_retries cfg" "0 \<le> d"
  shows "retry_loop cfg f [k..max_retries cfg] d l =
    (fst (retry_loop cfg f [k + 1..max_retries cfg] (d * backoff_factor cfg) (Some e)),
     [Invoke k, Print (Attempt_failed (k + 1) e), Print (Retrying_in d), Sleep d]
       @ snd (retry_loop cfg f [k + 1..max_retries cfg] (d * backoff_factor cfg) (Some e)))"
  using assms by (simp add: upto_Cons_step split_beta)

lemma retry_loop_sleep_fails:
  assumes "f k = Inl e" "retryable e" "k < max_retries cfg" "d < 0"
  shows "retry_loop cfg f [k..max_retries cfg] d l =
    (Inl (ValueError ''sleep length must be non-negative''),
     [Invoke k, Print (Attempt_failed (k + 1) e), Print (Retrying_in d)])"
  using assms by (simp add: upto_Cons_step)

lemma retry_loop_retryable_prefix:
  assumes "k + int n \<le> max_retries cfg"
    and "\<forall>i<n. fails_retryably (f (k + int i))"
    and "\<forall>i<n. 0 \<le> d * backoff_factor cfg ^ i"
  shows "\<exists>l' es. retry_loop cfg f [k..max_retries cfg] d l =
           (fst (retry_loop cfg f [k + int n..max_retries cfg] (d * backoff_factor cfg ^ n) l'),
            es @ snd (retry_loop cfg f [k + int n..max_retries cfg] (d * backoff_factor cfg ^ n) l'))
         \<and> invocations es = [k..k + int n - 1]
         \<and> sleeps es = backoff_schedule d (backoff_factor cfg) n"
  using assms
proof (induction n arbitrary: k d l)
  case 0
  show ?case by (rule exI[of _ l], rule exI[of _ "[]"]) simp
next
  case (Suc n)
  from Suc.prems(2) have "fails_retryably (f k)"
    by (metis add.right_neutral of_nat_0 zero_less_Suc)
  then obtain e where fk: "f k = Inl e" "retryable e"
    by (cases "f k") auto
  have km: "k < max_retries cfg" using Suc.prems(1) by simp
  have pre: "\<forall>i<n. fails_retryably (f (k + 1 + int i))"
    using Suc.prems(2) by (metis Suc_mono add.assoc of_nat_Suc add.commute)
  have bound: "k + 1 + int n \<le> max_retries cfg" using Suc.prems(1) by simp
  have d0: "0 \<le> d" using Suc.prems(3)[rule_format, of 0] by simp
  have nonneg: "\<forall>i<n. 0 \<le> d * backoff_factor cfg * backoff_factor cfg ^ i"
  proof (intro allI impI)
    fix i assume "i < n"
    then show "0 \<le> d * backoff_factor cfg * backoff_factor cfg ^ i"
      using Suc.prems(3)[rule_format, of "Suc i"] by (simp add: mult.assoc)
  qed
  obtain l' es where IH: "retry_loop cfg f [k + 1..max_retries cfg] (d * backoff_factor cfg) (Some e) =
           (fst (retry_loop cfg f [k + 1 + int n..max_retries cfg] (d * backoff_factor cfg * backoff_factor cfg ^ n) l'),
            es @ snd (retry_loop cfg f [k + 1 + int n..max_retries cfg] (d * backoff_factor cfg * backoff_factor cfg ^ n) l'))"
      and inv: "invocations es = [k + 1..k + 1 + int n - 1]"
      and slp: "sleeps es = backoff_schedule (d * backoff_factor cfg) (backoff_factor cfg) n"
    using Suc.IH[OF bound pre nonneg] by blast
  have eqs: "k + 1 + int n = k + int (Suc n)"
    "d * backoff_factor cfg * backoff_factor cfg ^ n = d * backoff_factor cfg ^ Suc n"
    by (simp_all add: mult.assoc)
  let ?es = "[Invoke k, Print (Attempt_failed (k + 1) e), Print (Retrying_in d), Sleep d] @ es"
  have "invocations ?es = [k..k + int (Suc n) - 1]"
    using inv upto_rec1[of k "k + int n"] by simp
  moreover have "sleeps ?es = backoff_schedule d (backoff_factor cfg) (Suc n)"
    using slp by (simp add: backoff_schedule_Suc)
  moreover have "retry_loop cfg f [k..max_retries cfg] d l =
           (fst (retry_loop cfg f [k + int (Suc n)..max_retries cfg] (d * backoff_factor cfg ^ Suc n) l'),
            ?es @ snd (retry_loop cfg f [k + int (Suc n)..max_retries cfg] (d * backoff_factor cfg ^ Suc n) l'))"
    using retry_loop_retry_step[of f k e cfg d l] fk km d0 IH eqs by simp
  ultimately show ?case by blast
qed

lemma retry_loop_stop:
  assumes "j \<le> max_retries cfg" "\<not> fails_retryably (f j) \<or> j = max_retries cfg"
  shows "retry_loop cfg f [j..max_retries cfg] d l =
    (map_sum id Some (f j),
     Invoke j # (if fails_retryably (f j) then [Print (Failed_after (max_retries cfg))] else []))"
  using assms by (cases "f j") (auto simp: upto_Cons_step)

lemma retry_with_backoff_range:
  "0 \<le> max_retries cfg \<Longrightarrow>
   retry_with_backoff cfg f = retry_loop cfg f [0..max_retries cfg] (initial_delay cfg) None"
  by (simp add: retry_with_backoff_def py_range_def)

text \<open>The run that stops at attempt n: the lemma the trace theorems share.\<close>

lemma retry_with_backoff_stops_at:
  assumes "int n \<le> max_retries cfg"
    and "\<forall>i<n. fails_retryably (f (int i))"
    and "\<not> fails_retryably (f (int n)) \<or> int n = max_retries cfg"
    and "\<forall>i<n. 0 \<le> initial_delay cfg * backoff_factor cfg ^ i"
  shows "fst (retry_with_backoff cfg f) = map_sum id Some (f (int n))
    \<and> invocations (snd (retry_with_backoff cfg f)) = [0..int n]
    \<and> sleeps (snd (retry_with_backoff cfg f)) = backoff_schedule (initial_delay cfg) (backoff_factor cfg) n"
proof -
  have m: "0 \<le> max_retries cfg" using assms(1) by simp
  obtain l' es where run: "retry_loop cfg f [0..max_retries cfg] (initial_delay cfg) None =
      (fst (retry_loop cfg f [int n..max_retries cfg] (initial_delay cfg * backoff_factor cfg ^ n) l'),
       es @ snd (retry_loop cfg f [int n..max_retries cfg] (initial_delay cfg * backoff_factor cfg ^ n) l'))"
    and inv: "invocations es = [0..int n - 1]"
    and slp: "sleeps es = backoff_schedule (initial_delay cfg) (backoff_factor cfg) n"
    using retry_loop_retryable_prefix[of 0 n cfg f "initial_delay cfg" None] assms(1,2,4) by auto
  have stop: "retry_loop cfg f [int n..max_retries cfg] (initial_delay cfg * backoff_factor cfg ^ n) l' =
    (map_sum id Some (f (int n)),
     Invoke (int n) # (if fails_retryably (f (int n)) then [Print (Failed_after (max_retries cfg))] else []))"
    using retry_loop_stop assms(1,3) by blast
  have "[0..int n - 1] @ [int n] = [0..int n]"
    using upto_rec2[of 0 "int n"] by simp
  then show ?thesis
    using retry_with_backoff_range[OF m, of f] run inv slp stop by simp
qed

text \<open>C1: when the first n attempts fail with a retryable error (rate limit or connection failure) and attempt n returns v, with n within the budget and a non-negative initial_delay and backoff_factor, the wrapper returns v, has invoked the function exactly n + 1 times (attempts 0 to n) and has slept exactly n times, for initial_delay * backoff_factor ^ i seconds before retry i + 1.\<close>

theorem retry_succeeds_after_transient_failures:
  assumes "int n \<le> max_retries cfg"
    and "\<forall>i<n. fails_retryably (f (int i))"
    and "f (int n) = Inr v"
    and "0 \<le> initial_delay cfg" and "0 \<le> backoff_factor cfg"
  shows "fst (retry_with_backoff cfg f) = Inr (Some v)
    \<and> invocations (snd (retry_with_backoff cfg f)) = [0..int n]
    \<and> sleeps (snd (retry_with_backoff cfg f)) = backoff_schedule (initial_delay cfg) (backoff_factor cfg) n"
  using retry_with_backoff_stops_at[of n cfg f] backoff_nonneg[OF assms(4,5)] assms(1-3) by simp

text \<open>C2: when every attempt of the budget fails with a retryable error, and initial_delay and backoff_factor are non-negative, the wrapper re-raises the error of the last attempt after exactly max_retries + 1 invocations and max_retries sleeps of the geometric schedule.\<close>

theorem retry_gives_up_after_budget:
  assumes "0 \<le> max_retries cfg"
    and "\<forall>i\<in>{0..max_retries cfg}. fails_retryably (f i)"
    and "f (max_retries cfg) = Inl e"
    and "0 \<le> initial_delay cfg" and "0 \<le> backoff_factor cfg"
  shows "fst (retry_with_backoff cfg f) = Inl e
    \<and> invocations (snd (retry_with_backoff cfg f)) = [0..max_retries cfg]
    \<and> sleeps (snd (retry_with_backoff cfg f)) =
        backoff_schedule (initial_delay cfg) (backoff_factor cfg) (nat (max_retries cfg))"
proof -
  have "\<forall>i<nat (max_retries cfg). fails_retryably (f (int i))"
    using assms(2) by auto
  then show ?thesis
    using retry_with_backoff_stops_at[of "nat (max_retries cfg)" cfg f] backoff_nonneg[OF assms(4,5)]
      assms(1,3) by simp
qed

text \<open>C3: an error that is neither a rate limit nor a connection failure, raised by the first attempt, is re-raised at once: one invocation, no sleep and no diagnostic.\<close>

theorem retry_no_retry_on_other_errors:
  assumes "0 \<le> max_retries cfg" and "f 0 = Inl e" and "\<not> retryable e"
  shows "retry_with_backoff cfg f = (Inl e, [Invoke 0])"
  using retry_loop_stop[of 0 cfg f] assms by (simp add: retry_with_backoff_range)

text \<open>C6: with a negative max_retries the range of attempts is empty: the wrapper never calls the function and returns None instead of a result or an error.\<close>

theorem retry_negative_budget_never_calls:
  "max_retries cfg < 0 \<Longrightarrow> retry_with_backoff cfg f = (Inr None, [])"
  by (simp add: retry_with_backoff_def)

text \<open>C4: with a non-negative initial_delay and backoff_factor (so that every time.sleep returns), the result of the wrapper is that of the abstract retry contract: the outcome of the first attempt that does not fail retryably, or the error of the last attempt when all of them do.\<close>

theorem retry_with_backoff_refines_spec:
  assumes "0 \<le> initial_delay cfg" and "0 \<le> backoff_factor cfg"
  shows "fst (retry_with_backoff cfg f) = retry_spec cfg f"
proof (cases "max_retries cfg < 0")
  case True
  then show ?thesis by (simp add: retry_with_backoff_def retry_spec_def)
next
  case False
  then have "py_range (max_retries cfg + 1) = [0..max_retries cfg - 1] @ [max_retries cfg]"
    by (simp add: py_range_snoc)
  with False show ?thesis
    using retry_loop_refines[of "max_retries cfg" cfg "[0..max_retries cfg - 1]" "initial_delay cfg" f None]
      assms
    by (simp add: retry_with_backoff_def retry_spec_def upto_rec2[symmetric])
qed

text \<open>C25: a negative delay makes time.sleep raise: when attempts 0 to n fail retryably, n is below max_retries, the first n delays initial_delay * backoff_factor ^ i are non-negative and delay n is negative (a negative initial_delay, or a negative backoff_factor from the second retry on), the wrapper raises ValueError instead of retrying, after n + 1 invocations and the n sleeps of the schedule.\<close>

theorem retry_negative_delay_raises:
  assumes "int n < max_retries cfg"
    and "\<forall>i\<le>n. fails_retryably (f (int i))"
    and "\<forall>i<n. 0 \<le> initial_delay cfg * backoff_factor cfg ^ i"
    and "initial_delay cfg * backoff_factor cfg ^ n < 0"
  shows "fst (retry_with_backoff cfg f) = Inl (ValueError ''sleep length must be non-negative'')
    \<and> invocations (snd (retry_with_backoff cfg f)) = [0..int n]
    \<and> sleeps (snd (retry_with_backoff cfg f)) = backoff_schedule (initial_delay cfg) (backoff_factor cfg) n"
proof -
  have m: "0 \<le> max_retries cfg" using assms(1) by simp
  obtain l' es where run: "retry_loop cfg f [0..max_retries cfg] (initial_delay cfg) None =
      (fst (retry_loop cfg f [int n..max_retries cfg] (initial_delay cfg * backoff_factor cfg ^ n) l'),
       es @ snd (retry_loop cfg f [int n..max_retries cfg] (initial_delay cfg * backoff_factor cfg ^ n) l'))"
    and inv: "invocations es = [0..int n - 1]"
    and slp: "sleeps es = backoff_schedule (initial_delay cfg) (backoff_factor cfg) n"
    using retry_loop_retryable_prefix[of 0 n cfg f "initial_delay cfg" None] assms(1-3) by auto
  obtain e where fn: "f (int n) = Inl e" "retryable e"
    using assms(2) by (cases "f (int n)") auto
  have "[0..int n - 1] @ [int n] = [0..int n]"
    using upto_rec2[of 0 "int n"] by simp
  then show ?thesis
    using retry_with_backoff_range[OF m, of f] run inv slp
      retry_loop_sleep_fails[where f = f and k = "int n" and l = l', OF fn assms(1) assms(4)] by simp
qed

lemma length_backoff_schedule [simp]: "length (backoff_schedule d b n) = n"
  by (simp add: backoff_schedule_def)

text \<open>The shape of every run of the loop from attempt k, whatever the function returns and whatever the delays: consecutive invocations from k, one more than the sleeps, and the sleeps a prefix of the schedule.\<close>

lemma retry_loop_schedule:
  assumes "k \<le> max_retries cfg" "es = snd (retry_loop cfg f [k..max_retries cfg] d l)"
  shows "k + int (length (sleeps es)) \<le> max_retries cfg
    \<and> sleeps es = backoff_schedule d (backoff_factor cfg) (length (sleeps es))
    \<and> invocations es = [k..k + int (length (sleeps es))]"
  using assms
proof (induction "nat (max_retries cfg - k)" arbitrary: k d l es)
  case 0
  then have "k = max_retries cfg" by simp
  with 0 show ?case by (cases "f k") (auto simp: upto_Cons_step Let_def)
next
  case (Suc x)
  then have km: "k < max_retries cfg" by simp
  show ?case
  proof (cases "f k")
    case (Inl e)
    show ?thesis
    proof (cases "retryable e \<and> 0 \<le> d")
      case True
      let ?es = "snd (retry_loop cfg f [k + 1..max_retries cfg] (d * backoff_factor cfg) (Some e))"
      have es: "es = [Invoke k, Print (Attempt_failed (k + 1) e), Print (Retrying_in d), Sleep d] @ ?es"
        using Suc.prems(2) retry_loop_retry_step[of f k e cfg d l] Inl True km by simp
      have IH: "k + 1 + int (length (sleeps ?es)) \<le> max_retries cfg
          \<and> sleeps ?es = backoff_schedule (d * backoff_factor cfg) (backoff_factor cfg) (length (sleeps ?es))
          \<and> invocations ?es = [k + 1..k + 1 + int (length (sleeps ?es))]"
        using Suc.hyps(1)[where k = "k + 1" and d = "d * backoff_factor cfg" and l = "Some e" and es = ?es] Suc.hyps(2) km by simp
      have "k # [k + 1..k + 1 + int (length (sleeps ?es))] = [k..k + int (Suc (length (sleeps ?es)))]"
        using upto_rec1[of k "k + 1 + int (length (sleeps ?es))"] by (simp add: add.assoc)
      then show ?thesis using es IH by (simp add: backoff_schedule_Suc)
    next
      case False
      then show ?thesis
        using Suc.prems Inl km by (auto simp: upto_Cons_step time_sleep_def)
    qed
  next
    case (Inr v)
    then show ?thesis using Suc.prems by (simp add: upto_Cons_step)
  qed
qed

text \<open>C5: whatever the wrapped function does, the wrapper sleeps at most max_retries times, its sleeps are a prefix of the geometric schedule initial_delay * backoff_factor ^ i (no jitter, no cap), and it invokes the function once more than it sleeps, on consecutive attempts from 0.\<close>

theorem retry_schedule_bounds:
  assumes "0 \<le> max_retries cfg"
  shows "length (sleeps (snd (retry_with_backoff cfg f))) \<le> nat (max_retries cfg)
    \<and> sleeps (snd (retry_with_backoff cfg f)) =
        backoff_schedule (initial_delay cfg) (backoff_factor cfg) (length (sleeps (snd (retry_with_backoff cfg f))))
    \<and> invocations (snd (retry_with_backoff cfg f)) = [0..int (length (sleeps (snd (retry_with_backoff cfg f))))]"
  using retry_loop_schedule[OF assms refl, of f "initial_delay cfg" None]
  by (simp add: retry_with_backoff_range[OF assms] le_nat_iff)

text \<open>C7: handle_api_errors returns or raises exactly what the wrapped function does, and prints something exactly when the function raises.\<close>

theorem handle_api_errors_transparent:
  "fst (handle_api_errors func x) = func x
   \<and> (snd (handle_api_errors func x) = [] \<longleftrightarrow> (\<exists>v. func x = Inr v))"
  by (cases "func x") (auto simp: handle_api_errors_def)

text \<open>C8: handle_api_errors prints the diagnostic of the most specific class of the error: the rate-limit advice for RateLimitError (although it is also an APIError), the connection advice for connection failures, the generic API message for other API errors, and the unexpected-error message otherwise.\<close>

theorem handle_api_errors_most_specific_first:
  assumes "func x = Inl e"
  shows "(is_RateLimitError e \<longrightarrow>
            snd (handle_api_errors func x) = [Print (Rate_limit_exceeded e), Print Try_again_later])
       \<and> (is_APIConnectionError e \<longrightarrow>
            snd (handle_api_errors func x) = [Print (Connection_error e), Print Check_connection])
       \<and> (is_APIError e \<and> \<not> is_RateLimitError e \<and> \<not> is_APIConnectionError e \<longrightarrow>
            snd (handle_api_errors func x) = [Print (Api_error e)])
       \<and> (\<not> is_APIError e \<longrightarrow> snd (handle_api_errors func x) = [Print (Unexpected_error e)])"
  using assms by (cases e rule: is_RateLimitError.cases) (auto simp: handle_api_errors_def)

section \<open>Example runs of the retry wrapper\<close>

theorem retry_succeeds_after_transient_failures_witness:
  "int 2 \<le> max_retries demo_cfg
   \<and> fails_retryably (demo_flaky 0) \<and> fails_retryably (demo_flaky 1)
   \<and> demo_flaky (int 2) = Inr 42
   \<and> fst (retry_with_backoff demo_cfg demo_flaky) = Inr (Some 42)
   \<and> invocations (snd (retry_with_backoff demo_cfg demo_flaky)) = [0, 1, 2]
   \<and> sleeps (snd (retry_with_backoff demo_cfg demo_flaky)) = [1, 2]"
proof -
  have h: "int 2 \<le> max_retries demo_cfg" "\<forall>i<2. fails_retryably (demo_flaky (int i))"
      "demo_flaky (int 2) = Inr 42" "0 \<le> initial_delay demo_cfg" "0 \<le> backoff_factor demo_cfg"
    by (auto simp: demo_cfg_def demo_flaky_def retryable_def less_Suc_eq numeral_2_eq_2)
  have e: "fails_retryably (demo_flaky 0) \<and> fails_retryably (demo_flaky 1)"
    by (simp add: demo_flaky_def retryable_def)
  show ?thesis
    using h e retry_succeeds_after_transient_failures[OF h]
    by (simp add: backoff_schedule_def demo_cfg_def upto_Cons_step upt_rec)
qed

theorem retry_gives_up_after_budget_witness:
  "0 \<le> max_retries demo_cfg
   \<and> fails_retryably (demo_down 0) \<and> fails_retryably (demo_down 1)
   \<and> fails_retryably (demo_down 2) \<and> fails_retryably (demo_down 3)
   \<and> demo_down (max_retries demo_cfg) = Inl (APIConnectionError ''attempt3'')
   \<and> fst (retry_with_backoff demo_cfg demo_down) = Inl (APIConnectionError ''attempt3'')
   \<and> invocations (snd (retry_with_backoff demo_cfg demo_down)) = [0, 1, 2, 3]
   \<and> sleeps (snd (retry_with_backoff demo_cfg demo_down)) = [1, 2, 4]"
proof -
  have h: "0 \<le> max_retries demo_cfg" "\<forall>i\<in>{0..max_retries demo_cfg}. fails_retryably (demo_down i)"
      "demo_down (max_retries demo_cfg) = Inl (APIConnectionError ''attempt3'')"
      "0 \<le> initial_delay demo_cfg" "0 \<le> backoff_factor demo_cfg"
    by (auto simp: demo_cfg_def demo_down_def retryable_def)
  have e: "fails_retryably (demo_down 0) \<and> fails_retryably (demo_down 1)
      \<and> fails_retryably (demo_down 2) \<and> fails_retryably (demo_down 3)"
    by (simp add: demo_down_def retryable_def)
  show ?thesis
    using h e retry_gives_up_after_budget[OF h]
    by (simp add: backoff_schedule_def demo_cfg_def upto_Cons_step upt_rec)
qed

theorem retry_with_backoff_refines_spec_witness:
  "0 \<le> initial_delay demo_cfg \<and> 0 \<le> backoff_factor demo_cfg
   \<and> fst (retry_with_backoff demo_cfg demo_flaky) = retry_spec demo_cfg demo_flaky
   \<and> retry_spec demo_cfg demo_flaky = Inr (Some 42)"
proof -
  have h: "0 \<le> initial_delay demo_cfg" "0 \<le> backoff_factor demo_cfg"
    by (simp_all add: demo_cfg_def)
  have s: "retry_spec demo_cfg demo_flaky = Inr (Some 42)"
    by (simp add: retry_spec_def demo_cfg_def demo_flaky_def retryable_def upto_Cons_step)
  show ?thesis using h s retry_with_backoff_refines_spec[OF h, of demo_flaky] by simp
qed

text \<open>A negative backoff factor: the first retry sleeps one second, the second would sleep -2.\<close>

theorem retry_negative_delay_raises_witness:
  "int 1 < max_retries (demo_cfg\<lparr>backoff_factor := -2\<rparr>)
   \<and> fails_retryably (demo_flaky 0) \<and> fails_retryably (demo_flaky 1)
   \<and> initial_delay (demo_cfg\<lparr>backoff_factor := -2\<rparr>) * backoff_factor (demo_cfg\<lparr>backoff_factor := -2\<rparr>) ^ 1 < 0
   \<and> fst (retry_with_backoff (demo_cfg\<lparr>backoff_factor := -2\<rparr>) demo_flaky)
       = Inl (ValueError ''sleep length must be non-negative'')
   \<and> invocations (snd (retry_with_backoff (demo_cfg\<lparr>backoff_factor := -2\<rparr>) demo_flaky)) = [0, 1]
   \<and> sleeps (snd (retry_with_backoff (demo_cfg\<lparr>backoff_factor := -2\<rparr>) demo_flaky)) = [1]"
proof -
  have h: "int 1 < max_retries (demo_cfg\<lparr>backoff_factor := -2\<rparr>)"
      "\<forall>i\<le>1. fails_retryably (demo_flaky (int i))"
      "\<forall>i<1. 0 \<le> initial_delay (demo_cfg\<lparr>backoff_factor := -2\<rparr>) * backoff_factor (demo_cfg\<lparr>backoff_factor := -2\<rparr>) ^ i"
      "initial_delay (demo_cfg\<lparr>backoff_factor := -2\<rparr>) * backoff_factor (demo_cfg\<lparr>backoff_factor := -2\<rparr>) ^ 1 < 0"
    by (auto simp: demo_cfg_def demo_flaky_def retryable_def le_Suc_eq)
  have e: "fails_retryably (demo_flaky 0) \<and> fails_retryably (demo_flaky 1)"
    by (simp add: demo_flaky_def retryable_def)
  show ?thesis
    using h e retry_negative_delay_raises[OF h]
    by (simp add: backoff_schedule_def demo_cfg_def upto_Cons_step)
qed

theorem retry_no_retry_on_other_errors_witness:
  "retry_with_backoff demo_cfg (\<lambda>i. Inl (APIStatusError Authentication ''401'') :: py_exc + nat)
     = (Inl (APIStatusError Authentication ''401''), [Invoke 0])"
  using retry_no_retry_on_other_errors[of demo_cfg "\<lambda>i. Inl (APIStatusError Authentication ''401'') :: py_exc + nat"]
  by (simp add: demo_cfg_def retryable_def)

theorem retry_negative_budget_never_calls_witness:
  "retry_with_backoff (demo_cfg\<lparr>max_retries := -1\<rparr>) demo_flaky = (Inr None, [])"
  using retry_negative_budget_never_calls[of "demo_cfg\<lparr>max_retries := -1\<rparr>" demo_flaky]
  by simp

theorem retry_schedule_bounds_witness:
  "0 \<le> max_retries demo_cfg
   \<and> length (sleeps (snd (retry_with_backoff demo_cfg demo_flaky))) \<le> 3
   \<and> sleeps (snd (retry_with_backoff demo_cfg demo_flaky)) = backoff_schedule 1 2 2"
proof -
  have h: "0 \<le> max_retries demo_cfg" by (simp add: demo_cfg_def)
  have n: "length (sleeps (snd (retry_with_backoff demo_cfg demo_flaky))) = 2"
    by (simp add: demo_cfg_def demo_flaky_def retry_with_backoff_def py_range_def upto_Cons_step retryable_def)
  show ?thesis
    using h n retry_schedule_bounds[OF h, of demo_flaky] by (simp add: demo_cfg_def)
qed

theorem handle_api_errors_most_specific_first_witness:
  "(\<lambda>_. Inl (APIStatusError RateLimit ''429'') :: py_exc + nat) () = Inl (APIStatusError RateLimit ''429'')
   \<and> snd (handle_api_errors (\<lambda>_. Inl (APIStatusError RateLimit ''429'') :: py_exc + nat) ())
     = [Print (Rate_limit_exceeded (APIStatusError RateLimit ''429'')), Print Try_again_later]"
  using handle_api_errors_most_specific_first[of "\<lambda>_. Inl (APIStatusError RateLimit ''429'') :: py_exc + nat" "()"]
  by simp

end
