(* ===== verification/Tool_Use.thy ===== *)
theory Tool_Use
  imports Anthropic_Api
begin

text \<open>
  \<open>src/examples/10_tool_use.py\<close>, function \<open>process_tool_call\<close> (lines 182--234):
  the tool-call orchestration loop. The loop keeps a local transcript \<open>messages\<close>; each
  turn of \<open>while True\<close> sends it to the model (\<open>client.messages.create\<close>), and
  either returns the text of a final answer or, on \<open>stop_reason == "tool_use"\<close>,
  appends the assistant's content, runs every requested tool found in
  \<open>function_map\<close>, and appends the list of results as a user entry.
  \<^item> \<open>tool_env\<close>: what the function reads from its surroundings: the module-level
    \<open>client\<close> (an oracle answering the \<open>n\<close>-th request) and Python's \<open>str\<close>, which
    turns a tool's return value into the result's content;
  \<^item> \<open>loop_state\<close>: the transcript and the requests issued so far, in order;
  \<^item> \<open>run_tools\<close>: the inner \<open>for block in response.content\<close> loop;
  \<^item> \<open>tool_loop_body\<close>: one turn of \<open>while True\<close>, which continues or leaves the
    loop (by \<open>return\<close> or by an exception);
  \<^item> \<open>tool_loop\<close>: the loop itself, a \<^theory_text>\<open>partial_function\<close> in the option
    monad since the model may ask for tools forever; \<open>None\<close> is a run that never ends;
  \<^item> \<open>tool_reach\<close>: the states the loop can reach, as an inductive relation;
  \<^item> \<open>results_by_id\<close>: the results as the model reads them, by \<open>tool_use_id\<close>;
  \<^item> \<open>run_tools_out\<close>: the lines the inner loop prints (lines 215 and 221), kept in the
    field \<open>printed\<close> of the state, up to the first exception;
  \<^item> the calculator tools and registry of Example 2 (lines 143--180), a conversation,
    and \<open>asking_env\<close>, a model that asks for tools at every request.
  The lemmas give the four ways a turn ends, the fixpoint induction
  \<open>tool_loop_invariant\<close> for properties of the state the loop returns, a run of one
  round of tools, the divergence of a loop that never leaves, and the properties
  C9--C16, C27 and C38.
\<close>

section \<open>Model\<close>

record 'v tool_env =
  create :: api
  to_str :: "'v \<Rightarrow> string"

type_synonym 'v function_map = "string \<rightharpoonup> (tool_input \<Rightarrow> py_exc + 'v)"

text \<open>
  The lines the loop prints: \<open>Using tool: name(input)\<close> before the lookup of line 218,
  and \<open>Result: ...\<close> with \<open>str\<close> of the function's value (lines 215 and 221).
\<close>

datatype tool_print = Using_tool string tool_input | Tool_result string

record loop_state =
  messages :: "message list"
  requests :: "params list"
  printed :: "tool_print list"

text \<open>The keyword arguments of \<open>client.messages.create\<close> in the loop (lines 197--202).\<close>

definition tool_request :: "tool list \<Rightarrow> message list \<Rightarrow> params" where
  "tool_request tools msgs =
     [''model'' \<mapsto> PStr ''claude-sonnet-4-20250514'', ''max_tokens'' \<mapsto> PInt 1024,
      ''tools'' \<mapsto> PTools tools, ''messages'' \<mapsto> PMessages msgs]"

text \<open>
  The \<open>for\<close> loop of lines 210--227: for each \<open>tool_use\<close> block in order, look the
  function up (\<open>function_map[tool_name]\<close> raises \<open>KeyError\<close>), call it with the
  block's arguments (its exception propagates), and collect the result with the block's
  id; other blocks are skipped.
\<close>

fun run_tools :: "'v function_map \<Rightarrow> ('v \<Rightarrow> string) \<Rightarrow> content_block list \<Rightarrow> py_exc + tool_result list" where
  "run_tools fm str [] = Inr []"
| "run_tools fm str (TextBlock _ # bs) = run_tools fm str bs"
| "run_tools fm str (ToolUseBlock i n inp # bs) =
     (case fm n of
        None \<Rightarrow> Inl (KeyError n)
      | Some func \<Rightarrow>
          (case func inp of
             Inl e \<Rightarrow> Inl e
           | Inr result \<Rightarrow>
               (case run_tools fm str bs of
                  Inl e \<Rightarrow> Inl e
                | Inr rs \<Rightarrow> Inr (\<lparr>tool_use_id = i, result_content = str result\<rparr> # rs))))"

text \<open>
  What the same loop prints, up to the first exception: the \<open>Using tool\<close> line of a
  request comes before its function is looked up and called, its \<open>Result\<close> line after.
\<close>

fun run_tools_out :: "'v function_map \<Rightarrow> ('v \<Rightarrow> string) \<Rightarrow> content_block list \<Rightarrow> tool_print list" where
  "run_tools_out fm str [] = []"
| "run_tools_out fm str (TextBlock _ # bs) = run_tools_out fm str bs"
| "run_tools_out fm str (ToolUseBlock i n inp # bs) =
     Using_tool n inp #
       (case fm n of
          None \<Rightarrow> []
        | Some func \<Rightarrow>
            (case func inp of
               Inl e \<Rightarrow> []
             | Inr result \<Rightarrow> Tool_result (str result) # run_tools_out fm str bs))"

datatype loop_step = Continue loop_state | Leave "py_exc + string" loop_state

text \<open>
  One turn of \<open>while True\<close> (lines 197--234). The request is recorded when it is
  issued; the assistant entry is appended before the tools run (line 206), the results
  entry after all of them (line 230).
\<close>

definition tool_loop_body :: "'v tool_env \<Rightarrow> tool list \<Rightarrow> 'v function_map \<Rightarrow> loop_state \<Rightarrow> loop_step" where
  "tool_loop_body env tools fm s =
     (let req = tool_request tools (messages s);
          s1 = s\<lparr>requests := requests s @ [req]\<rparr>
      in case create env (length (requests s)) req of
           Inl e \<Rightarrow> Leave (Inl e) s1
         | Inr response \<Rightarrow>
             if stop_reason response = ToolUse then
               (let ms = messages s @ [\<lparr>msg_role = Assistant, msg_content = Blocks (resp_content response)\<rparr>];
                    out = printed s @ run_tools_out fm (to_str env) (resp_content response)
                in case run_tools fm (to_str env) (resp_content response) of
                     Inl e \<Rightarrow> Leave (Inl e) (s1\<lparr>messages := ms, printed := out\<rparr>)
                   | Inr tool_results \<Rightarrow>
                       Continue (s1\<lparr>messages := ms @ [\<lparr>msg_role = User, msg_content = Results tool_results\<rparr>],
                                    printed := out\<rparr>))
             else Leave (first_text response) s1)"

partial_function (option) tool_loop ::
  "'v tool_env \<Rightarrow> tool list \<Rightarrow> 'v function_map \<Rightarrow> loop_state \<Rightarrow> ((py_exc + string) \<times> loop_state) option" where
  "tool_loop env tools fm s =
     (case tool_loop_body env tools fm s of
        Leave r s' \<Rightarrow> Some (r, s')
      | Continue s' \<Rightarrow> tool_loop env tools fm s')"

definition init_state :: "string \<Rightarrow> loop_state" where
  "init_state user_query =
     \<lparr>messages = [\<lparr>msg_role = User, msg_content = Str user_query\<rparr>], requests = [], printed = []\<rparr>"

text \<open>\<open>process_tool_call(user_query, tools, function_map)\<close>.\<close>

definition process_tool_call ::
  "'v tool_env \<Rightarrow> string \<Rightarrow> tool list \<Rightarrow> 'v function_map \<Rightarrow> ((py_exc + string) \<times> loop_state) option" where
  "process_tool_call env user_query tools fm = tool_loop env tools fm (init_state user_query)"

inductive tool_reach :: "'v tool_env \<Rightarrow> tool list \<Rightarrow> 'v function_map \<Rightarrow> string \<Rightarrow> loop_state \<Rightarrow> bool"
  for env tools fm user_query where
  start: "tool_reach env tools fm user_query (init_state user_query)"
| turn: "tool_reach env tools fm user_query s \<Longrightarrow> tool_loop_body env tools fm s = Continue s'
          \<Longrightarrow> tool_reach env tools fm user_query s'"

section \<open>The transcript invariant\<close>

text \<open>
  Spec, section 3: every tool invocation request appended to the transcript is followed,
  before the next model call, by exactly one tool result with the same id. In the loop's
  transcripts this is a shape: a user question, then pairs of an assistant entry and a
  user entry whose results carry the ids of the assistant's requests, in order.
\<close>

fun tool_pairs_ok :: "message list \<Rightarrow> bool" where
  "tool_pairs_ok [] = True"
| "tool_pairs_ok [_] = False"
| "tool_pairs_ok (a # u # ms) =
     (msg_role a = Assistant \<and> msg_role u = User
      \<and> (case (msg_content a, msg_content u) of
            (Blocks bs, Results rs) \<Rightarrow> map tool_use_id rs = tool_use_ids bs
          | _ \<Rightarrow> False)
      \<and> tool_pairs_ok ms)"

definition transcript_ok :: "message list \<Rightarrow> bool" where
  "transcript_ok ms =
     (case ms of
        [] \<Rightarrow> False
      | m # rest \<Rightarrow>
          msg_role m = User \<and> (case msg_content m of Str _ \<Rightarrow> True | _ \<Rightarrow> False)
          \<and> tool_pairs_ok rest)"

definition requests_ok :: "params list \<Rightarrow> bool" where
  "requests_ok ps =
     list_all (\<lambda>p. case req_messages p of Some ms \<Rightarrow> transcript_ok ms | None \<Rightarrow> False) ps"

definition loop_inv :: "loop_state \<Rightarrow> bool" where
  "loop_inv s = (transcript_ok (messages s) \<and> requests_ok (requests s))"

text \<open>The tool invocation requests of a content list: id, name and arguments, in order.\<close>

fun tool_uses :: "content_block list \<Rightarrow> (string \<times> string \<times> tool_input) list" where
  "tool_uses [] = []"
| "tool_uses (TextBlock _ # bs) = tool_uses bs"
| "tool_uses (ToolUseBlock i n inp # bs) = (i, n, inp) # tool_uses bs"

text \<open>
  A tool request was served by its result: the result carries the request's id, the
  function is registered, and the content is \<open>str\<close> of what the function returned
  for the request's arguments.
\<close>

definition tool_ran :: "'v function_map \<Rightarrow> ('v \<Rightarrow> string) \<Rightarrow> string \<times> string \<times> tool_input \<Rightarrow> tool_result \<Rightarrow> bool" where
  "tool_ran fm str u r =
     (case u of (i, n, inp) \<Rightarrow>
        tool_use_id r = i
        \<and> (case fm n of
             None \<Rightarrow> False
           | Some func \<Rightarrow> (case func inp of Inl _ \<Rightarrow> False | Inr v \<Rightarrow> result_content r = str v)))"

text \<open>
  The results as the model reads them: the content of the result with a given id
  (\<open>tool_use_id\<close> is how the API pairs a result with its request).
\<close>

definition results_by_id :: "tool_result list \<Rightarrow> string \<rightharpoonup> string" where
  "results_by_id rs = map_of (map (\<lambda>r. (tool_use_id r, result_content r)) rs)"

text \<open>An answer of the server that makes the loop run tools.\<close>

definition asks_for_tools :: "py_exc + response \<Rightarrow> bool" where
  "asks_for_tools a = (case a of Inr resp \<Rightarrow> stop_reason resp = ToolUse | Inl _ \<Rightarrow> False)"

section \<open>The calculator example\<close>

text \<open>
  Lines 143--180: two tools and the registry. \<open>add(**tool_input)\<close> binds the keyword
  arguments \<open>a\<close> and \<open>b\<close> (a missing or extra keyword is a \<open>TypeError\<close>). Numbers
  are modelled as JSON integers; any other argument type is modelled as a \<open>TypeError\<close>
  (Python would concatenate two strings).
\<close>

definition number_schema :: json where
  "number_schema =
     JObj [(''type'', JStr ''object''),
           (''properties'', JObj [(''a'', JObj [(''type'', JStr ''number''), (''description'', JStr ''First number'')]),
                                  (''b'', JObj [(''type'', JStr ''number''), (''description'', JStr ''Second number'')])]),
           (''required'', JList [JStr ''a'', JStr ''b''])]"

definition calculator_tools :: "tool list" where
  "calculator_tools =
     [\<lparr>tool_name = ''add'', tool_description = ''Add two numbers together'', input_schema = number_schema\<rparr>,
      \<lparr>tool_name = ''multiply'', tool_description = ''Multiply two numbers'', input_schema = number_schema\<rparr>]"

definition add :: "tool_input \<Rightarrow> py_exc + int" where
  "add kwargs =
     (case bind_kwargs [''a'', ''b''] kwargs of
        None \<Rightarrow> Inl (TypeError ''add() got an unexpected or missing keyword argument'')
      | Some [JInt a, JInt b] \<Rightarrow> Inr (a + b)
      | Some _ \<Rightarrow> Inl (TypeError ''unsupported operand type(s) for +''))"

definition multiply :: "tool_input \<Rightarrow> py_exc + int" where
  "multiply kwargs =
     (case bind_kwargs [''a'', ''b''] kwargs of
        None \<Rightarrow> Inl (TypeError ''multiply() got an unexpected or missing keyword argument'')
      | Some [JInt a, JInt b] \<Rightarrow> Inr (a * b)
      | Some _ \<Rightarrow> Inl (TypeError ''unsupported operand type(s) for *''))"

definition calculator_function_map :: "int function_map" where
  "calculator_function_map = [''add'' \<mapsto> add, ''multiply'' \<mapsto> multiply]"

subsection \<open>A conversation\<close>

text \<open>
  The query of line 238 and a server that answers the first request with two tool
  invocations and the second with the final text; results are rendered by \<open>str\<close>.
\<close>

definition calc_query :: string where
  "calc_query = ''If I have 15 apples and I buy 7 more, then multiply that by 3, how many do I have?''"

definition calc_turn1 :: response where
  "calc_turn1 =
     \<lparr>resp_model = ''claude-sonnet-4-20250514'', stop_reason = ToolUse,
      resp_content = [TextBlock ''I will compute this.'',
                      ToolUseBlock ''toolu_1'' ''add'' [(''a'', JInt 15), (''b'', JInt 7)],
                      ToolUseBlock ''toolu_2'' ''multiply'' [(''a'', JInt 22), (''b'', JInt 3)]],
      resp_usage = \<lparr>input_tokens = 420, output_tokens = 130\<rparr>\<rparr>"

definition calc_turn2 :: response where
  "calc_turn2 =
     \<lparr>resp_model = ''claude-sonnet-4-20250514'', stop_reason = EndTurn,
      resp_content = [TextBlock ''You have 66 apples.''],
      resp_usage = \<lparr>input_tokens = 600, output_tokens = 12\<rparr>\<rparr>"

definition calc_env :: "int tool_env" where
  "calc_env = \<lparr>create = (\<lambda>n p. if n = 0 then Inr calc_turn1 else Inr calc_turn2), to_str = py_str_int\<rparr>"

definition calc_results :: "tool_result list" where
  "calc_results =
     [\<lparr>tool_use_id = ''toolu_1'', result_content = ''22''\<rparr>,
      \<lparr>tool_use_id = ''toolu_2'', result_content = ''66''\<rparr>]"

definition calc_state1 :: loop_state where
  "calc_state1 =
     \<lparr>messages = [\<lparr>msg_role = User, msg_content = Str calc_query\<rparr>,
                  \<lparr>msg_role = Assistant, msg_content = Blocks (resp_content calc_turn1)\<rparr>,
                  \<lparr>msg_role = User, msg_content = Results calc_results\<rparr>],
      requests = [tool_request calculator_tools [\<lparr>msg_role = User, msg_content = Str calc_query\<rparr>]],
      printed = [Using_tool ''add'' [(''a'', JInt 15), (''b'', JInt 7)], Tool_result ''22'',
                 Using_tool ''multiply'' [(''a'', JInt 22), (''b'', JInt 3)], Tool_result ''66'']\<rparr>"

text \<open>A model that asks for the two calculator tools at every request.\<close>

definition asking_env :: "int tool_env" where
  "asking_env = \<lparr>create = (\<lambda>n p. Inr calc_turn1), to_str = py_str_int\<rparr>"

section \<open>Lemmas\<close>

lemma req_messages_tool_request [simp]: "req_messages (tool_request tools ms) = Some ms"
  by (simp add: req_messages_def tool_request_def)

lemma run_tools_ids: "run_tools fm str bs = Inr rs \<Longrightarrow> map tool_use_id rs = tool_use_ids bs"
  by (induction fm str bs arbitrary: rs rule: run_tools.induct) (auto split: option.splits sum.splits)

lemma tool_use_id_in_ids: "ToolUseBlock i n inp \<in> set bs \<Longrightarrow> i \<in> set (tool_use_ids bs)"
  by (induction bs rule: tool_use_ids.induct) auto

lemma tool_pairs_ok_snoc:
  "tool_pairs_ok ms \<Longrightarrow> map tool_use_id rs = tool_use_ids bs \<Longrightarrow>
   tool_pairs_ok (ms @ [\<lparr>msg_role = Assistant, msg_content = Blocks bs\<rparr>, \<lparr>msg_role = User, msg_content = Results rs\<rparr>])"
  by (induction ms rule: tool_pairs_ok.induct) auto

lemma transcript_ok_snoc:
  "transcript_ok ms \<Longrightarrow> map tool_use_id rs = tool_use_ids bs \<Longrightarrow>
   transcript_ok (ms @ [\<lparr>msg_role = Assistant, msg_content = Blocks bs\<rparr>, \<lparr>msg_role = User, msg_content = Results rs\<rparr>])"
  by (auto simp: transcript_ok_def tool_pairs_ok_snoc split: list.splits)

lemma requests_ok_snoc [simp]:
  "requests_ok (ps @ [tool_request tools ms]) = (requests_ok ps \<and> transcript_ok ms)"
  by (simp add: requests_ok_def)

text \<open>The four ways a turn ends.\<close>

lemma tool_loop_body_api_error:
  "create env (length (requests s)) (tool_request tools (messages s)) = Inl e \<Longrightarrow>
   tool_loop_body env tools fm s = Leave (Inl e) (s\<lparr>requests := requests s @ [tool_request tools (messages s)]\<rparr>)"
  by (simp add: tool_loop_body_def)

lemma tool_loop_body_final:
  "create env (length (requests s)) (tool_request tools (messages s)) = Inr resp \<Longrightarrow>
   stop_reason resp \<noteq> ToolUse \<Longrightarrow>
   tool_loop_body env tools fm s = Leave (first_text resp) (s\<lparr>requests := requests s @ [tool_request tools (messages s)]\<rparr>)"
  by (simp add: tool_loop_body_def)

lemma tool_loop_body_tools_fail:
  "create env (length (requests s)) (tool_request tools (messages s)) = Inr resp \<Longrightarrow>
   stop_reason resp = ToolUse \<Longrightarrow> run_tools fm (to_str env) (resp_content resp) = Inl e \<Longrightarrow>
   tool_loop_body env tools fm s =
     Leave (Inl e) (s\<lparr>messages := messages s @ [\<lparr>msg_role = Assistant, msg_content = Blocks (resp_content resp)\<rparr>],
                      requests := requests s @ [tool_request tools (messages s)],
                      printed := printed s @ run_tools_out fm (to_str env) (resp_content resp)\<rparr>)"
  by (simp add: tool_loop_body_def)

lemma tool_loop_body_tools_run:
  "create env (length (requests s)) (tool_request tools (messages s)) = Inr resp \<Longrightarrow>
   stop_reason resp = ToolUse \<Longrightarrow> run_tools fm (to_str env) (resp_content resp) = Inr rs \<Longrightarrow>
   tool_loop_body env tools fm s =
     Continue (s\<lparr>messages := messages s @ [\<lparr>msg_role = Assistant, msg_content = Blocks (resp_content resp)\<rparr>,
                                         \<lparr>msg_role = User, msg_content = Results rs\<rparr>],
                 requests := requests s @ [tool_request tools (messages s)],
                 printed := printed s @ run_tools_out fm (to_str env) (resp_content resp)\<rparr>)"
  by (simp add: tool_loop_body_def)

lemma tool_loop_body_cases:
  obtains (api_error) e where "create env (length (requests s)) (tool_request tools (messages s)) = Inl e"
  | (final) resp where "create env (length (requests s)) (tool_request tools (messages s)) = Inr resp"
      "stop_reason resp \<noteq> ToolUse"
  | (tools_fail) resp e where "create env (length (requests s)) (tool_request tools (messages s)) = Inr resp"
      "stop_reason resp = ToolUse" "run_tools fm (to_str env) (resp_content resp) = Inl e"
  | (tools_run) resp rs where "create env (length (requests s)) (tool_request tools (messages s)) = Inr resp"
      "stop_reason resp = ToolUse" "run_tools fm (to_str env) (resp_content resp) = Inr rs"
  by (cases "create env (length (requests s)) (tool_request tools (messages s))")
     (auto, metis sum.exhaust)

lemma tool_loop_body_requests:
  "tool_loop_body env tools fm s = Continue s' \<or> tool_loop_body env tools fm s = Leave r s' \<Longrightarrow>
   requests s' = requests s @ [tool_request tools (messages s)]"
  by (cases rule: tool_loop_body_cases[where env = env and s = s and tools = tools and fm = fm])
     (auto simp: tool_loop_body_api_error tool_loop_body_final tool_loop_body_tools_fail tool_loop_body_tools_run)

lemma tool_loop_body_inv:
  assumes "loop_inv s"
  shows "tool_loop_body env tools fm s = Continue s' \<Longrightarrow> loop_inv s'"
    and "tool_loop_body env tools fm s = Leave r s' \<Longrightarrow> requests_ok (requests s')"
proof -
  have req: "requests_ok (requests s @ [tool_request tools (messages s)])"
    using assms by (simp add: loop_inv_def)
  show "tool_loop_body env tools fm s = Continue s' \<Longrightarrow> loop_inv s'"
    using assms
    by (cases rule: tool_loop_body_cases[where env = env and s = s and tools = tools and fm = fm])
       (auto simp: tool_loop_body_api_error tool_loop_body_final tool_loop_body_tools_fail
          tool_loop_body_tools_run loop_inv_def transcript_ok_snoc run_tools_ids)
  show "tool_loop_body env tools fm s = Leave r s' \<Longrightarrow> requests_ok (requests s')"
    using req tool_loop_body_requests[of env tools fm s s' r] by auto
qed

text \<open>C14: in every state the loop can reach, the transcript is a user question followed by assistant/results pairs in which every tool request is answered by exactly one result with its id, and every request sent so far carried such a transcript.\<close>

theorem tool_reach_inv: "tool_reach env tools fm q s \<Longrightarrow> loop_inv s"
proof (induction rule: tool_reach.induct)
  case start
  show ?case by (simp add: loop_inv_def init_state_def transcript_ok_def requests_ok_def)
next
  case (turn s s')
  then show ?case using tool_loop_body_inv(1) by blast
qed


lemma tool_loop_unfold:
  "tool_loop env tools fm s =
     (case tool_loop_body env tools fm s of
        Leave r s' \<Rightarrow> Some (r, s')
      | Continue s' \<Rightarrow> tool_loop env tools fm s')"
  by (rule tool_loop.simps)

text \<open>
  Fixpoint induction for the loop: an invariant of the state that every continuing turn
  preserves, and from which every final turn establishes \<open>Q\<close>, gives \<open>Q\<close> of the state
  the loop returns.
\<close>

lemma tool_loop_invariant:
  assumes "tool_loop env tools fm s = Some (r, s')" and "I s"
    and step: "\<And>s s'. I s \<Longrightarrow> tool_loop_body env tools fm s = Continue s' \<Longrightarrow> I s'"
    and final: "\<And>s r s'. I s \<Longrightarrow> tool_loop_body env tools fm s = Leave r s' \<Longrightarrow> Q s'"
  shows "Q s'"
proof -
  have "env = env \<and> tools = tools \<and> fm = fm \<longrightarrow> I s \<longrightarrow> Q (snd (r, s'))"
  proof (rule tool_loop.raw_induct[where P = "\<lambda>e t m st y. e = env \<and> t = tools \<and> m = fm \<longrightarrow> I st \<longrightarrow> Q (snd y)",
        OF _ assms(1)])
    fix f e t m st y
    assume IH: "\<And>e t m st y. f e t m st = Some y \<Longrightarrow> e = env \<and> t = tools \<and> m = fm \<longrightarrow> I st \<longrightarrow> Q (snd y)"
      and eq: "(case tool_loop_body e t m st of
                  Continue s' \<Rightarrow> f e t m s' | Leave r s' \<Rightarrow> Some (r, s')) = Some y"
    show "e = env \<and> t = tools \<and> m = fm \<longrightarrow> I st \<longrightarrow> Q (snd y)"
    proof (intro impI)
      assume eqs: "e = env \<and> t = tools \<and> m = fm" and inv: "I st"
      show "Q (snd y)"
      proof (cases "tool_loop_body env tools fm st")
        case (Continue st')
        then show ?thesis using eq eqs IH[of env tools fm st' y] step[OF inv Continue] by simp
      next
        case (Leave r' st')
        then show ?thesis using eq eqs final[OF inv Leave] by auto
      qed
    qed
  qed
  with assms(2) show ?thesis by simp
qed

lemma tool_loop_requests_ok:
  assumes "tool_loop env tools fm s = Some (r, s')" and "loop_inv s"
  shows "requests_ok (requests s')"
  using assms by (rule tool_loop_invariant) (fact tool_loop_body_inv)+

text \<open>A loop that does not return continues, into a state where it still does not return.\<close>

lemma tool_loop_None_step:
  "tool_loop env tools fm s = None \<Longrightarrow>
   \<exists>s'. tool_loop_body env tools fm s = Continue s' \<and> tool_loop env tools fm s' = None"
  by (cases "tool_loop_body env tools fm s") (simp_all add: tool_loop_unfold[of env tools fm s])

lemma tool_loop_never_leaves:
  assumes "\<And>s. \<exists>s'. tool_loop_body env tools fm s = Continue s'"
  shows "tool_loop env tools fm s = None"
proof (rule ccontr)
  assume "tool_loop env tools fm s \<noteq> None"
  then obtain r s' where run: "tool_loop env tools fm s = Some (r, s')" by auto
  have "(\<lambda>_. False) s'"
    using run
  proof (rule tool_loop_invariant[where I = "\<lambda>_. True"])
    fix s r s' assume "tool_loop_body env tools fm s = Leave r s'"
    then show "False" using assms[of s] by auto
  qed simp_all
  then show False by simp
qed

text \<open>A run of one round of tools followed by a final answer.\<close>

lemma process_tool_call_one_round:
  assumes "create env 0 (tool_request tools [\<lparr>msg_role = User, msg_content = Str q\<rparr>]) = Inr first_resp"
    and "stop_reason first_resp = ToolUse"
    and "run_tools fm (to_str env) (resp_content first_resp) = Inr rs"
    and "create env 1 (tool_request tools
           [\<lparr>msg_role = User, msg_content = Str q\<rparr>,
            \<lparr>msg_role = Assistant, msg_content = Blocks (resp_content first_resp)\<rparr>,
            \<lparr>msg_role = User, msg_content = Results rs\<rparr>]) = Inr final_resp"
    and "stop_reason final_resp \<noteq> ToolUse"
  shows "process_tool_call env q tools fm =
    Some (first_text final_resp,
          \<lparr>messages = [\<lparr>msg_role = User, msg_content = Str q\<rparr>,
                      \<lparr>msg_role = Assistant, msg_content = Blocks (resp_content first_resp)\<rparr>,
                      \<lparr>msg_role = User, msg_content = Results rs\<rparr>],
           requests = [tool_request tools [\<lparr>msg_role = User, msg_content = Str q\<rparr>],
                       tool_request tools
                         [\<lparr>msg_role = User, msg_content = Str q\<rparr>,
                          \<lparr>msg_role = Assistant, msg_content = Blocks (resp_content first_resp)\<rparr>,
                          \<lparr>msg_role = User, msg_content = Results rs\<rparr>]],
           printed = run_tools_out fm (to_str env) (resp_content first_resp)\<rparr>)"
proof -
  let ?s1 = "\<lparr>messages = [\<lparr>msg_role = User, msg_content = Str q\<rparr>,
                      \<lparr>msg_role = Assistant, msg_content = Blocks (resp_content first_resp)\<rparr>,
                      \<lparr>msg_role = User, msg_content = Results rs\<rparr>],
           requests = [tool_request tools [\<lparr>msg_role = User, msg_content = Str q\<rparr>]],
           printed = run_tools_out fm (to_str env) (resp_content first_resp)\<rparr>"
  have b1: "tool_loop_body env tools fm (init_state q) = Continue ?s1"
    using tool_loop_body_tools_run[of env "init_state q" tools first_resp fm rs] assms(1-3)
    by (simp add: init_state_def)
  have b2: "tool_loop_body env tools fm ?s1 =
      Leave (first_text final_resp) (?s1\<lparr>requests := requests ?s1 @ [tool_request tools (messages ?s1)]\<rparr>)"
    using tool_loop_body_final[of env ?s1 tools final_resp fm] assms(4,5) by simp
  show ?thesis
    unfolding process_tool_call_def
    by (simp add: tool_loop_unfold[of env tools fm "init_state q"] b1 tool_loop_unfold[of env tools fm ?s1] b2)
qed

lemma tool_loop_body_Continue_asks:
  "tool_loop_body env tools fm s = Continue s' \<Longrightarrow>
   asks_for_tools (create env (length (requests s)) (tool_request tools (messages s)))"
  by (cases rule: tool_loop_body_cases[where env = env and s = s and tools = tools and fm = fm])
     (auto simp: asks_for_tools_def tool_loop_body_api_error tool_loop_body_final tool_loop_body_tools_fail)

lemma tool_loop_terminates:
  assumes stops: "\<forall>p. \<not> asks_for_tools (create env n p)"
  shows "length (requests s) \<le> n \<Longrightarrow>
    \<exists>r s'. tool_loop env tools fm s = Some (r, s') \<and> length (requests s') \<le> Suc n"
proof (induction "n - length (requests s)" arbitrary: s)
  case 0
  then have k: "length (requests s) = n" by simp
  show ?case
  proof (cases "tool_loop_body env tools fm s")
    case (Continue s')
    then show ?thesis using tool_loop_body_Continue_asks[OF Continue] stops k by simp
  next
    case (Leave r s')
    then show ?thesis using tool_loop_body_requests[of env tools fm s s' r] k
      by (simp add: tool_loop_unfold)
  qed
next
  case (Suc d)
  show ?case
  proof (cases "tool_loop_body env tools fm s")
    case (Continue s')
    have len: "length (requests s') = Suc (length (requests s))"
      using tool_loop_body_requests[of env tools fm s s'] Continue by simp
    with Suc.hyps(2) have "d = n - length (requests s')" "length (requests s') \<le> n" by simp_all
    then obtain r s'' where "tool_loop env tools fm s' = Some (r, s'')" "length (requests s'') \<le> Suc n"
      using Suc.hyps(1) by blast
    with Continue show ?thesis by (simp add: tool_loop_unfold)
  next
    case (Leave r s')
    then show ?thesis using tool_loop_body_requests[of env tools fm s s' r] Suc.prems
      by (simp add: tool_loop_unfold)
  qed
qed


lemma run_tools_append:
  "run_tools fm str (xs @ ys) =
     (case run_tools fm str xs of
        Inl e \<Rightarrow> Inl e
      | Inr rs \<Rightarrow> (case run_tools fm str ys of Inl e \<Rightarrow> Inl e | Inr rs' \<Rightarrow> Inr (rs @ rs')))"
  by (induction fm str xs rule: run_tools.induct) (auto split: option.splits sum.splits)

lemma run_tools_out_append:
  "run_tools fm str xs = Inr rs \<Longrightarrow>
   run_tools_out fm str (xs @ ys) = run_tools_out fm str xs @ run_tools_out fm str ys"
  by (induction fm str xs arbitrary: rs rule: run_tools.induct) (auto split: option.splits sum.splits)

text \<open>When every tool runs, the loop prints each request's name and input and then the
  content of its result.\<close>

lemma run_tools_out_Inr:
  "run_tools fm str bs = Inr rs \<Longrightarrow>
   run_tools_out fm str bs =
     concat (map2 (\<lambda>(i, n, inp) r. [Using_tool n inp, Tool_result (result_content r)]) (tool_uses bs) rs)"
  by (induction fm str bs arbitrary: rs rule: run_tools.induct) (auto split: option.splits sum.splits)

lemma run_tools_Inr_ran:
  "run_tools fm str bs = Inr rs \<Longrightarrow> list_all2 (tool_ran fm str) (tool_uses bs) rs"
  by (induction fm str bs arbitrary: rs rule: run_tools.induct)
     (auto simp: tool_ran_def split: option.splits sum.splits)

lemma ran_run_tools_Inr:
  "list_all2 (tool_ran fm str) (tool_uses bs) rs \<Longrightarrow> run_tools fm str bs = Inr rs"
proof (induction fm str bs arbitrary: rs rule: run_tools.induct)
  case (3 fm str i n inp bs)
  from "3.prems" obtain z zs where rs: "rs = z # zs" and hd: "tool_ran fm str (i, n, inp) z"
      and tl: "list_all2 (tool_ran fm str) (tool_uses bs) zs"
    by (auto simp: list_all2_Cons1)
  from hd obtain func v where f: "fm n = Some func" "func inp = Inr v"
      and z: "z = \<lparr>tool_use_id = i, result_content = str v\<rparr>"
    by (cases z) (auto simp: tool_ran_def split: option.splits sum.splits)
  have "run_tools fm str bs = Inr zs" using "3.IH"[OF f tl] .
  with f z rs show ?case by simp
qed simp_all

text \<open>C9: the inner loop over the response blocks succeeds with the list rs exactly when rs holds, for every tool invocation request in order, one result with the request's id whose content is str of what the registered function returned for the request's arguments.\<close>

theorem run_tools_results:
  "run_tools fm str bs = Inr rs \<longleftrightarrow> list_all2 (tool_ran fm str) (tool_uses bs) rs"
  using run_tools_Inr_ran ran_run_tools_Inr by blast

text \<open>C10: on a tool-use answer whose tools all run, one turn appends exactly two entries to the transcript, the assistant's content and one user entry with all results, records exactly one request, prints the lines of the tools it ran, and the results carry the ids of the requests in order; the loop then continues from that state.\<close>

theorem tool_turn_appends_results:
  assumes "create env (length (requests s)) (tool_request tools (messages s)) = Inr resp"
    and "stop_reason resp = ToolUse"
    and "run_tools fm (to_str env) (resp_content resp) = Inr rs"
  shows "tool_loop env tools fm s =
           tool_loop env tools fm
             (s\<lparr>messages := messages s @ [\<lparr>msg_role = Assistant, msg_content = Blocks (resp_content resp)\<rparr>,
                                        \<lparr>msg_role = User, msg_content = Results rs\<rparr>],
                requests := requests s @ [tool_request tools (messages s)],
                printed := printed s @ run_tools_out fm (to_str env) (resp_content resp)\<rparr>)
         \<and> map tool_use_id rs = tool_use_ids (resp_content resp)"
  using assms by (simp add: tool_loop_unfold tool_loop_body_tools_run run_tools_ids)

text \<open>C11: a tool invocation naming a function absent from function_map raises KeyError (after the earlier tools of the same answer ran and the unknown tool's "Using tool" line was printed) and ends the loop without a follow-up request.\<close>

theorem unknown_tool_raises_key_error:
  assumes "create env (length (requests s)) (tool_request tools (messages s)) = Inr resp"
    and "stop_reason resp = ToolUse"
    and "resp_content resp = pre @ ToolUseBlock i n inp # post"
    and "run_tools fm (to_str env) pre = Inr rs"
    and "fm n = None"
  shows "tool_loop env tools fm s =
    Some (Inl (KeyError n),
          s\<lparr>messages := messages s @ [\<lparr>msg_role = Assistant, msg_content = Blocks (resp_content resp)\<rparr>],
            requests := requests s @ [tool_request tools (messages s)],
            printed := printed s @ run_tools_out fm (to_str env) pre @ [Using_tool n inp]\<rparr>)"
proof -
  have "run_tools fm (to_str env) (resp_content resp) = Inl (KeyError n)"
    using assms(3-5) by (simp add: run_tools_append)
  moreover have "run_tools_out fm (to_str env) (resp_content resp) =
      run_tools_out fm (to_str env) pre @ [Using_tool n inp]"
    using assms(3-5) by (simp add: run_tools_out_append)
  ultimately show ?thesis
    using assms(1,2) by (simp add: tool_loop_unfold tool_loop_body_tools_fail)
qed

text \<open>C12: an answer whose stop reason is not tool use ends the loop with response.content[0].text (or the IndexError/AttributeError that expression raises), without a further request.\<close>

theorem final_answer_ends_loop:
  assumes "create env (length (requests s)) (tool_request tools (messages s)) = Inr resp"
    and "stop_reason resp \<noteq> ToolUse"
  shows "tool_loop env tools fm s =
           Some (first_text resp, s\<lparr>requests := requests s @ [tool_request tools (messages s)]\<rparr>)"
  using assms by (simp add: tool_loop_unfold tool_loop_body_final)

text \<open>C13: an exception of the remote call propagates out of the loop at once: it is neither retried nor converted, and no further request is issued.\<close>

theorem api_error_ends_loop:
  assumes "create env (length (requests s)) (tool_request tools (messages s)) = Inl e"
  shows "tool_loop env tools fm s =
           Some (Inl e, s\<lparr>requests := requests s @ [tool_request tools (messages s)]\<rparr>)"
  using assms by (simp add: tool_loop_unfold tool_loop_body_api_error)

text \<open>C15: every request that process_tool_call sends to the model, up to its return, carries a well-paired transcript.\<close>

theorem process_tool_call_requests_ok:
  "process_tool_call env q tools fm = Some (r, s') \<Longrightarrow> requests_ok (requests s')"
  unfolding process_tool_call_def
  by (erule tool_loop_requests_ok) (simp add: loop_inv_def init_state_def transcript_ok_def requests_ok_def)

text \<open>C16: if the model answers request n without asking for tools (or fails), process_tool_call returns, after at most n + 1 requests.\<close>

theorem process_tool_call_terminates:
  "\<forall>p. \<not> asks_for_tools (create env n p) \<Longrightarrow>
   \<exists>r s'. process_tool_call env q tools fm = Some (r, s') \<and> length (requests s') \<le> Suc n"
  unfolding process_tool_call_def
  by (rule tool_loop_terminates) (simp_all add: init_state_def)

text \<open>C38: liveness of the loop: if process_tool_call never returns, it runs for ever: for every n the loop reaches a state that has sent exactly n requests and whose turn continues (the model asked for tools again and every requested tool ran), so requests keep being sent.\<close>

theorem process_tool_call_diverges:
  assumes "process_tool_call env q tools fm = None"
  shows "\<exists>s s'. tool_reach env tools fm q s \<and> length (requests s) = n
           \<and> tool_loop_body env tools fm s = Continue s'"
proof -
  have "\<exists>s. tool_reach env tools fm q s \<and> length (requests s) = k \<and> tool_loop env tools fm s = None" for k
  proof (induction k)
    case 0
    have "length (requests (init_state q)) = 0" by (simp add: init_state_def)
    then show ?case using assms tool_reach.start unfolding process_tool_call_def by blast
  next
    case (Suc k)
    then obtain s where s: "tool_reach env tools fm q s" "length (requests s) = k" "tool_loop env tools fm s = None"
      by blast
    then obtain s' where s': "tool_loop_body env tools fm s = Continue s'" "tool_loop env tools fm s' = None"
      using tool_loop_None_step by blast
    have "requests s' = requests s @ [tool_request tools (messages s)]"
      using s'(1) by (auto simp: tool_loop_body_def Let_def split: sum.splits if_splits)
    then show ?case using tool_reach.turn[OF s(1) s'(1)] s(2) s'(2) by auto
  qed
  then obtain s where "tool_reach env tools fm q s" "length (requests s) = n" "tool_loop env tools fm s = None"
    by blast
  then show ?thesis using tool_loop_None_step by blast
qed

text \<open>C27: round trip of the tool results: when the inner loop succeeds on an answer whose request ids are distinct, looking up the id of any tool request among the results it sends back gives str of the value the registered function returned for that request's arguments.\<close>

theorem tool_results_lookup:
  assumes "run_tools fm str bs = Inr rs"
    and "distinct (tool_use_ids bs)"
    and "ToolUseBlock i n inp \<in> set bs"
  shows "\<exists>func v. fm n = Some func \<and> func inp = Inr v \<and> results_by_id rs i = Some (str v)"
  using assms
proof (induction fm str bs arbitrary: rs rule: run_tools.induct)
  case (3 fm str j m jinp bs)
  then obtain func v rs' where f: "fm m = Some func" "func jinp = Inr v"
      and rest: "run_tools fm str bs = Inr rs'"
      and rs: "rs = \<lparr>tool_use_id = j, result_content = str v\<rparr> # rs'"
    by (auto split: option.splits sum.splits)
  show ?case
  proof (cases "ToolUseBlock i n inp = ToolUseBlock j m jinp")
    case True
    then show ?thesis using f rs by (simp add: results_by_id_def)
  next
    case False
    have mem: "ToolUseBlock i n inp \<in> set bs" using "3.prems"(3) False by auto
    have "i \<noteq> j" using "3.prems"(2) tool_use_id_in_ids[OF mem] by auto
    then show ?thesis using "3.IH"[OF f rest] "3.prems"(2) mem rs by (simp add: results_by_id_def)
  qed
qed (auto split: option.splits sum.splits)

section \<open>Example runs of the loop\<close>

lemma calc_run_tools:
  "run_tools calculator_function_map py_str_int (resp_content calc_turn1) = Inr calc_results"
  by (simp add: calc_turn1_def calculator_function_map_def add_def multiply_def calc_results_def py_simps)

lemma calc_run_tools_out:
  "run_tools_out calculator_function_map py_str_int (resp_content calc_turn1) =
     [Using_tool ''add'' [(''a'', JInt 15), (''b'', JInt 7)], Tool_result ''22'',
      Using_tool ''multiply'' [(''a'', JInt 22), (''b'', JInt 3)], Tool_result ''66'']"
  by (simp add: calc_turn1_def calculator_function_map_def add_def multiply_def py_simps)

lemma calc_turn1_stop: "stop_reason calc_turn1 = ToolUse"
  by (simp add: calc_turn1_def)

lemma calc_first_answer:
  "create calc_env (length (requests (init_state calc_query)))
      (tool_request calculator_tools (messages (init_state calc_query))) = Inr calc_turn1"
  by (simp add: calc_env_def init_state_def)

lemma calc_second_answer:
  "create calc_env (length (requests calc_state1))
      (tool_request calculator_tools (messages calc_state1)) = Inr calc_turn2"
  by (simp add: calc_env_def calc_state1_def)

lemma calc_turn1_body:
  "tool_loop_body calc_env calculator_tools calculator_function_map (init_state calc_query) = Continue calc_state1"
  using tool_loop_body_tools_run[OF calc_first_answer, of calculator_function_map calc_results]
    calc_run_tools calc_run_tools_out
  by (simp add: calc_env_def calc_state1_def init_state_def calc_turn1_stop)

theorem tool_turn_appends_results_witness:
  "create calc_env (length (requests (init_state calc_query)))
      (tool_request calculator_tools (messages (init_state calc_query))) = Inr calc_turn1
   \<and> stop_reason calc_turn1 = ToolUse
   \<and> run_tools calculator_function_map (to_str calc_env) (resp_content calc_turn1) = Inr calc_results
   \<and> tool_loop calc_env calculator_tools calculator_function_map (init_state calc_query)
       = tool_loop calc_env calculator_tools calculator_function_map calc_state1
   \<and> map tool_use_id calc_results = [''toolu_1'', ''toolu_2'']"
proof -
  have h: "create calc_env (length (requests (init_state calc_query)))
      (tool_request calculator_tools (messages (init_state calc_query))) = Inr calc_turn1"
    "stop_reason calc_turn1 = ToolUse"
    "run_tools calculator_function_map (to_str calc_env) (resp_content calc_turn1) = Inr calc_results"
    using calc_first_answer calc_run_tools by (simp_all add: calc_turn1_def calc_env_def)
  have e: "to_str calc_env = py_str_int" by (simp add: calc_env_def)
  show ?thesis
    using h tool_turn_appends_results[OF h] calc_run_tools_out unfolding e
    by (simp add: calc_state1_def init_state_def calc_results_def)
qed


lemma calc_conversation:
  "process_tool_call calc_env calc_query calculator_tools calculator_function_map =
     Some (Inr ''You have 66 apples.'',
           calc_state1\<lparr>requests := requests calc_state1 @ [tool_request calculator_tools (messages calc_state1)]\<rparr>)"
proof -
  have "tool_loop calc_env calculator_tools calculator_function_map calc_state1 =
     Some (first_text calc_turn2,
           calc_state1\<lparr>requests := requests calc_state1 @ [tool_request calculator_tools (messages calc_state1)]\<rparr>)"
    using tool_loop_body_final[OF calc_second_answer] by (simp add: tool_loop_unfold calc_turn2_def)
  moreover have "first_text calc_turn2 = Inr ''You have 66 apples.''"
    by (simp add: first_text_def calc_turn2_def)
  ultimately show ?thesis
    by (simp add: process_tool_call_def tool_loop_unfold[of _ _ _ "init_state calc_query"] calc_turn1_body)
qed

theorem unknown_tool_raises_key_error_witness:
  "create calc_env (length (requests (init_state calc_query)))
      (tool_request calculator_tools (messages (init_state calc_query))) = Inr calc_turn1
   \<and> stop_reason calc_turn1 = ToolUse
   \<and> resp_content calc_turn1 =
       [TextBlock ''I will compute this.'', ToolUseBlock ''toolu_1'' ''add'' [(''a'', JInt 15), (''b'', JInt 7)]]
       @ ToolUseBlock ''toolu_2'' ''multiply'' [(''a'', JInt 22), (''b'', JInt 3)] # []
   \<and> run_tools [''add'' \<mapsto> add] (to_str calc_env)
       [TextBlock ''I will compute this.'', ToolUseBlock ''toolu_1'' ''add'' [(''a'', JInt 15), (''b'', JInt 7)]]
       = Inr [\<lparr>tool_use_id = ''toolu_1'', result_content = ''22''\<rparr>]
   \<and> [''add'' \<mapsto> add] ''multiply'' = None
   \<and> tool_loop calc_env calculator_tools [''add'' \<mapsto> add] (init_state calc_query) =
       Some (Inl (KeyError ''multiply''),
             (init_state calc_query)\<lparr>messages := messages (init_state calc_query)
                 @ [\<lparr>msg_role = Assistant, msg_content = Blocks (resp_content calc_turn1)\<rparr>],
              requests := requests (init_state calc_query)
                 @ [tool_request calculator_tools (messages (init_state calc_query))],
              printed := [Using_tool ''add'' [(''a'', JInt 15), (''b'', JInt 7)], Tool_result ''22'',
                          Using_tool ''multiply'' [(''a'', JInt 22), (''b'', JInt 3)]]\<rparr>)"
proof -
  have h: "create calc_env (length (requests (init_state calc_query)))
      (tool_request calculator_tools (messages (init_state calc_query))) = Inr calc_turn1"
    "stop_reason calc_turn1 = ToolUse"
    "resp_content calc_turn1 =
       [TextBlock ''I will compute this.'', ToolUseBlock ''toolu_1'' ''add'' [(''a'', JInt 15), (''b'', JInt 7)]]
       @ ToolUseBlock ''toolu_2'' ''multiply'' [(''a'', JInt 22), (''b'', JInt 3)] # []"
    "run_tools [''add'' \<mapsto> add] (to_str calc_env)
       [TextBlock ''I will compute this.'', ToolUseBlock ''toolu_1'' ''add'' [(''a'', JInt 15), (''b'', JInt 7)]]
       = Inr [\<lparr>tool_use_id = ''toolu_1'', result_content = ''22''\<rparr>]"
    "[''add'' \<mapsto> add] ''multiply'' = None"
    using calc_first_answer
    by (simp_all add: calc_turn1_def calc_env_def add_def py_simps)
  have o: "printed (init_state calc_query) @ run_tools_out [''add'' \<mapsto> add] (to_str calc_env)
       [TextBlock ''I will compute this.'', ToolUseBlock ''toolu_1'' ''add'' [(''a'', JInt 15), (''b'', JInt 7)]]
       @ [Using_tool ''multiply'' [(''a'', JInt 22), (''b'', JInt 3)]]
     = [Using_tool ''add'' [(''a'', JInt 15), (''b'', JInt 7)], Tool_result ''22'',
        Using_tool ''multiply'' [(''a'', JInt 22), (''b'', JInt 3)]]"
    by (simp add: init_state_def calc_env_def add_def py_simps)
  show ?thesis
    using h unknown_tool_raises_key_error[OF h] unfolding o by blast
qed

theorem final_answer_ends_loop_witness:
  "create calc_env (length (requests calc_state1)) (tool_request calculator_tools (messages calc_state1)) = Inr calc_turn2
   \<and> stop_reason calc_turn2 \<noteq> ToolUse
   \<and> tool_loop calc_env calculator_tools calculator_function_map calc_state1 =
       Some (Inr ''You have 66 apples.'',
             calc_state1\<lparr>requests := requests calc_state1 @ [tool_request calculator_tools (messages calc_state1)]\<rparr>)"
proof -
  have h: "create calc_env (length (requests calc_state1)) (tool_request calculator_tools (messages calc_state1)) = Inr calc_turn2"
    "stop_reason calc_turn2 \<noteq> ToolUse"
    using calc_second_answer by (simp_all add: calc_turn2_def)
  have t: "first_text calc_turn2 = Inr ''You have 66 apples.''"
    by (simp add: first_text_def calc_turn2_def)
  show ?thesis
    using h t final_answer_ends_loop[OF h, of calculator_function_map] by simp
qed

theorem api_error_ends_loop_witness:
  "create \<lparr>create = (\<lambda>n p. Inl (APIStatusError RateLimit ''429'')), to_str = py_str_int\<rparr>
      (length (requests (init_state calc_query))) (tool_request calculator_tools (messages (init_state calc_query)))
     = Inl (APIStatusError RateLimit ''429'')
   \<and> tool_loop \<lparr>create = (\<lambda>n p. Inl (APIStatusError RateLimit ''429'')), to_str = py_str_int\<rparr>
       calculator_tools calculator_function_map (init_state calc_query)
     = Some (Inl (APIStatusError RateLimit ''429''),
             (init_state calc_query)\<lparr>requests := [tool_request calculator_tools [\<lparr>msg_role = User, msg_content = Str calc_query\<rparr>]]\<rparr>)"
proof -
  have h: "create \<lparr>create = (\<lambda>n p. Inl (APIStatusError RateLimit ''429'')), to_str = py_str_int\<rparr>
      (length (requests (init_state calc_query))) (tool_request calculator_tools (messages (init_state calc_query)))
     = Inl (APIStatusError RateLimit ''429'')" by simp
  show ?thesis
    using h api_error_ends_loop[OF h, of calculator_function_map] by (simp add: init_state_def)
qed

theorem process_tool_call_requests_ok_witness:
  "process_tool_call calc_env calc_query calculator_tools calculator_function_map =
     Some (Inr ''You have 66 apples.'',
           calc_state1\<lparr>requests := requests calc_state1 @ [tool_request calculator_tools (messages calc_state1)]\<rparr>)
   \<and> requests_ok (requests calc_state1 @ [tool_request calculator_tools (messages calc_state1)])"
  using calc_conversation process_tool_call_requests_ok[OF calc_conversation] by simp

theorem process_tool_call_terminates_witness:
  "(\<forall>p. \<not> asks_for_tools (create calc_env 1 p))
   \<and> (\<exists>r s'. process_tool_call calc_env calc_query calculator_tools calculator_function_map = Some (r, s')
             \<and> length (requests s') \<le> 2)"
proof -
  have h: "\<forall>p. \<not> asks_for_tools (create calc_env 1 p)"
    by (simp add: calc_env_def asks_for_tools_def calc_turn2_def)
  show ?thesis
    using h process_tool_call_terminates[OF h, of calc_query calculator_tools calculator_function_map]
    by (simp add: numeral_2_eq_2)
qed

theorem tool_reach_inv_witness:
  "tool_reach calc_env calculator_tools calculator_function_map calc_query calc_state1
   \<and> loop_inv calc_state1"
proof -
  have r: "tool_reach calc_env calculator_tools calculator_function_map calc_query calc_state1"
    using tool_reach.turn[OF tool_reach.start calc_turn1_body] .
  show ?thesis using r tool_reach_inv[OF r] by simp
qed

theorem tool_results_lookup_witness:
  "run_tools calculator_function_map py_str_int (resp_content calc_turn1) = Inr calc_results
   \<and> distinct (tool_use_ids (resp_content calc_turn1))
   \<and> ToolUseBlock ''toolu_2'' ''multiply'' [(''a'', JInt 22), (''b'', JInt 3)] \<in> set (resp_content calc_turn1)
   \<and> (\<exists>func v. calculator_function_map ''multiply'' = Some func
         \<and> func [(''a'', JInt 22), (''b'', JInt 3)] = Inr v
         \<and> results_by_id calc_results ''toolu_2'' = Some (py_str_int v))"
proof -
  have h: "distinct (tool_use_ids (resp_content calc_turn1))"
    "ToolUseBlock ''toolu_2'' ''multiply'' [(''a'', JInt 22), (''b'', JInt 3)] \<in> set (resp_content calc_turn1)"
    by (simp_all add: calc_turn1_def)
  show ?thesis using calc_run_tools h tool_results_lookup[OF calc_run_tools h] by simp
qed

lemma asking_env_continues: "\<exists>s'. tool_loop_body asking_env calculator_tools calculator_function_map s = Continue s'"
  using tool_loop_body_tools_run[of asking_env s calculator_tools calc_turn1 calculator_function_map calc_results]
    calc_run_tools calc_turn1_stop by (simp add: asking_env_def)

theorem process_tool_call_diverges_witness:
  "process_tool_call asking_env calc_query calculator_tools calculator_function_map = None
   \<and> (\<exists>s s'. tool_reach asking_env calculator_tools calculator_function_map calc_query s
        \<and> length (requests s) = 5
        \<and> tool_loop_body asking_env calculator_tools calculator_function_map s = Continue s')"
proof -
  have n: "process_tool_call asking_env calc_query calculator_tools calculator_function_map = None"
    unfolding process_tool_call_def using asking_env_continues by (rule tool_loop_never_leaves)
  show ?thesis using n process_tool_call_diverges[OF n, of 5] by blast
qed

end
