(* ===== verification/Py_Json.thy ===== *)
theory Py_Json
  imports Anthropic_Api
begin

text \<open>
  Python's operations on the values \<open>json.loads\<close> returns and on the dictionaries the
  example scripts build, as the scripts use them. A \<open>JObj\<close> lists the items of a
  dictionary in insertion order, its keys distinct; a \<open>JList\<close> is a list, \<open>JStr\<close> a
  string, \<open>JInt\<close> and \<open>JBool\<close> the numbers, \<open>JNull\<close> is \<open>None\<close>.
  \<^item> \<open>json_getitem\<close>: the subscript \<open>x[k]\<close> with a string key (\<open>KeyError\<close> for a missing
    key, \<open>TypeError\<close> on a value that is not a dictionary);
  \<^item> \<open>json_get\<close>: \<open>x.get(k)\<close>, \<open>None\<close> for a missing key;
  \<^item> \<open>json_index0\<close>: \<open>x[0]\<close>;
  \<^item> \<open>json_truthy\<close>: the truth value of \<open>if x:\<close>;
  \<^item> \<open>json_iter\<close>: the elements \<open>for y in x\<close> visits (the keys of a dictionary, the
    one-character strings of a string);
  \<^item> \<open>json_lib\<close>: the library module \<open>json\<close> itself, \<open>dumps\<close> and \<open>loads\<close>, as an
    interface: the scripts only call it, and its behaviour is not modelled.
  \<^item> \<open>py_format_comma\<close>, \<open>group3\<close>: the \<open>{x:,}\<close> format of an integer, and
    \<open>group3_ref\<close>, the per-digit reference definition of the grouping it is proved
    equal to (\<open>format_comma_reference\<close>);
  \<^item> \<open>run_bind\<close>, \<open>emit\<close>, \<open>lift\<close>, \<open>run_each\<close>: a script's run as its result and
    the lines it printed.
\<close>

section \<open>Definitions\<close>

fun json_getitem :: "json \<Rightarrow> string \<Rightarrow> py_exc + json" where
  "json_getitem (JObj kvs) k = (case map_of kvs k of Some v \<Rightarrow> Inr v | None \<Rightarrow> Inl (KeyError k))"
| "json_getitem (JList _) k = Inl (TypeError ''list indices must be integers or slices, not str'')"
| "json_getitem (JStr _) k = Inl (TypeError ''string indices must be integers'')"
| "json_getitem (JInt _) k = Inl (TypeError ''int object is not subscriptable'')"
| "json_getitem (JBool _) k = Inl (TypeError ''bool object is not subscriptable'')"
| "json_getitem JNull k = Inl (TypeError ''NoneType object is not subscriptable'')"

fun json_get :: "json \<Rightarrow> string \<Rightarrow> py_exc + json" where
  "json_get (JObj kvs) k = Inr (case map_of kvs k of Some v \<Rightarrow> v | None \<Rightarrow> JNull)"
| "json_get _ k = Inl (AttributeError ''get'')"

fun json_index0 :: "json \<Rightarrow> py_exc + json" where
  "json_index0 (JList []) = Inl (IndexError ''list index out of range'')"
| "json_index0 (JList (x # _)) = Inr x"
| "json_index0 (JStr []) = Inl (IndexError ''string index out of range'')"
| "json_index0 (JStr (c # _)) = Inr (JStr [c])"
| "json_index0 (JObj _) = Inl (KeyError ''0'')"
| "json_index0 (JInt _) = Inl (TypeError ''int object is not subscriptable'')"
| "json_index0 (JBool _) = Inl (TypeError ''bool object is not subscriptable'')"
| "json_index0 JNull = Inl (TypeError ''NoneType object is not subscriptable'')"

fun json_truthy :: "json \<Rightarrow> bool" where
  "json_truthy JNull = False"
| "json_truthy (JBool b) = b"
| "json_truthy (JInt i) = (i \<noteq> 0)"
| "json_truthy (JStr s) = (s \<noteq> [])"
| "json_truthy (JList xs) = (xs \<noteq> [])"
| "json_truthy (JObj kvs) = (kvs \<noteq> [])"

fun json_iter :: "json \<Rightarrow> py_exc + json list" where
  "json_iter (JList xs) = Inr xs"
| "json_iter (JObj kvs) = Inr (map (\<lambda>(k, _). JStr k) kvs)"
| "json_iter (JStr s) = Inr (map (\<lambda>c. JStr [c]) s)"
| "json_iter (JInt _) = Inl (TypeError ''int object is not iterable'')"
| "json_iter (JBool _) = Inl (TypeError ''bool object is not iterable'')"
| "json_iter JNull = Inl (TypeError ''NoneType object is not iterable'')"

text \<open>
  The module \<open>json\<close>: \<open>json.dumps(x)\<close>, \<open>json.dumps(x, indent=2)\<close> and
  \<open>json.loads(s)\<close> (which raises \<open>JSONDecodeError\<close>).
\<close>

record json_lib =
  dumps :: "json \<Rightarrow> string"
  dumps_indented :: "json \<Rightarrow> string"
  loads :: "string \<Rightarrow> py_exc + json"

text \<open>The number a value adds to a sum: \<open>bool\<close> is a subclass of \<open>int\<close>.\<close>

fun json_num :: "json \<Rightarrow> int option" where
  "json_num (JInt i) = Some i"
| "json_num (JBool b) = Some (if b then 1 else 0)"
| "json_num _ = None"

fun json_str :: "json \<Rightarrow> string option" where
  "json_str (JStr s) = Some s"
| "json_str _ = None"

text \<open>\<open>sep.join(x)\<close>: the elements of \<open>x\<close> must all be strings.\<close>

fun py_str_join :: "string \<Rightarrow> string list \<Rightarrow> string" where
  "py_str_join sep [] = []"
| "py_str_join sep [s] = s"
| "py_str_join sep (s # ss) = s @ sep @ py_str_join sep ss"

definition py_join :: "string \<Rightarrow> json \<Rightarrow> py_exc + string" where
  "py_join sep x =
     (case json_iter x of
        Inl e \<Rightarrow> Inl e
      | Inr ys \<Rightarrow>
          (case those (map json_str ys) of
             Some ss \<Rightarrow> Inr (py_str_join sep ss)
           | None \<Rightarrow> Inl (TypeError ''sequence item: expected str instance'')))"

text \<open>The digits of a number with a comma between groups of three, from the right.\<close>

function group3 :: "string \<Rightarrow> string" where
  "group3 ds =
     (if length ds \<le> 3 then ds
      else group3 (take (length ds - 3) ds) @ CHR '','' # drop (length ds - 3) ds)"
  by pat_completeness auto
termination by (relation "measure length") auto

declare group3.simps [simp del]

text \<open>
  The reference definition of the grouping (PEP 378): a comma goes before every digit
  that is followed by a positive multiple of three digits.
\<close>

definition group3_ref :: "string \<Rightarrow> string" where
  "group3_ref ds =
     concat (map (\<lambda>i. (if 0 < i \<and> (length ds - i) mod 3 = 0 then [CHR '',''] else []) @ [ds ! i])
                 [0..<length ds])"

text \<open>\<open>format(x, ",")\<close>, the \<open>{x:,}\<close> of an f-string.\<close>

fun py_format_comma :: "json \<Rightarrow> py_exc + string" where
  "py_format_comma (JInt i) =
     Inr (if i < 0 then CHR ''-'' # group3 (py_nat_digits (nat (- i))) else group3 (py_nat_digits (nat i)))"
| "py_format_comma (JBool b) = Inr (if b then ''1'' else ''0'')"
| "py_format_comma (JStr _) = Inl (ValueError ''Cannot specify , with s.'')"
| "py_format_comma JNull = Inl (TypeError ''unsupported format string passed to NoneType.__format__'')"
| "py_format_comma (JList _) = Inl (TypeError ''unsupported format string passed to list.__format__'')"
| "py_format_comma (JObj _) = Inl (TypeError ''unsupported format string passed to dict.__format__'')"

text \<open>
  A script run: what it returns or raises, and what it printed until then. \<open>run_bind\<close>
  runs two statements in order, stopping at an exception; \<open>emit\<close> is one \<open>print\<close>.
\<close>

type_synonym ('o, 'a) run = "(py_exc + 'a) \<times> 'o list"

definition run_bind :: "('o, 'a) run \<Rightarrow> ('a \<Rightarrow> ('o, 'b) run) \<Rightarrow> ('o, 'b) run" where
  "run_bind m f =
     (case m of
        (Inl e, out) \<Rightarrow> (Inl e, out)
      | (Inr v, out) \<Rightarrow> (case f v of (r, out') \<Rightarrow> (r, out @ out')))"

definition emit :: "'o \<Rightarrow> ('o, unit) run" where
  "emit x = (Inr (), [x])"

definition lift :: "py_exc + 'a \<Rightarrow> ('o, 'a) run" where
  "lift r = (r, [])"

text \<open>A \<open>for\<close> loop over a list whose body may print and raise.\<close>

fun run_each :: "('x \<Rightarrow> ('o, unit) run) \<Rightarrow> 'x list \<Rightarrow> ('o, unit) run" where
  "run_each body [] = (Inr (), [])"
| "run_each body (x # xs) = run_bind (body x) (\<lambda>_. run_each body xs)"

text \<open>
  The check at the top of every example script:
  \<open>api_key = os.getenv("ANTHROPIC_API_KEY")\<close>; \<open>if not api_key: raise ValueError(...)\<close>.
\<close>

definition require_api_key :: "string option \<Rightarrow> py_exc + string" where
  "require_api_key env_key =
     (if py_truthy env_key then Inr (the env_key)
      else Inl (ValueError ''Please set ANTHROPIC_API_KEY environment variable''))"

text \<open>Sequencing of steps that may raise: the first exception propagates.\<close>

definition py_bind :: "py_exc + 'a \<Rightarrow> ('a \<Rightarrow> py_exc + 'b) \<Rightarrow> py_exc + 'b" where
  "py_bind r f = (case r of Inl e \<Rightarrow> Inl e | Inr v \<Rightarrow> f v)"

section \<open>Lemmas\<close>

lemma run_bind_simps [simp]:
  "run_bind (Inl e, out) f = (Inl e, out)"
  "run_bind (Inr v, out) f = (fst (f v), out @ snd (f v))"
  by (simp_all add: run_bind_def split: prod.splits)

lemma emit_lift_simps [simp]:
  "run_bind (emit x) f = (fst (f ()), x # snd (f ()))"
  "run_bind (lift (Inl e)) f = (Inl e, [])"
  "run_bind (lift (Inr v)) f = f v"
  by (simp_all add: emit_def lift_def)

text \<open>Removing the commas of a grouped number gives back its digits.\<close>

lemma group3_digits: "filter (\<lambda>c. c \<noteq> CHR '','') (group3 ds) = filter (\<lambda>c. c \<noteq> CHR '','') ds"
proof (induction ds rule: group3.induct)
  case (1 ds)
  let ?P = "\<lambda>c. c \<noteq> CHR '',''" and ?n = "length ds - 3"
  have split: "filter ?P ds = filter ?P (take ?n ds) @ filter ?P (drop ?n ds)"
    using filter_append[of ?P "take ?n ds" "drop ?n ds"] by simp
  show ?case
  proof (cases "length ds \<le> 3")
    case True
    then show ?thesis by (simp add: group3.simps[of ds])
  next
    case False
    then have "group3 ds = group3 (take ?n ds) @ CHR '','' # drop ?n ds" by (simp add: group3.simps[of ds])
    with 1 False split show ?thesis by simp
  qed
qed

lemma group3_ref_short: "length ds \<le> 3 \<Longrightarrow> group3_ref ds = ds"
proof -
  assume "length ds \<le> 3"
  then have "map (\<lambda>i. (if 0 < i \<and> (length ds - i) mod 3 = 0 then [CHR '',''] else []) @ [ds ! i]) [0..<length ds]
             = map (\<lambda>i. [ds ! i]) [0..<length ds]"
  proof (intro map_cong)
    fix i assume "i \<in> set [0..<length ds]"
    then have "\<not> (0 < i \<and> (length ds - i) mod 3 = 0)" using \<open>length ds \<le> 3\<close> by auto presburger
    then show "(if 0 < i \<and> (length ds - i) mod 3 = 0 then [CHR '',''] else []) @ [ds ! i] = [ds ! i]" by simp
  qed simp
  then have "group3_ref ds = concat (map (\<lambda>i. [ds ! i]) [0..<length ds])"
    unfolding group3_ref_def by (rule arg_cong)
  then show ?thesis by (simp add: concat_map_singleton map_nth)
qed

lemma group3_ref_step:
  assumes "3 < length ds"
  shows "group3_ref ds = group3_ref (take (length ds - 3) ds) @ CHR '','' # drop (length ds - 3) ds"
proof -
  let ?n = "length ds - 3"
  let ?f = "\<lambda>i. (if 0 < i \<and> (length ds - i) mod 3 = 0 then [CHR '',''] else []) @ [ds ! i]"
  let ?g = "\<lambda>i. (if 0 < i \<and> (length (take ?n ds) - i) mod 3 = 0 then [CHR '',''] else []) @ [take ?n ds ! i]"
  have up3: "[?n..<length ds] = [?n, ?n + 1, ?n + 2]"
    using assms by (simp add: upt_conv_Cons)
  have e: "?n + 3 = length ds" using assms by simp
  have "[0..<?n + 3] = [0..<?n] @ [?n..<?n + 3]" by (rule upt_add_eq_append) simp
  then have "[0..<length ds] = [0..<?n] @ [?n..<length ds]" by (simp only: e)
  then have up: "[0..<length ds] = [0..<?n] @ [?n, ?n + 1, ?n + 2]" by (simp only: up3)
  have lo: "map ?f [0..<?n] = map ?g [0..<?n]"
  proof (rule map_cong)
    fix i assume "i \<in> set [0..<?n]"
    then have i: "i < ?n" by simp
    then have "length ds - i = (?n - i) + 3" by simp
    then have "(length ds - i) mod 3 = (?n - i) mod 3" by (simp only: mod_add_self2)
    then show "?f i = ?g i" using i by simp
  qed simp
  have k: "length ds - ?n = 3" "length ds - (?n + 1) = 2" "length ds - (?n + 2) = 1" "0 < ?n"
    using assms by simp_all
  have d: "drop ?n ds = [ds ! ?n, ds ! (?n + 1), ds ! (?n + 2)]"
  proof (rule nth_equalityI)
    show "length (drop ?n ds) = length [ds ! ?n, ds ! (?n + 1), ds ! (?n + 2)]" using k(1) by simp
    fix j assume "j < length (drop ?n ds)"
    then have "j = 0 \<or> j = 1 \<or> j = 2" using k(1) by auto
    then show "drop ?n ds ! j = [ds ! ?n, ds ! (?n + 1), ds ! (?n + 2)] ! j"
      using assms by (auto simp: numeral_3_eq_3 numeral_2_eq_2 Suc_diff_Suc)
  qed
  have hi: "concat (map ?f [?n, ?n + 1, ?n + 2]) = CHR '','' # drop ?n ds"
    unfolding d using k by simp
  have l: "length (take ?n ds) = ?n" by simp
  have t: "concat (map ?g [0..<?n]) = group3_ref (take ?n ds)"
    unfolding group3_ref_def l by (rule refl)
  have "group3_ref ds = concat (map ?f [0..<?n]) @ concat (map ?f [?n, ?n + 1, ?n + 2])"
    unfolding group3_ref_def up by (simp only: map_append concat_append)
  then show ?thesis by (simp only: lo hi t)
qed

lemma py_bind_simps [simp]:
  "py_bind (Inl e) f = Inl e"
  "py_bind (Inr v) f = f v"
  by (simp_all add: py_bind_def)

lemma py_bind_Inr_iff: "py_bind r f = Inr w \<longleftrightarrow> (\<exists>v. r = Inr v \<and> f v = Inr w)"
  by (cases r) simp_all

lemma json_getitem_JObj_Inr_iff [simp]:
  "json_getitem (JObj kvs) k = Inr v \<longleftrightarrow> map_of kvs k = Some v"
  by (simp split: option.splits)

lemma json_iter_Inr_iff:
  "json_iter x = Inr ys \<longleftrightarrow>
     (x = JList ys \<or> (\<exists>kvs. x = JObj kvs \<and> ys = map (\<lambda>(k, _). JStr k) kvs)
      \<or> (\<exists>s. x = JStr s \<and> ys = map (\<lambda>c. JStr [c]) s))"
  by (cases x) auto

text \<open>Equivalence of the grouping with its reference: \<open>format(i, ",")\<close> of an integer is its sign followed by its decimal digits with a comma before every digit that is followed by a positive multiple of three digits.\<close>

theorem format_comma_reference:
  "py_format_comma (JInt i) = Inr ((if i < 0 then ''-'' else []) @ group3_ref (py_nat_digits (nat \<bar>i\<bar>)))"
proof -
  have eq: "group3 ds = group3_ref ds" for ds
  proof (induction ds rule: group3.induct)
    case (1 ds)
    show ?case
    proof (cases "length ds \<le> 3")
      case True
      then show ?thesis by (simp add: group3.simps[of ds] group3_ref_short)
    next
      case False
      then show ?thesis using 1 by (simp add: group3.simps[of ds] group3_ref_step)
    qed
  qed
  then show ?thesis by simp
qed

end
