(* ===== verification/Multi_Turn.thy ===== *)
theory Multi_Turn
  imports Py_Json
begin

text \<open>
  \<open>src/examples/09_multi_turn_chat.py\<close>: a conversation kept in the module-level list
  \<open>conversation_history\<close>, extended by \<open>chat\<close> (lines 33--70) and by
  \<open>chat_with_memory_limit\<close> (lines 144--182), which first trims the list to its last
  \<open>max_history\<close> entries, and emptied by \<open>conversation_history.clear()\<close>.
  The global list is the field \<open>history\<close> of an explicit state, which also records the
  requests sent (the \<open>n\<close>-th request is answered by the oracle's \<open>n\<close>-th answer). Both
  functions append the user's entry before the call, so a call that raises leaves it in
  the history; they append the assistant's entry only after \<open>content[0].text\<close> succeeds.
  The module-level Examples 1, 2 and 4 are \<open>chat_script\<close>, \<open>example2\<close> and \<open>example4\<close>;
  \<open>multi_turn_module\<close> chains them with the key check and the resets of the history.
\<close>

section \<open>Model\<close>

record chat_state =
  history :: "message list"
  sent :: "params list"

definition user_msg :: "string \<Rightarrow> message" where
  "user_msg s = \<lparr>msg_role = User, msg_content = Str s\<rparr>"

definition assistant_msg :: "string \<Rightarrow> message" where
  "assistant_msg s = \<lparr>msg_role = Assistant, msg_content = Str s\<rparr>"

text \<open>The \<open>params\<close> dictionary of \<open>chat\<close> (lines 51--58): \<open>system\<close> only when truthy.\<close>

definition conversation_params :: "message list \<Rightarrow> string option \<Rightarrow> params" where
  "conversation_params ms system_prompt =
     (if py_truthy system_prompt
      then [''model'' \<mapsto> PStr ''claude-sonnet-4-20250514'', ''max_tokens'' \<mapsto> PInt 2048,
            ''messages'' \<mapsto> PMessages ms, ''system'' \<mapsto> PStr (the system_prompt)]
      else [''model'' \<mapsto> PStr ''claude-sonnet-4-20250514'', ''max_tokens'' \<mapsto> PInt 2048,
            ''messages'' \<mapsto> PMessages ms])"

text \<open>
  The remote call and the read of its text, common to both functions: record the
  request, then append the assistant's entry and return the text, or raise.
\<close>

definition ask :: "api \<Rightarrow> params \<Rightarrow> chat_state \<Rightarrow> (py_exc + string) \<times> chat_state" where
  "ask api p st =
     (let st1 = st\<lparr>sent := sent st @ [p]\<rparr>
      in case api (length (sent st)) p of
           Inl e \<Rightarrow> (Inl e, st1)
         | Inr message \<Rightarrow>
             (case first_text message of
                Inl e \<Rightarrow> (Inl e, st1)
              | Inr assistant_response \<Rightarrow>
                  (Inr assistant_response,
                   st1\<lparr>history := history st1 @ [assistant_msg assistant_response]\<rparr>)))"

text \<open>\<open>chat(user_message, system_prompt=None)\<close>.\<close>

definition chat :: "api \<Rightarrow> string \<Rightarrow> string option \<Rightarrow> chat_state \<Rightarrow> (py_exc + string) \<times> chat_state" where
  "chat api user_message system_prompt st =
     (let st1 = st\<lparr>history := history st @ [user_msg user_message]\<rparr>
      in ask api (conversation_params (history st1) system_prompt) st1)"

text \<open>The keyword arguments of the call in \<open>chat_with_memory_limit\<close> (lines 168--172).\<close>

definition memory_params :: "message list \<Rightarrow> params" where
  "memory_params ms =
     [''model'' \<mapsto> PStr ''claude-sonnet-4-20250514'', ''max_tokens'' \<mapsto> PInt 2048,
      ''messages'' \<mapsto> PMessages ms]"

text \<open>
  The trim of lines 163--165: when the history is longer than \<open>max_history\<close>, keep
  \<open>conversation_history[-max_history:]\<close>.
\<close>

definition trim_history :: "int \<Rightarrow> message list \<Rightarrow> message list" where
  "trim_history max_history h =
     (if int (length h) > max_history then py_slice_from h (- max_history) else h)"

definition chat_with_memory_limit ::
  "api \<Rightarrow> string \<Rightarrow> int \<Rightarrow> chat_state \<Rightarrow> (py_exc + string) \<times> chat_state" where
  "chat_with_memory_limit api user_message max_history st =
     (let h = trim_history max_history (history st @ [user_msg user_message]);
          st1 = st\<lparr>history := h\<rparr>
      in ask api (memory_params h) st1)"

text \<open>\<open>conversation_history.clear()\<close> (lines 92, 113 and 184).\<close>

definition clear_history :: "chat_state \<Rightarrow> chat_state" where
  "clear_history st = st\<lparr>history := []\<rparr>"

subsection \<open>Example conversations\<close>

text \<open>
  A server that always answers with one text block, one that is unreachable, and the
  history of Example 4 (lines 187--194) before its fourth call (line 197): three complete
  exchanges.
\<close>

definition demo_reply :: "string \<Rightarrow> response" where
  "demo_reply t =
     \<lparr>resp_model = ''claude-sonnet-4-20250514'', stop_reason = EndTurn,
      resp_content = [TextBlock t], resp_usage = \<lparr>input_tokens = 10, output_tokens = 5\<rparr>\<rparr>"

definition demo_chat_api :: api where
  "demo_chat_api n p = Inr (demo_reply ''Paris'')"

definition demo_down_api :: api where
  "demo_down_api n p = Inl (APIConnectionError ''Connection error.'')"

definition empty_chat :: chat_state where
  "empty_chat = \<lparr>history = [], sent = []\<rparr>"

definition ml_history :: "message list" where
  "ml_history =
     [user_msg ''Tell me about machine learning'', assistant_msg ''Machine learning is ...'',
      user_msg ''What are neural networks?'', assistant_msg ''Neural networks are ...'',
      user_msg ''How does training work?'', assistant_msg ''Training adjusts ...'']"

definition ml_chat :: chat_state where
  "ml_chat = \<lparr>history = ml_history, sent = []\<rparr>"

subsection \<open>The script\<close>

text \<open>
  The module-level statements run one after the other and an exception ends the script.
  \<open>chat_script\<close> runs a sequence of \<open>chat\<close> calls (Examples 1 and 2, lines 75--107);
  the \<open>print\<close> calls between them only echo the questions and the answers.
\<close>

fun chat_script ::
  "api \<Rightarrow> (string \<times> string option) list \<Rightarrow> chat_state \<Rightarrow> (py_exc + string list) \<times> chat_state" where
  "chat_script api [] st = (Inr [], st)"
| "chat_script api ((m, sp) # rest) st =
     (case chat api m sp st of
        (Inl e, st') \<Rightarrow> (Inl e, st')
      | (Inr a, st') \<Rightarrow>
          (case chat_script api rest st' of
             (Inl e, st'') \<Rightarrow> (Inl e, st'')
           | (Inr as, st'') \<Rightarrow> (Inr (a # as), st'')))"

definition example1_questions :: "(string \<times> string option) list" where
  "example1_questions =
     [(''What is the capital of France?'', None),
      (''What'' @ [CHR 0x27] @ ''s the population of that city?'', None),
      (''What are the top 3 tourist attractions there?'', None)]"

text \<open>The system prompt of lines 94--96 (a triple-quoted string with two line breaks).\<close>

definition tutor_prompt :: string where
  "tutor_prompt =
     ''You are a helpful Python programming tutor. '' @ [CHR 0x0A] @
     ''Explain concepts clearly with code examples. '' @ [CHR 0x0A] @
     ''Always ask if the student has questions before moving on.''"

definition example2_questions :: "(string \<times> string option) list" where
  "example2_questions =
     [(''I'' @ [CHR 0x27] @ ''m new to Python. Can you explain what a list is?'', Some tutor_prompt),
      (''How do I add items to a list?'', None)]"

text \<open>Example 2 (lines 89--107): clear the history, then two chats, the first with the system prompt.\<close>

definition example2 :: "api \<Rightarrow> chat_state \<Rightarrow> (py_exc + string list) \<times> chat_state" where
  "example2 api st = chat_script api example2_questions (clear_history st)"

text \<open>
  Example 4 (lines 184--198): clear the history, then four calls of
  \<open>chat_with_memory_limit\<close> with \<open>max_history=6\<close>, printing the size of the history
  before the first call and after each.
\<close>

definition example4_questions :: "string list" where
  "example4_questions =
     [''Tell me about machine learning'', ''What are neural networks?'', ''How does training work?'',
      ''What are some applications?'']"

fun memory_script :: "api \<Rightarrow> string list \<Rightarrow> chat_state \<Rightarrow> (py_exc + unit) \<times> nat list \<times> chat_state" where
  "memory_script api [] st = (Inr (), [], st)"
| "memory_script api (m # ms) st =
     (case chat_with_memory_limit api m 6 st of
        (Inl e, st') \<Rightarrow> (Inl e, [], st')
      | (Inr _, st') \<Rightarrow>
          (case memory_script api ms st' of
             (r, sizes, st'') \<Rightarrow> (r, length (history st') # sizes, st'')))"

definition example4 :: "api \<Rightarrow> chat_state \<Rightarrow> (py_exc + unit) \<times> nat list \<times> chat_state" where
  "example4 api st =
     (let st0 = clear_history st
      in case memory_script api example4_questions st0 of
           (r, sizes, st') \<Rightarrow> (r, length (history st0) # sizes, st'))"

text \<open>
  The module run (lines 24--198): the check of \<open>ANTHROPIC_API_KEY\<close> (lines 24--28), the
  empty history of line 31, Examples 1 and 2, the reset of line 113 (the interactive
  session of Example 3 is a string literal and never runs), and Example 4. It returns
  the outcome, the sizes Example 4 prints and the final state.
\<close>

definition multi_turn_module :: "string option \<Rightarrow> api \<Rightarrow> (py_exc + unit) \<times> nat list \<times> chat_state" where
  "multi_turn_module env_key api =
     (case require_api_key env_key of
        Inl e \<Rightarrow> (Inl e, [], empty_chat)
      | Inr _ \<Rightarrow>
          (case chat_script api example1_questions empty_chat of
             (Inl e, st1) \<Rightarrow> (Inl e, [], st1)
           | (Inr _, st1) \<Rightarrow>
               (case example2 api st1 of
                  (Inl e, st2) \<Rightarrow> (Inl e, [], st2)
                | (Inr _, st2) \<Rightarrow> example4 api (clear_history st2))))"

section \<open>Alternation of roles\<close>

text \<open>
  The API expects a transcript that starts with a user entry and alternates the roles.
  \<open>roles_from r ms\<close>: the entries of \<open>ms\<close> alternate, the first having role \<open>r\<close>.
\<close>

fun other_role :: "role \<Rightarrow> role" where
  "other_role User = Assistant"
| "other_role Assistant = User"

fun roles_from :: "role \<Rightarrow> message list \<Rightarrow> bool" where
  "roles_from r [] = True"
| "roles_from r (m # ms) = (msg_role m = r \<and> roles_from (other_role r) ms)"

text \<open>A history of complete exchanges: user, assistant, user, assistant, \<dots>\<close>

definition exchanges :: "message list \<Rightarrow> bool" where
  "exchanges h = (roles_from User h \<and> even (length h))"

section \<open>Lemmas\<close>

lemma ask_sent: "sent (snd (ask api p st)) = sent st @ [p]"
  by (simp add: ask_def Let_def split: sum.splits)

lemma ask_history:
  "history (snd (ask api p st)) = history st \<or>
   (\<exists>t. history (snd (ask api p st)) = history st @ [assistant_msg t] \<and> fst (ask api p st) = Inr t)"
  by (simp add: ask_def Let_def split: sum.splits)

lemma ask_Inr:
  "ask api p st = (Inr t, st') \<Longrightarrow>
   st' = \<lparr>history = history st @ [assistant_msg t], sent = sent st @ [p]\<rparr>"
  by (auto simp: ask_def Let_def split: sum.splits)

lemma ask_Inl:
  "ask api p st = (Inl e, st') \<Longrightarrow> st' = \<lparr>history = history st, sent = sent st @ [p]\<rparr>"
  by (auto simp: ask_def Let_def split: sum.splits)

lemma roles_from_append:
  "roles_from r (xs @ ys) =
     (roles_from r xs \<and> roles_from (if even (length xs) then r else other_role r) ys)"
proof (induction xs arbitrary: r)
  case (Cons x xs)
  have "other_role (other_role r) = r" by (cases r) simp_all
  with Cons show ?case by auto
qed simp

lemma roles_from_drop:
  "roles_from r xs \<Longrightarrow> roles_from (if even k then r else other_role r) (drop k xs)"
proof (induction xs arbitrary: r k)
  case (Cons x xs)
  have oo: "other_role (other_role r) = r" by (cases r) simp_all
  show ?case
  proof (cases k)
    case (Suc j)
    with Cons.IH[of "other_role r" j] Cons.prems oo show ?thesis by auto
  qed (use Cons.prems in simp)
qed simp

lemma roles_from_hd: "roles_from r xs \<Longrightarrow> xs \<noteq> [] \<Longrightarrow> msg_role (hd xs) = r"
  by (cases xs) auto

lemma roles_user_msg [simp]: "msg_role (user_msg s) = User" "msg_role (assistant_msg s) = Assistant"
  by (simp_all add: user_msg_def assistant_msg_def)

lemma req_messages_memory_params [simp]: "req_messages (memory_params ms) = Some ms"
  by (simp add: req_messages_def memory_params_def)

lemma req_messages_conversation_params [simp]: "req_messages (conversation_params ms sp) = Some ms"
  by (simp add: req_messages_def conversation_params_def)

text \<open>C17: a successful chat appends exactly the user entry and then the assistant entry with the returned text to the history, and sends one request whose transcript is the old history followed by the user entry.\<close>

theorem chat_success_appends_exchange:
  assumes "api (length (sent st)) (conversation_params (history st @ [user_msg m]) sp) = Inr message"
    and "first_text message = Inr t"
  shows "chat api m sp st =
    (Inr t, \<lparr>history = history st @ [user_msg m, assistant_msg t],
             sent = sent st @ [conversation_params (history st @ [user_msg m]) sp]\<rparr>)"
  using assms by (simp add: chat_def ask_def Let_def)

text \<open>C18: when the remote call of chat raises, the exception propagates and the user entry stays in the global history without an answer, so the transcript of the next chat has two user entries in a row.\<close>

theorem chat_failure_leaves_unanswered_message:
  assumes "api (length (sent st)) (conversation_params (history st @ [user_msg m]) sp) = Inl e"
  shows "chat api m sp st =
      (Inl e, \<lparr>history = history st @ [user_msg m],
               sent = sent st @ [conversation_params (history st @ [user_msg m]) sp]\<rparr>)
    \<and> \<not> roles_from User (history (snd (chat api m sp st)) @ [user_msg next_message])"
proof -
  have eq: "chat api m sp st =
      (Inl e, \<lparr>history = history st @ [user_msg m],
               sent = sent st @ [conversation_params (history st @ [user_msg m]) sp]\<rparr>)"
    using assms by (simp add: chat_def ask_def Let_def)
  have "\<not> roles_from User (history st @ [user_msg m, user_msg next_message])"
  proof
    assume "roles_from User (history st @ [user_msg m, user_msg next_message])"
    then show False by (cases "even (length (history st))") (simp_all add: roles_from_append)
  qed
  with eq show ?thesis by simp
qed

text \<open>C19: from a history of complete user/assistant exchanges, a successful chat sends an alternating transcript that starts with the user and leaves a history of complete exchanges.\<close>

theorem chat_keeps_exchanges:
  assumes "exchanges (history st)" and "chat api m sp st = (Inr t, st')"
  shows "exchanges (history st') \<and> req_messages (last (sent st')) = Some (history st @ [user_msg m])
     \<and> roles_from User (history st @ [user_msg m])"
proof -
  from assms(2) have st': "st' = \<lparr>history = history st @ [user_msg m, assistant_msg t],
      sent = sent st @ [conversation_params (history st @ [user_msg m]) sp]\<rparr>"
    by (auto simp: chat_def Let_def dest!: ask_Inr)
  from assms(1) have "roles_from User (history st)" "even (length (history st))"
    by (simp_all add: exchanges_def)
  then show ?thesis using st' by (simp add: exchanges_def roles_from_append)
qed

lemma memory_sent:
  "req_messages (last (sent (snd (chat_with_memory_limit api u mh st)))) =
     Some (trim_history mh (history st @ [user_msg u]))"
  by (simp add: chat_with_memory_limit_def Let_def ask_sent)

lemma length_trim_history:
  "0 < mh \<Longrightarrow> int (length (trim_history mh h)) \<le> mh"
  by (auto simp: trim_history_def py_slice_from_def)

text \<open>C20: with a positive max_history, chat_with_memory_limit sends at most max_history entries and leaves at most max_history + 1 entries in the history.\<close>

theorem memory_limit_bounds:
  assumes "0 < mh" and "chat_with_memory_limit api u mh st = (r, st')"
  shows "\<exists>ms. req_messages (last (sent st')) = Some ms \<and> int (length ms) \<le> mh
     \<and> int (length (history st')) \<le> mh + 1"
proof -
  let ?h = "trim_history mh (history st @ [user_msg u])"
  have len: "int (length ?h) \<le> mh" using length_trim_history[OF assms(1)] .
  have "length (history st') \<le> Suc (length ?h)"
    using assms(2) ask_history[of api "memory_params ?h" "st\<lparr>history := ?h\<rparr>"]
    by (auto simp: chat_with_memory_limit_def Let_def)
  moreover have "req_messages (last (sent st')) = Some ?h"
    using memory_sent[of api u mh st] assms(2) by simp
  ultimately show ?thesis using len by auto
qed


lemma trim_history_roles:
  assumes "0 < mh" and "exchanges h"
  shows "roles_from (if mh < int (length h) + 1 \<and> even mh then Assistant else User)
           (trim_history mh (h @ [user_msg u]))
         \<and> trim_history mh (h @ [user_msg u]) \<noteq> []"
proof -
  have ru: "roles_from User (h @ [user_msg u])" and ev: "even (length h)"
    using assms(2) by (simp_all add: exchanges_def roles_from_append)
  show ?thesis
  proof (cases "mh < int (length h) + 1")
    case False
    then show ?thesis using ru by (simp add: trim_history_def)
  next
    case True
    define n where "n = nat mh"
    have n: "mh = int n" "0 < n" "n < Suc (length h)" using assms(1) True by (simp_all add: n_def)
    have tr: "trim_history mh (h @ [user_msg u]) = drop (Suc (length h) - n) (h @ [user_msg u])"
      using True n by (simp add: trim_history_def py_slice_from_neg)
    have par: "even (Suc (length h) - n) = odd n" using ev n(3) by auto
    have "roles_from (if even (Suc (length h) - n) then User else other_role User)
            (drop (Suc (length h) - n) (h @ [user_msg u]))"
      by (rule roles_from_drop[OF ru])
    then show ?thesis using tr par n True by auto
  qed
qed

text \<open>C21: with an even max_history (the example uses 6) and a history of complete exchanges at least that long, the trimmed transcript that chat_with_memory_limit sends starts with an assistant entry: the trim does not keep user/assistant pairs as its comment says.\<close>

theorem memory_limit_even_starts_with_assistant:
  assumes "0 < mh" and "even mh" and "exchanges (history st)" and "mh \<le> int (length (history st))"
  shows "\<exists>ms. req_messages (last (sent (snd (chat_with_memory_limit api u mh st)))) = Some ms
            \<and> ms \<noteq> [] \<and> msg_role (hd ms) = Assistant"
proof -
  have "roles_from Assistant (trim_history mh (history st @ [user_msg u]))"
       "trim_history mh (history st @ [user_msg u]) \<noteq> []"
    using trim_history_roles[OF assms(1,3), of u] assms(2,4) by auto
  then show ?thesis using memory_sent[of api u mh st] roles_from_hd by blast
qed

text \<open>C22: with an odd positive max_history, the transcript chat_with_memory_limit sends from a history of complete exchanges is non-empty, starts with the user and alternates.\<close>

theorem memory_limit_odd_alternates:
  assumes "0 < mh" and "odd mh" and "exchanges (history st)"
  shows "\<exists>ms. req_messages (last (sent (snd (chat_with_memory_limit api u mh st)))) = Some ms
            \<and> roles_from User ms \<and> ms \<noteq> []"
  using trim_history_roles[OF assms(1,3), of u] assms(2) memory_sent[of api u mh st] by auto

text \<open>C23: with max_history = 0 the slice conversation_history[-0:] is the whole list: nothing is trimmed and the whole history is sent.\<close>

theorem memory_limit_zero_never_trims:
  "req_messages (last (sent (snd (chat_with_memory_limit api u 0 st)))) = Some (history st @ [user_msg u])"
  using memory_sent[of api u 0 st] by (simp add: trim_history_def)

subsection \<open>The script\<close>

lemma chat_Inr:
  "chat api m sp st = (Inr t, st') \<Longrightarrow>
   st' = \<lparr>history = history st @ [user_msg m, assistant_msg t],
          sent = sent st @ [conversation_params (history st @ [user_msg m]) sp]\<rparr>"
  unfolding chat_def Let_def by (drule ask_Inr) simp

lemma chat_script_Inr_Cons:
  "chat_script api ((m, sp) # rest) st = (Inr as, st'') \<Longrightarrow>
   \<exists>a as' st'. as = a # as' \<and> chat api m sp st = (Inr a, st') \<and> chat_script api rest st' = (Inr as', st'')"
  by (auto split: prod.splits sum.splits)

lemma conversation_params_system: "conversation_params ms None ''system'' = None"
  by (simp add: conversation_params_def)

text \<open>C37: when both chats of Example 2 succeed, the first request carries the tutor system prompt and the follow-up request, whose transcript holds the first exchange, carries no system prompt at all: the persona is dropped after the first turn.\<close>

theorem example2_drops_system_prompt:
  assumes "example2 api st = (Inr answers, st')"
  shows "\<exists>a1 a2. answers = [a1, a2]
     \<and> history st' = [user_msg (fst (example2_questions ! 0)), assistant_msg a1,
                      user_msg (fst (example2_questions ! 1)), assistant_msg a2]
     \<and> drop (length (sent st)) (sent st') =
         [conversation_params [user_msg (fst (example2_questions ! 0))] (Some tutor_prompt),
          conversation_params [user_msg (fst (example2_questions ! 0)), assistant_msg a1,
                       user_msg (fst (example2_questions ! 1))] None]
     \<and> last (sent st') ''system'' = None"
proof -
  obtain q1 q2 where q: "example2_questions = [(q1, Some tutor_prompt), (q2, None)]"
    by (simp add: example2_questions_def)
  from assms obtain a1 as1 s1 where 1: "chat api q1 (Some tutor_prompt) (clear_history st) = (Inr a1, s1)"
      and r1: "chat_script api [(q2, None)] s1 = (Inr as1, st')" and "answers = a1 # as1"
    unfolding example2_def q by (blast dest: chat_script_Inr_Cons)
  moreover from r1 obtain a2 s2 where 2: "chat api q2 None s1 = (Inr a2, s2)" and "as1 = [a2]" and "s2 = st'"
    by (auto split: prod.splits sum.splits)
  ultimately show ?thesis
    using chat_Inr[OF 1] chat_Inr[OF 2] q by (auto simp: clear_history_def conversation_params_system q)
qed

lemma memory_step:
  assumes "\<And>k p. \<exists>r t. api k p = Inr r \<and> first_text r = Inr t"
  shows "\<exists>t st'. chat_with_memory_limit api m 6 st = (Inr t, st')
     \<and> length (history st') = min (length (history st) + 1) 6 + 1"
proof -
  let ?h = "trim_history 6 (history st @ [user_msg m])"
  obtain r t where "api (length (sent st)) (memory_params ?h) = Inr r" "first_text r = Inr t"
    using assms by blast
  then show ?thesis
    by (auto simp: chat_with_memory_limit_def ask_def trim_history_def py_slice_from_def Let_def)
qed

text \<open>Against a server that answers every request with text, Example 4 runs to its end and prints the history sizes 0, 2, 4, 6 and 7: after the fourth message the history holds 7 entries, not the max_history of 6 that its print announces.\<close>

theorem example4_sizes:
  assumes "\<And>k p. \<exists>r t. api k p = Inr r \<and> first_text r = Inr t"
  shows "fst (example4 api st) = Inr () \<and> fst (snd (example4 api st)) = [0, 2, 4, 6, 7]"
proof -
  let ?st0 = "clear_history st"
  obtain t1 s1 where 1: "chat_with_memory_limit api (example4_questions ! 0) 6 ?st0 = (Inr t1, s1)" "length (history s1) = 2"
    using memory_step[OF assms] by (fastforce simp: clear_history_def)
  obtain t2 s2 where 2: "chat_with_memory_limit api (example4_questions ! 1) 6 s1 = (Inr t2, s2)" "length (history s2) = 4"
    using memory_step[where api=api and m="example4_questions ! 1" and st=s1, OF assms] 1(2) by auto
  obtain t3 s3 where 3: "chat_with_memory_limit api (example4_questions ! 2) 6 s2 = (Inr t3, s3)" "length (history s3) = 6"
    using memory_step[where api=api and m="example4_questions ! 2" and st=s2, OF assms] 2(2) by auto
  obtain t4 s4 where 4: "chat_with_memory_limit api (example4_questions ! 3) 6 s3 = (Inr t4, s4)" "length (history s4) = 7"
    using memory_step[where api=api and m="example4_questions ! 3" and st=s3, OF assms] 3(2) by auto
  show ?thesis
    using 1 2 3 4 by (simp add: example4_def example4_questions_def clear_history_def)
qed

text \<open>Against a server that answers every request with text, every chat succeeds.\<close>

lemma chat_answered:
  assumes "\<And>k p. \<exists>r t. api k p = Inr r \<and> first_text r = Inr t"
  shows "\<exists>t st'. chat api m sp st = (Inr t, st') \<and> length (sent st') = Suc (length (sent st))"
proof -
  obtain r t where "api (length (sent st)) (conversation_params (history st @ [user_msg m]) sp) = Inr r" "first_text r = Inr t"
    using assms by blast
  then show ?thesis by (simp add: chat_def ask_def Let_def)
qed

lemma chat_script_answered:
  assumes "\<And>k p. \<exists>r t. api k p = Inr r \<and> first_text r = Inr t"
  shows "\<exists>as st'. chat_script api qs st = (Inr as, st') \<and> length (sent st') = length (sent st) + length qs"
proof (induction qs arbitrary: st)
  case (Cons q qs)
  obtain m sp where q: "q = (m, sp)" by fastforce
  obtain t st1 where 1: "chat api m sp st = (Inr t, st1)" "length (sent st1) = Suc (length (sent st))"
    using chat_answered[where api = api and m = m and sp = sp and st = st, OF assms] by blast
  obtain as st' where "chat_script api qs st1 = (Inr as, st')" "length (sent st') = length (sent st1) + length qs"
    using Cons.IH by blast
  then show ?case using q 1 by simp
qed simp

text \<open>
  Against such a server the module runs to its end: Examples 1 and 2 send five requests,
  and Example 4 then starts from an empty history and prints the sizes 0, 2, 4, 6 and 7.
\<close>

lemma multi_turn_module_answered:
  assumes "\<And>k p. \<exists>r t. api k p = Inr r \<and> first_text r = Inr t"
  shows "\<exists>st2. length (sent st2) = 5 \<and> multi_turn_module (Some ''sk-test'') api = example4 api (clear_history st2)
           \<and> fst (multi_turn_module (Some ''sk-test'') api) = Inr ()
           \<and> fst (snd (multi_turn_module (Some ''sk-test'') api)) = [0, 2, 4, 6, 7]"
proof -
  obtain as1 st1 where 1: "chat_script api example1_questions empty_chat = (Inr as1, st1)" "length (sent st1) = 3"
    using chat_script_answered[where api = api and qs = example1_questions and st = empty_chat, OF assms]
    by (auto simp: example1_questions_def empty_chat_def)
  obtain as2 st2 where 2: "example2 api st1 = (Inr as2, st2)" "length (sent st2) = 5"
    using chat_script_answered[where api = api and qs = example2_questions and st = "clear_history st1", OF assms] 1(2)
    by (auto simp: example2_def example2_questions_def clear_history_def)
  have m: "multi_turn_module (Some ''sk-test'') api = example4 api (clear_history st2)"
    using 1(1) 2(1) by (simp add: multi_turn_module_def require_api_key_def)
  show ?thesis using m 2(2) example4_sizes[where api = api and st = "clear_history st2", OF assms] by auto
qed

section \<open>Example conversations\<close>

theorem chat_success_appends_exchange_witness:
  "demo_chat_api (length (sent empty_chat))
      (conversation_params (history empty_chat @ [user_msg ''What is the capital of France?'']) None)
     = Inr (demo_reply ''Paris'')
   \<and> first_text (demo_reply ''Paris'') = Inr ''Paris''
   \<and> chat demo_chat_api ''What is the capital of France?'' None empty_chat =
       (Inr ''Paris'', \<lparr>history = [user_msg ''What is the capital of France?'', assistant_msg ''Paris''],
                       sent = [conversation_params [user_msg ''What is the capital of France?''] None]\<rparr>)"
proof -
  have h: "demo_chat_api (length (sent empty_chat))
      (conversation_params (history empty_chat @ [user_msg ''What is the capital of France?'']) None)
     = Inr (demo_reply ''Paris'')" "first_text (demo_reply ''Paris'') = Inr ''Paris''"
    by (simp_all add: demo_chat_api_def demo_reply_def first_text_def)
  show ?thesis using h chat_success_appends_exchange[where api = demo_chat_api and st = empty_chat and m = "''What is the capital of France?''" and sp = None, OF h] by (simp add: empty_chat_def)
qed

theorem chat_failure_leaves_unanswered_message_witness:
  "demo_down_api (length (sent ml_chat)) (conversation_params (history ml_chat @ [user_msg ''What are some applications?'']) None)
     = Inl (APIConnectionError ''Connection error.'')
   \<and> \<not> roles_from User (history (snd (chat demo_down_api ''What are some applications?'' None ml_chat))
                        @ [user_msg ''Any examples?''])"
proof -
  have h: "demo_down_api (length (sent ml_chat)) (conversation_params (history ml_chat @ [user_msg ''What are some applications?'']) None)
     = Inl (APIConnectionError ''Connection error.'')"
    by (simp add: demo_down_api_def)
  show ?thesis using h chat_failure_leaves_unanswered_message[where api = demo_down_api and st = ml_chat and m = "''What are some applications?''" and sp = None and next_message = "''Any examples?''", OF h] by blast
qed

theorem chat_keeps_exchanges_witness:
  "exchanges (history ml_chat)
   \<and> chat demo_chat_api ''What are some applications?'' None ml_chat =
       (Inr ''Paris'', \<lparr>history = ml_history @ [user_msg ''What are some applications?'', assistant_msg ''Paris''],
                       sent = [conversation_params (ml_history @ [user_msg ''What are some applications?'']) None]\<rparr>)
   \<and> exchanges (ml_history @ [user_msg ''What are some applications?'', assistant_msg ''Paris''])"
proof -
  have e: "exchanges (history ml_chat)"
    by (simp add: exchanges_def ml_chat_def ml_history_def)
  have c: "chat demo_chat_api ''What are some applications?'' None ml_chat =
       (Inr ''Paris'', \<lparr>history = ml_history @ [user_msg ''What are some applications?'', assistant_msg ''Paris''],
                       sent = [conversation_params (ml_history @ [user_msg ''What are some applications?'']) None]\<rparr>)"
    by (simp add: chat_def ask_def Let_def demo_chat_api_def demo_reply_def first_text_def ml_chat_def)
  show ?thesis using e c chat_keeps_exchanges[OF e c] by simp
qed

theorem memory_limit_bounds_witness:
  "(0::int) < 6
   \<and> chat_with_memory_limit demo_chat_api ''What are some applications?'' 6 ml_chat =
       (Inr ''Paris'',
        \<lparr>history = drop 1 (ml_history @ [user_msg ''What are some applications?'']) @ [assistant_msg ''Paris''],
         sent = [memory_params (drop 1 (ml_history @ [user_msg ''What are some applications?'']))]\<rparr>)
   \<and> int (length (drop 1 (ml_history @ [user_msg ''What are some applications?'']) @ [assistant_msg ''Paris''])) \<le> 7"
proof -
  have h: "(0::int) < 6" by simp
  have c: "chat_with_memory_limit demo_chat_api ''What are some applications?'' 6 ml_chat =
       (Inr ''Paris'',
        \<lparr>history = drop 1 (ml_history @ [user_msg ''What are some applications?'']) @ [assistant_msg ''Paris''],
         sent = [memory_params (drop 1 (ml_history @ [user_msg ''What are some applications?'']))]\<rparr>)"
    by (simp add: chat_with_memory_limit_def ask_def Let_def trim_history_def py_slice_from_def
        demo_chat_api_def demo_reply_def first_text_def ml_chat_def ml_history_def)
  show ?thesis using h c memory_limit_bounds[OF h c] by simp
qed

theorem memory_limit_even_starts_with_assistant_witness:
  "(0::int) < 6 \<and> even (6::int) \<and> exchanges (history ml_chat) \<and> 6 \<le> int (length (history ml_chat))
   \<and> req_messages (last (sent (snd (chat_with_memory_limit demo_chat_api ''What are some applications?'' 6 ml_chat))))
       = Some (drop 1 (ml_history @ [user_msg ''What are some applications?'']))
   \<and> msg_role (hd (drop 1 (ml_history @ [user_msg ''What are some applications?'']))) = Assistant"
proof -
  have h: "(0::int) < 6" "even (6::int)" "exchanges (history ml_chat)" "6 \<le> int (length (history ml_chat))"
    by (simp_all add: exchanges_def ml_chat_def ml_history_def)
  have m: "req_messages (last (sent (snd (chat_with_memory_limit demo_chat_api ''What are some applications?'' 6 ml_chat))))
       = Some (drop 1 (ml_history @ [user_msg ''What are some applications?'']))"
    by (simp add: chat_with_memory_limit_def ask_def Let_def trim_history_def py_slice_from_def
        demo_chat_api_def demo_reply_def first_text_def ml_chat_def ml_history_def memory_params_def req_messages_def)
  show ?thesis using h m memory_limit_even_starts_with_assistant[OF h, of demo_chat_api "''What are some applications?''"]
    by auto
qed

theorem memory_limit_odd_alternates_witness:
  "(0::int) < 5 \<and> odd (5::int) \<and> exchanges (history ml_chat)
   \<and> (\<exists>ms. req_messages (last (sent (snd (chat_with_memory_limit demo_chat_api ''What are some applications?'' 5 ml_chat))))
            = Some ms \<and> roles_from User ms \<and> ms \<noteq> [])"
proof -
  have h: "(0::int) < 5" "odd (5::int)" "exchanges (history ml_chat)"
    by (simp_all add: exchanges_def ml_chat_def ml_history_def)
  show ?thesis using h memory_limit_odd_alternates[OF h] by blast
qed

theorem example2_drops_system_prompt_witness:
  "example2 demo_chat_api empty_chat = (Inr [''Paris'', ''Paris''], snd (example2 demo_chat_api empty_chat))
   \<and> last (sent (snd (example2 demo_chat_api empty_chat))) ''system'' = None"
proof -
  have h: "example2 demo_chat_api empty_chat = (Inr [''Paris'', ''Paris''], snd (example2 demo_chat_api empty_chat))"
    by (simp add: example2_def example2_questions_def empty_chat_def clear_history_def chat_def ask_def
        demo_chat_api_def demo_reply_def first_text_def)
  show ?thesis using h example2_drops_system_prompt[OF h] by blast
qed

lemma demo_chat_api_text: "\<forall>k p. \<exists>r t. demo_chat_api k p = Inr r \<and> first_text r = Inr t"
  by (simp add: demo_chat_api_def demo_reply_def first_text_def)

theorem example4_sizes_witness:
  "(\<forall>k p. \<exists>r t. demo_chat_api k p = Inr r \<and> first_text r = Inr t)
   \<and> fst (example4 demo_chat_api empty_chat) = Inr ()
   \<and> fst (snd (example4 demo_chat_api empty_chat)) = [0, 2, 4, 6, 7]"
  using demo_chat_api_text example4_sizes[where api=demo_chat_api and st=empty_chat] by blast

end
