(* ===== verification/Client.thy ===== *)
theory Client
  imports Error_Handler
begin

text \<open>
  \<open>src/utils/client.py\<close>: the class \<open>ClaudeClient\<close>. Its state is the resolved key and
  the model name; each method builds the keyword arguments of the SDK call as a
  dictionary, lets \<open>**kwargs\<close> override it (\<open>params.update(kwargs)\<close>), and is wrapped
  by \<open>handle_api_errors\<close>, whose model (\<open>Error_Handler\<close>) gives the printed
  diagnostics. The SDK call is the oracle of \<open>Anthropic_Api\<close>; its call number is an
  argument, the client holding no other state.
  \<^item> \<open>client_init\<close>: \<open>__init__\<close>, which resolves the key
    (\<open>api_key or os.getenv("ANTHROPIC_API_KEY")\<close>) and raises \<open>ValueError\<close> without it;
  \<^item> \<open>chat_params\<close>: the dictionary of lines 52--62 (and 89--99, 127--137);
  \<^item> \<open>client_chat\<close>, \<open>client_multi_turn_chat\<close>: \<open>chat\<close> and \<open>multi_turn_chat\<close>;
  \<^item> \<open>client_chat_stream\<close>: \<open>chat_stream\<close>, a generator function. Calling it only
    creates the generator (\<open>StreamGen\<close>), so the decorator's \<open>try\<close> runs around the
    creation alone; \<open>drain_stream\<close> is the caller's iteration, where the SDK's
    \<open>messages.stream\<close> is opened and its chunks are yielded.
\<close>

section \<open>Model\<close>

record claude_client =
  client_api_key :: string
  client_model :: string

definition default_model :: string where
  "default_model = ''claude-sonnet-4-20250514''"

text \<open>\<open>ClaudeClient(api_key=None, model=...)\<close>, given the environment's \<open>ANTHROPIC_API_KEY\<close>.\<close>

definition client_init :: "string option \<Rightarrow> string option \<Rightarrow> string \<Rightarrow> py_exc + claude_client" where
  "client_init api_key env_key model =
     (let key = py_or api_key env_key
      in if \<not> py_truthy key
         then Inl (ValueError ''API key must be provided or set in ANTHROPIC_API_KEY environment variable'')
         else Inr \<lparr>client_api_key = the key, client_model = model\<rparr>)"

text \<open>
  The keywords that can reach \<open>**kwargs\<close>: Python binds the names of the method's own
  parameters to those parameters, so \<open>kwargs\<close> never holds them. The other keys,
  \<open>model\<close> and (for \<open>chat\<close> and \<open>chat_stream\<close>) \<open>messages\<close> among them, pass.
\<close>

definition kwargs_bindable :: "string list \<Rightarrow> params \<Rightarrow> bool" where
  "kwargs_bindable names kwargs = list_all (\<lambda>k. kwargs k = None) names"

definition chat_arg_names :: "string list" where
  "chat_arg_names = [''self'', ''message'', ''system'', ''max_tokens'', ''temperature'']"

definition multi_turn_arg_names :: "string list" where
  "multi_turn_arg_names = [''self'', ''messages'', ''system'', ''max_tokens'', ''temperature'']"

definition chat_params ::
  "claude_client \<Rightarrow> message list \<Rightarrow> string option \<Rightarrow> int \<Rightarrow> real \<Rightarrow> params \<Rightarrow> params" where
  "chat_params c msgs system max_tokens temperature kwargs =
     (let params = [''model'' \<mapsto> PStr (client_model c), ''max_tokens'' \<mapsto> PInt max_tokens,
                    ''temperature'' \<mapsto> PReal temperature, ''messages'' \<mapsto> PMessages msgs];
          params = (if py_truthy system then params(''system'' \<mapsto> PStr (the system)) else params)
      in params ++ kwargs)"

definition single_user :: "string \<Rightarrow> message list" where
  "single_user message = [\<lparr>msg_role = User, msg_content = Str message\<rparr>]"

text \<open>\<open>response = self.client.messages.create(**params); return response.content[0].text\<close>.\<close>

definition create_text :: "api \<Rightarrow> nat \<Rightarrow> params \<Rightarrow> py_exc + string" where
  "create_text api k params =
     (case api k params of Inl e \<Rightarrow> Inl e | Inr response \<Rightarrow> first_text response)"

definition client_chat ::
  "api \<Rightarrow> nat \<Rightarrow> claude_client \<Rightarrow> string \<Rightarrow> string option \<Rightarrow> int \<Rightarrow> real \<Rightarrow> params
     \<Rightarrow> (py_exc + string) \<times> event list" where
  "client_chat api k c message system max_tokens temperature kwargs =
     handle_api_errors (create_text api k)
       (chat_params c (single_user message) system max_tokens temperature kwargs)"

definition client_multi_turn_chat ::
  "api \<Rightarrow> nat \<Rightarrow> claude_client \<Rightarrow> message list \<Rightarrow> string option \<Rightarrow> int \<Rightarrow> real \<Rightarrow> params
     \<Rightarrow> (py_exc + string) \<times> event list" where
  "client_multi_turn_chat api k c messages system max_tokens temperature kwargs =
     handle_api_errors (create_text api k)
       (chat_params c messages system max_tokens temperature kwargs)"

text \<open>
  A generator object of \<open>chat_stream\<close>, not yet started: the arguments its body will
  pass to \<open>messages.stream\<close>.
\<close>

datatype stream_gen = StreamGen params

definition client_chat_stream ::
  "claude_client \<Rightarrow> string \<Rightarrow> string option \<Rightarrow> int \<Rightarrow> real \<Rightarrow> params
     \<Rightarrow> (py_exc + stream_gen) \<times> event list" where
  "client_chat_stream c message system max_tokens temperature kwargs =
     handle_api_errors (\<lambda>params. Inr (StreamGen params))
       (chat_params c (single_user message) system max_tokens temperature kwargs)"

text \<open>
  The streaming endpoint as an oracle: opening the stream may raise; an open stream
  yields its text chunks and may end with an exception.
\<close>

type_synonym stream_api = "nat \<Rightarrow> params \<Rightarrow> py_exc + (string list \<times> py_exc option)"

text \<open>\<open>for text in client.chat_stream(...)\<close>: the chunks the caller receives and the exception it sees.\<close>

definition drain_stream :: "stream_api \<Rightarrow> nat \<Rightarrow> stream_gen \<Rightarrow> string list \<times> py_exc option" where
  "drain_stream sapi k g =
     (case g of StreamGen params \<Rightarrow>
        (case sapi k params of
           Inl e \<Rightarrow> ([], Some e)
         | Inr (chunks, failure) \<Rightarrow> (chunks, failure)))"

subsection \<open>Example calls\<close>

definition demo_client :: claude_client where
  "demo_client = \<lparr>client_api_key = ''sk-ant-demo'', client_model = default_model\<rparr>"

definition rate_limited_stream :: stream_api where
  "rate_limited_stream k p = Inl (APIStatusError RateLimit ''429 Too Many Requests'')"

definition tool_first_api :: api where
  "tool_first_api k p =
     Inr \<lparr>resp_model = default_model, stop_reason = ToolUse,
          resp_content = [ToolUseBlock ''toolu_9'' ''get_weather'' [(''location'', JStr ''Paris'')]],
          resp_usage = \<lparr>input_tokens = 50, output_tokens = 20\<rparr>\<rparr>"

definition hello_api :: api where
  "hello_api k p =
     Inr \<lparr>resp_model = default_model, stop_reason = EndTurn,
          resp_content = [TextBlock ''Hello!''],
          resp_usage = \<lparr>input_tokens = 10, output_tokens = 3\<rparr>\<rparr>"

section \<open>Lemmas\<close>

text \<open>The request dictionary, key by key: \<open>kwargs\<close> first, then the method's own entries.\<close>

lemma chat_params_lookup:
  "chat_params c ms sys mt t kw k =
     (case kw k of Some v \<Rightarrow> Some v
      | None \<Rightarrow> (if k = ''model'' then Some (PStr (client_model c))
                else if k = ''max_tokens'' then Some (PInt mt)
                else if k = ''temperature'' then Some (PReal t)
                else if k = ''messages'' then Some (PMessages ms)
                else if k = ''system'' \<and> py_truthy sys then Some (PStr (the sys))
                else None))"
  by (auto simp: chat_params_def Let_def map_add_def split: option.splits)

lemma kwargs_bindable_None:
  "kwargs_bindable names kw \<Longrightarrow> k \<in> set names \<Longrightarrow> kw k = None"
  by (simp add: kwargs_bindable_def list_all_iff)

lemmas client_call_defs =
  client_chat_def client_multi_turn_chat_def client_chat_stream_def create_text_def
  handle_api_errors_def

text \<open>C24: the client's key is the explicit \<open>api_key\<close> when it is a non-empty string, else the
  environment's \<open>ANTHROPIC_API_KEY\<close> when that is non-empty; with neither, construction raises
  \<open>ValueError\<close> before any request.\<close>

theorem client_init_key_resolution:
  "client_init api_key env_key model =
     (if py_truthy api_key then Inr \<lparr>client_api_key = the api_key, client_model = model\<rparr>
      else if py_truthy env_key then Inr \<lparr>client_api_key = the env_key, client_model = model\<rparr>
      else Inl (ValueError ''API key must be provided or set in ANTHROPIC_API_KEY environment variable''))"
  by (simp add: client_init_def py_or_def Let_def)

text \<open>\<open>chat\<close> sends the caller's \<open>max_tokens\<close> and \<open>temperature\<close>, and a \<open>system\<close> entry
  exactly when the system prompt is a non-empty string.\<close>

theorem chat_params_named_args:
  assumes "kwargs_bindable chat_arg_names kw"
  shows "chat_params c (single_user m) sys mt t kw ''max_tokens'' = Some (PInt mt)
   \<and> chat_params c (single_user m) sys mt t kw ''temperature'' = Some (PReal t)
   \<and> chat_params c (single_user m) sys mt t kw ''system''
       = (if py_truthy sys then Some (PStr (the sys)) else None)"
  using kwargs_bindable_None[OF assms] by (simp add: chat_params_lookup chat_arg_names_def)

text \<open>C26: a \<open>messages\<close> or \<open>model\<close> keyword passed to \<open>chat\<close> replaces the client's model and
  the user's message in the request: the \<open>message\<close> argument is then not sent at all.\<close>

theorem chat_kwargs_override:
  assumes "kw ''model'' = Some (PStr model')" and "kw ''messages'' = Some (PMessages ms')"
  shows "chat_params c (single_user m) sys mt t kw ''model'' = Some (PStr model')
   \<and> req_messages (chat_params c (single_user m) sys mt t kw) = Some ms'"
  using assms by (simp add: chat_params_lookup req_messages_def)

text \<open>\<open>multi_turn_chat\<close> sends the caller's transcript unchanged as \<open>messages\<close>.\<close>

theorem multi_turn_sends_transcript:
  "kwargs_bindable multi_turn_arg_names kw \<Longrightarrow>
   req_messages (chat_params c ms sys mt t kw) = Some ms"
  using kwargs_bindable_None[of multi_turn_arg_names kw "''messages''"]
  by (simp add: req_messages_def chat_params_lookup multi_turn_arg_names_def)

text \<open>when the reply starts with a text block, \<open>chat\<close> returns that text and prints nothing.\<close>

theorem chat_text_reply:
  assumes "api k (chat_params c (single_user m) sys mt t kw) = Inr r"
    and "resp_content r = TextBlock txt # bs"
  shows "client_chat api k c m sys mt t kw = (Inr txt, [])"
  using assms by (simp add: client_call_defs)

text \<open>C29: when the reply is empty or starts with a tool invocation (a \<open>tools\<close> keyword makes
  that possible), \<open>chat\<close> raises \<open>IndexError\<close> or \<open>AttributeError\<close>, which the decorator
  logs as an unexpected error.\<close>

theorem chat_non_text_reply_raises:
  assumes "api k (chat_params c (single_user m) sys mt t kw) = Inr r"
    and "resp_content r = [] \<or> (\<exists>i n a bs. resp_content r = ToolUseBlock i n a # bs)"
  shows "\<exists>e. client_chat api k c m sys mt t kw = (Inl e, [Print (Unexpected_error e)])
     \<and> (e = IndexError ''list index out of range'' \<or> e = AttributeError ''text'')"
  using assms by (auto simp: client_call_defs first_text_def)

text \<open>Calling \<open>chat_stream\<close> never prints: it returns the generator. An error of the
  streaming endpoint (a rate limit, say) reaches the caller only while iterating, past the
  decorator, so no diagnostic is logged for it.\<close>

theorem chat_stream_errors_unlogged:
  assumes "sapi k (chat_params c (single_user m) sys mt t kw) = Inl e"
  shows "client_chat_stream c m sys mt t kw
       = (Inr (StreamGen (chat_params c (single_user m) sys mt t kw)), [])
   \<and> drain_stream sapi k (StreamGen (chat_params c (single_user m) sys mt t kw)) = ([], Some e)"
  using assms by (simp add: client_call_defs drain_stream_def)

section \<open>Example runs\<close>

lemma demo_kwargs_bindable: "kwargs_bindable chat_arg_names Map.empty \<and> kwargs_bindable multi_turn_arg_names Map.empty"
  by (simp add: kwargs_bindable_def chat_arg_names_def multi_turn_arg_names_def)

theorem chat_params_named_args_witness:
  "kwargs_bindable chat_arg_names Map.empty
   \<and> chat_params demo_client (single_user ''Hi'') (Some ''Be brief'') 4096 1 Map.empty ''max_tokens'' = Some (PInt 4096)
   \<and> chat_params demo_client (single_user ''Hi'') (Some ''Be brief'') 4096 1 Map.empty ''temperature'' = Some (PReal 1)
   \<and> chat_params demo_client (single_user ''Hi'') (Some ''Be brief'') 4096 1 Map.empty ''system'' = Some (PStr ''Be brief'')"
  using demo_kwargs_bindable
    chat_params_named_args[of Map.empty demo_client "''Hi''" "Some ''Be brief''" 4096 1]
  by simp

theorem chat_kwargs_override_witness:
  "[''model'' \<mapsto> PStr ''claude-3-haiku'', ''messages'' \<mapsto> PMessages []] ''model'' = Some (PStr ''claude-3-haiku'')
   \<and> [''model'' \<mapsto> PStr ''claude-3-haiku'', ''messages'' \<mapsto> PMessages []] ''messages'' = Some (PMessages [])
   \<and> chat_params demo_client (single_user ''Hi'') None 4096 1
         [''model'' \<mapsto> PStr ''claude-3-haiku'', ''messages'' \<mapsto> PMessages []] ''model'' = Some (PStr ''claude-3-haiku'')
   \<and> req_messages (chat_params demo_client (single_user ''Hi'') None 4096 1
         [''model'' \<mapsto> PStr ''claude-3-haiku'', ''messages'' \<mapsto> PMessages []]) = Some []"
proof -
  have h: "[''model'' \<mapsto> PStr ''claude-3-haiku'', ''messages'' \<mapsto> PMessages []] ''model'' = Some (PStr ''claude-3-haiku'')"
    "[''model'' \<mapsto> PStr ''claude-3-haiku'', ''messages'' \<mapsto> PMessages []] ''messages'' = Some (PMessages [])"
    by simp_all
  show ?thesis using h chat_kwargs_override[OF h, of demo_client "''Hi''" None 4096 1] by blast
qed

theorem multi_turn_sends_transcript_witness:
  "kwargs_bindable multi_turn_arg_names Map.empty
   \<and> req_messages (chat_params demo_client (single_user ''Hi'') None 4096 1 Map.empty) = Some (single_user ''Hi'')"
  using demo_kwargs_bindable
    multi_turn_sends_transcript[of Map.empty demo_client "single_user ''Hi''" None 4096 1]
  by blast

lemma hello_api_reply:
  "hello_api 0 p = Inr \<lparr>resp_model = default_model, stop_reason = EndTurn,
     resp_content = [TextBlock ''Hello!''], resp_usage = \<lparr>input_tokens = 10, output_tokens = 3\<rparr>\<rparr>"
  by (simp add: hello_api_def)

theorem chat_text_reply_witness:
  "hello_api 0 (chat_params demo_client (single_user ''Hi'') None 4096 1 Map.empty)
     = Inr \<lparr>resp_model = default_model, stop_reason = EndTurn,
         resp_content = [TextBlock ''Hello!''], resp_usage = \<lparr>input_tokens = 10, output_tokens = 3\<rparr>\<rparr>
   \<and> client_chat hello_api 0 demo_client ''Hi'' None 4096 1 Map.empty = (Inr ''Hello!'', [])"
  using hello_api_reply
    chat_text_reply[where api=hello_api and k=0 and c=demo_client and m="''Hi''" and sys=None
      and mt=4096 and t=1 and kw=Map.empty, OF hello_api_reply, of "''Hello!''" "[]"]
  by simp

lemma tool_first_api_reply:
  "tool_first_api 0 p = Inr \<lparr>resp_model = default_model, stop_reason = ToolUse,
     resp_content = [ToolUseBlock ''toolu_9'' ''get_weather'' [(''location'', JStr ''Paris'')]],
     resp_usage = \<lparr>input_tokens = 50, output_tokens = 20\<rparr>\<rparr>"
  by (simp add: tool_first_api_def)

theorem chat_non_text_reply_raises_witness:
  "tool_first_api 0 (chat_params demo_client (single_user ''Weather?'') None 4096 1 Map.empty)
     = Inr \<lparr>resp_model = default_model, stop_reason = ToolUse,
         resp_content = [ToolUseBlock ''toolu_9'' ''get_weather'' [(''location'', JStr ''Paris'')]],
         resp_usage = \<lparr>input_tokens = 50, output_tokens = 20\<rparr>\<rparr>
   \<and> (\<exists>e. client_chat tool_first_api 0 demo_client ''Weather?'' None 4096 1 Map.empty
          = (Inl e, [Print (Unexpected_error e)])
        \<and> (e = IndexError ''list index out of range'' \<or> e = AttributeError ''text''))"
  using tool_first_api_reply
    chat_non_text_reply_raises[where api=tool_first_api and k=0 and c=demo_client
      and m="''Weather?''" and sys=None and mt=4096 and t=1 and kw=Map.empty, OF tool_first_api_reply]
  by simp

theorem chat_stream_errors_unlogged_witness:
  "rate_limited_stream 0 (chat_params demo_client (single_user ''Hi'') None 4096 1 Map.empty)
     = Inl (APIStatusError RateLimit ''429 Too Many Requests'')
   \<and> client_chat_stream demo_client ''Hi'' None 4096 1 Map.empty
     = (Inr (StreamGen (chat_params demo_client (single_user ''Hi'') None 4096 1 Map.empty)), [])
   \<and> drain_stream rate_limited_stream 0 (StreamGen (chat_params demo_client (single_user ''Hi'') None 4096 1 Map.empty))
     = ([], Some (APIStatusError RateLimit ''429 Too Many Requests''))"
proof -
  have h: "rate_limited_stream 0 (chat_params demo_client (single_user ''Hi'') None 4096 1 Map.empty)
     = Inl (APIStatusError RateLimit ''429 Too Many Requests'')"
    by (simp add: rate_limited_stream_def)
  show ?thesis
    using h chat_stream_errors_unlogged[where sapi=rate_limited_stream and k=0 and c=demo_client
      and m="''Hi''" and sys=None and mt=4096 and t=1 and kw=Map.empty, OF h]
    by blast
qed

end
