(* ===== verification/Weather_Tool.thy ===== *)
theory Weather_Tool
  imports Tool_Use Py_Json
begin

text \<open>
  \<open>src/examples/10_tool_use.py\<close>, Example 1 (lines 32--138): a single round of tool use
  written out by hand, without the loop of \<open>process_tool_call\<close>. The script asks for
  the weather in San Francisco with one tool, \<open>get_weather\<close>; if the model asks for a
  tool, it takes the first \<open>tool_use\<close> block, runs \<open>get_weather(**tool_input)\<close> when the
  name is \<open>get_weather\<close>, prints the weather and sends one follow-up request carrying the
  result, then prints the answer.
  \<^item> \<open>weather_tools\<close>, \<open>weather_schema\<close>: the tool list of lines 36--56;
  \<^item> \<open>mock_data\<close>, \<open>to_fahrenheit\<close>, \<open>get_weather\<close>: the simulated weather function of
    lines 59--79, taking the JSON values the model sent (the annotations \<open>str\<close> are not
    checked by Python);
  \<^item> \<open>call_get_weather\<close>: \<open>get_weather(**tool_input)\<close>, with the default \<open>unit="celsius"\<close>;
  \<^item> \<open>weather_line\<close>: the f-string of line 109;
  \<^item> \<open>weather_example\<close>: lines 82--138, returning the outcome, the requests in order and
    the printed lines (\<open>weather_out\<close>, one constructor per \<open>print\<close>).
  The module-level client is the \<open>api\<close> oracle, called with request numbers 0 and 1, and
  \<open>json.dumps\<close> is the \<open>dumps\<close> of the \<open>json\<close> module (\<open>Py_Json.json_lib\<close>).
\<close>

section \<open>Model\<close>

definition weather_schema :: json where
  "weather_schema =
     JObj [(''type'', JStr ''object''),
           (''properties'',
              JObj [(''location'', JObj [(''type'', JStr ''string''),
                                        (''description'', JStr ''The city and state, e.g. San Francisco, CA'')]),
                    (''unit'', JObj [(''type'', JStr ''string''),
                                    (''enum'', JList [JStr ''celsius'', JStr ''fahrenheit'']),
                                    (''description'', JStr ''The temperature unit'')])]),
           (''required'', JList [JStr ''location''])]"

definition weather_tools :: "tool list" where
  "weather_tools =
     [\<lparr>tool_name = ''get_weather'',
       tool_description = ''Get the current weather for a location. Returns temperature and conditions.'',
       input_schema = weather_schema\<rparr>]"

record weather_data =
  temp :: int
  condition :: string

definition mock_data :: "string \<rightharpoonup> weather_data" where
  "mock_data =
     map_of [(''San Francisco'', \<lparr>temp = 18, condition = ''Partly cloudy''\<rparr>),
             (''New York'', \<lparr>temp = 22, condition = ''Sunny''\<rparr>),
             (''London'', \<lparr>temp = 12, condition = ''Rainy''\<rparr>)]"

text \<open>\<open>round(t * 9/5 + 32)\<close>, that is \<open>round((t * 9 + 32 * 5) / 5)\<close>.\<close>

definition to_fahrenheit :: "int \<Rightarrow> int" where
  "to_fahrenheit t = py_round_div (t * 9 + 32 * 5) 5"

definition get_weather :: "json \<Rightarrow> json \<Rightarrow> py_exc + json" where
  "get_weather location unit =
     (case location of
        JStr loc \<Rightarrow>
          (let city = py_split_first (CHR '','') loc;
               data = (case mock_data city of Some d \<Rightarrow> d | None \<Rightarrow> \<lparr>temp = 20, condition = ''Unknown''\<rparr>);
               data = (if unit = JStr ''fahrenheit'' then data\<lparr>temp := to_fahrenheit (temp data)\<rparr> else data)
           in Inr (JObj [(''location'', location), (''temperature'', JInt (temp data)),
                         (''unit'', unit), (''condition'', JStr (condition data))]))
      | _ \<Rightarrow> Inl (AttributeError ''split''))"

definition call_get_weather :: "tool_input \<Rightarrow> py_exc + json" where
  "call_get_weather tool_input =
     (case bind_kwargs_dflt [(''location'', None), (''unit'', Some (JStr ''celsius''))] tool_input of
        Some [location, unit] \<Rightarrow> get_weather location unit
      | _ \<Rightarrow> Inl (TypeError ''get_weather() got an unexpected or missing keyword argument''))"

datatype weather_out =
    Stop_reason stop_reason
  | Wants_tool string
  | Arguments tool_input
  | Weather_line json string json
  | Claude_says string

text \<open>
  Line 109: \<open>f"Weather: {result['temperature']}\<degree>{result['unit'][0].upper()}, {result['condition']}"\<close>.
  The line records the temperature, the string whose upper case is printed, and the
  condition; the subscripts and \<open>.upper()\<close> may raise.
\<close>

definition weather_line :: "json \<Rightarrow> py_exc + weather_out" where
  "weather_line result =
     py_bind (json_getitem result ''temperature'') (\<lambda>t.
     py_bind (json_getitem result ''unit'') (\<lambda>u.
     py_bind (json_index0 u) (\<lambda>u0.
     py_bind (case u0 of JStr s \<Rightarrow> Inr s | _ \<Rightarrow> Inl (AttributeError ''upper'')) (\<lambda>s.
     py_bind (json_getitem result ''condition'') (\<lambda>c.
     Inr (Weather_line t s c))))))"

text \<open>\<open>next(block for block in message.content if block.type == "tool_use")\<close>.\<close>

fun first_tool_use :: "content_block list \<Rightarrow> (string \<times> string \<times> tool_input) option" where
  "first_tool_use [] = None"
| "first_tool_use (TextBlock _ # bs) = first_tool_use bs"
| "first_tool_use (ToolUseBlock i n inp # _) = Some (i, n, inp)"

definition weather_query :: string where
  "weather_query = ''What'' @ [CHR 0x27] @ ''s the weather like in San Francisco?''"

definition weather_user :: message where
  "weather_user = \<lparr>msg_role = User, msg_content = Str weather_query\<rparr>"

text \<open>The follow-up transcript of lines 116--135.\<close>

definition weather_follow_up :: "content_block list \<Rightarrow> string \<Rightarrow> string \<Rightarrow> message list" where
  "weather_follow_up content use_id result_text =
     [weather_user,
      \<lparr>msg_role = Assistant, msg_content = Blocks content\<rparr>,
      \<lparr>msg_role = User, msg_content = Results [\<lparr>tool_use_id = use_id, result_content = result_text\<rparr>]\<rparr>]"

record weather_run =
  w_outcome :: "py_exc + unit"
  w_requests :: "params list"
  w_out :: "weather_out list"

definition weather_example :: "api \<Rightarrow> json_lib \<Rightarrow> weather_run" where
  "weather_example api json =
     (let req1 = tool_request weather_tools [weather_user]
      in case api 0 req1 of
           Inl e \<Rightarrow> \<lparr>w_outcome = Inl e, w_requests = [req1], w_out = []\<rparr>
         | Inr message \<Rightarrow>
             (let out1 = [Stop_reason (stop_reason message)]
              in if stop_reason message \<noteq> ToolUse
                 then \<lparr>w_outcome = Inr (), w_requests = [req1], w_out = out1\<rparr>
                 else case first_tool_use (resp_content message) of
                   None \<Rightarrow> \<lparr>w_outcome = Inl StopIteration, w_requests = [req1], w_out = out1\<rparr>
                 | Some (use_id, name, tool_input) \<Rightarrow>
                     (let out2 = out1 @ [Wants_tool name, Arguments tool_input]
                      in if name \<noteq> ''get_weather''
                         then \<lparr>w_outcome = Inr (), w_requests = [req1], w_out = out2\<rparr>
                         else case py_bind (call_get_weather tool_input)
                                     (\<lambda>result. py_bind (weather_line result) (\<lambda>line. Inr (result, line))) of
                           Inl e \<Rightarrow> \<lparr>w_outcome = Inl e, w_requests = [req1], w_out = out2\<rparr>
                         | Inr (result, line) \<Rightarrow>
                             (let req2 = tool_request weather_tools
                                           (weather_follow_up (resp_content message) use_id (dumps json result));
                                  out3 = out2 @ [line]
                              in case api 1 req2 of
                                   Inl e \<Rightarrow> \<lparr>w_outcome = Inl e, w_requests = [req1, req2], w_out = out3\<rparr>
                                 | Inr response \<Rightarrow>
                                     (case first_text response of
                                        Inl e \<Rightarrow> \<lparr>w_outcome = Inl e, w_requests = [req1, req2], w_out = out3\<rparr>
                                      | Inr text \<Rightarrow> \<lparr>w_outcome = Inr (), w_requests = [req1, req2],
                                                      w_out = out3 @ [Claude_says text]\<rparr>)))))"

subsection \<open>Example runs\<close>

text \<open>
  Answers of the model for the example: it asks for \<open>get_weather\<close> (or for a tool the
  script does not know, or with an empty unit), then answers in text. \<open>demo_json\<close>
  serialises every value to the same text; the runs do not depend on it.
\<close>

definition sf_input :: tool_input where
  "sf_input = [(''location'', JStr ''San Francisco, CA''), (''unit'', JStr ''celsius'')]"

definition tool_answer :: "content_block list \<Rightarrow> response" where
  "tool_answer bs = \<lparr>resp_model = ''claude-sonnet-4-20250514'', stop_reason = ToolUse, resp_content = bs,
                      resp_usage = \<lparr>input_tokens = 380, output_tokens = 60\<rparr>\<rparr>"

definition weather_api :: "tool_input \<Rightarrow> string \<Rightarrow> api" where
  "weather_api inp name k p =
     (if k = 0 then Inr (tool_answer [TextBlock ''Let me check.'', ToolUseBlock ''toolu_01'' name inp])
      else Inr \<lparr>resp_model = ''claude-sonnet-4-20250514'', stop_reason = EndTurn,
                resp_content = [TextBlock ''It is 18 degrees and partly cloudy in San Francisco.''],
                resp_usage = \<lparr>input_tokens = 450, output_tokens = 20\<rparr>\<rparr>)"

definition demo_json :: json_lib where
  "demo_json = \<lparr>dumps = (\<lambda>_. ''{}''), dumps_indented = (\<lambda>_. ''{}''), loads = (\<lambda>_. Inr (JObj []))\<rparr>"

section \<open>Lemmas\<close>

lemmas weather_example_defs = weather_example_def Let_def

text \<open>C31: when the model asks for a tool other than get_weather, Example 1 prints the request and ends normally: the tool call is silently skipped, no error is raised and no follow-up request is sent.\<close>

theorem weather_unknown_tool_skipped:
  assumes "api 0 (tool_request weather_tools [weather_user]) = Inr msg"
    and "stop_reason msg = ToolUse"
    and "first_tool_use (resp_content msg) = Some (i, n, inp)"
    and "n \<noteq> ''get_weather''"
  shows "weather_example api json =
     \<lparr>w_outcome = Inr (), w_requests = [tool_request weather_tools [weather_user]],
      w_out = [Stop_reason ToolUse, Wants_tool n, Arguments inp]\<rparr>"
  using assms by (simp add: weather_example_defs)

text \<open>C32: when the model asks for get_weather with arguments the function accepts, Example 1 runs it, sends exactly one follow-up request whose transcript is the question, the assistant's content and one tool result with the request's id and json.dumps of the result, and prints the final answer.\<close>

theorem weather_tool_round:
  assumes "api 0 (tool_request weather_tools [weather_user]) = Inr msg"
    and "stop_reason msg = ToolUse"
    and "first_tool_use (resp_content msg) = Some (i, ''get_weather'', inp)"
    and "call_get_weather inp = Inr result" and "weather_line result = Inr line"
    and "api 1 (tool_request weather_tools (weather_follow_up (resp_content msg) i (dumps json result))) = Inr response"
    and "first_text response = Inr text"
  shows "weather_example api json =
     \<lparr>w_outcome = Inr (),
      w_requests = [tool_request weather_tools [weather_user],
                    tool_request weather_tools (weather_follow_up (resp_content msg) i (dumps json result))],
      w_out = [Stop_reason ToolUse, Wants_tool ''get_weather'', Arguments inp, line, Claude_says text]\<rparr>"
  using assms by (simp add: weather_example_defs)

text \<open>C33: the follow-up transcript of Example 1 satisfies the tool-result invariant of the spec exactly when the assistant's answer held a single tool invocation request, the one answered; any further request is left without a result.\<close>

theorem weather_follow_up_answers_first_only:
  "Tool_Use.transcript_ok (weather_follow_up bs i r) \<longleftrightarrow> tool_use_ids bs = [i]"
  by (auto simp: transcript_ok_def weather_follow_up_def weather_user_def)

text \<open>The Fahrenheit conversion of get_weather is within one half degree of t * 9/5 + 32.\<close>

theorem to_fahrenheit_bound:
  "\<bar>real_of_int (to_fahrenheit t) - (real_of_int t * 9 / 5 + 32)\<bar> \<le> 1 / 2"
proof -
  have b: "\<bar>real_of_int (to_fahrenheit t) - real_of_int (t * 9 + 32 * 5) / real_of_int 5\<bar> \<le> 1 / 2"
    unfolding to_fahrenheit_def by (rule py_round_div_bound) simp
  have eq: "real_of_int (t * 9 + 32 * 5) / real_of_int 5 = real_of_int t * 9 / 5 + 32" by simp
  show ?thesis using b unfolding eq .
qed

text \<open>get_weather(**tool_input) runs get_weather with the given location and the given unit or celsius by default, and raises TypeError when a keyword is unexpected or location is missing.\<close>

theorem call_get_weather_binding:
  "call_get_weather inp =
     (if distinct (map fst inp) \<and> set (map fst inp) \<subseteq> {''location'', ''unit''}
         \<and> ''location'' \<in> set (map fst inp)
      then get_weather (the (map_of inp ''location''))
             (case map_of inp ''unit'' of Some u \<Rightarrow> u | None \<Rightarrow> JStr ''celsius'')
      else Inl (TypeError ''get_weather() got an unexpected or missing keyword argument''))"
  by (auto simp: call_get_weather_def bind_kwargs_dflt_def list_all_iff split: option.splits)

text \<open>C34: a get_weather request with an empty unit string runs the function, then raises IndexError in the print of line 109 (result['unit'][0]), so no follow-up request is sent.\<close>

theorem weather_empty_unit_index_error:
  assumes "api 0 (tool_request weather_tools [weather_user]) = Inr msg"
    and "stop_reason msg = ToolUse"
    and "first_tool_use (resp_content msg) = Some (i, ''get_weather'', [(''location'', JStr loc), (''unit'', JStr [])])"
  shows "weather_example api json =
     \<lparr>w_outcome = Inl (IndexError ''string index out of range''),
      w_requests = [tool_request weather_tools [weather_user]],
      w_out = [Stop_reason ToolUse, Wants_tool ''get_weather'', Arguments [(''location'', JStr loc), (''unit'', JStr [])]]\<rparr>"
  using assms
  by (simp add: weather_example_defs call_get_weather_def bind_kwargs_dflt_def get_weather_def weather_line_def Let_def)

section \<open>Witnesses\<close>

lemma weather_api_first:
  "weather_api inp name 0 (tool_request weather_tools [weather_user])
     = Inr (tool_answer [TextBlock ''Let me check.'', ToolUseBlock ''toolu_01'' name inp])"
  by (simp add: weather_api_def)

theorem weather_unknown_tool_skipped_witness:
  "weather_api sf_input ''get_forecast'' 0 (tool_request weather_tools [weather_user])
     = Inr (tool_answer [TextBlock ''Let me check.'', ToolUseBlock ''toolu_01'' ''get_forecast'' sf_input])
   \<and> stop_reason (tool_answer [TextBlock ''Let me check.'', ToolUseBlock ''toolu_01'' ''get_forecast'' sf_input]) = ToolUse
   \<and> first_tool_use (resp_content (tool_answer [TextBlock ''Let me check.'', ToolUseBlock ''toolu_01'' ''get_forecast'' sf_input]))
       = Some (''toolu_01'', ''get_forecast'', sf_input)
   \<and> ''get_forecast'' \<noteq> ''get_weather''
   \<and> weather_example (weather_api sf_input ''get_forecast'') demo_json =
       \<lparr>w_outcome = Inr (), w_requests = [tool_request weather_tools [weather_user]],
        w_out = [Stop_reason ToolUse, Wants_tool ''get_forecast'', Arguments sf_input]\<rparr>"
proof -
  have h: "weather_api sf_input ''get_forecast'' 0 (tool_request weather_tools [weather_user])
     = Inr (tool_answer [TextBlock ''Let me check.'', ToolUseBlock ''toolu_01'' ''get_forecast'' sf_input])"
    "stop_reason (tool_answer [TextBlock ''Let me check.'', ToolUseBlock ''toolu_01'' ''get_forecast'' sf_input]) = ToolUse"
    "first_tool_use (resp_content (tool_answer [TextBlock ''Let me check.'', ToolUseBlock ''toolu_01'' ''get_forecast'' sf_input]))
       = Some (''toolu_01'', ''get_forecast'', sf_input)"
    "''get_forecast'' \<noteq> ''get_weather''"
    by (simp_all add: weather_api_first tool_answer_def)
  show ?thesis using h weather_unknown_tool_skipped[where api="weather_api sf_input ''get_forecast''" and json=demo_json, OF h] by blast
qed

lemma sf_result:
  "call_get_weather sf_input = Inr (JObj [(''location'', JStr ''San Francisco, CA''), (''temperature'', JInt 18),
      (''unit'', JStr ''celsius''), (''condition'', JStr ''Partly cloudy'')])"
  by (simp add: sf_input_def call_get_weather_def bind_kwargs_dflt_def get_weather_def mock_data_def
      py_split_first_def)

theorem weather_tool_round_witness:
  "weather_api sf_input ''get_weather'' 0 (tool_request weather_tools [weather_user])
     = Inr (tool_answer [TextBlock ''Let me check.'', ToolUseBlock ''toolu_01'' ''get_weather'' sf_input])
   \<and> weather_example (weather_api sf_input ''get_weather'') demo_json =
     \<lparr>w_outcome = Inr (),
      w_requests = [tool_request weather_tools [weather_user],
                    tool_request weather_tools
                      (weather_follow_up [TextBlock ''Let me check.'', ToolUseBlock ''toolu_01'' ''get_weather'' sf_input]
                         ''toolu_01'' ''{}'')],
      w_out = [Stop_reason ToolUse, Wants_tool ''get_weather'', Arguments sf_input,
               Weather_line (JInt 18) ''c'' (JStr ''Partly cloudy''),
               Claude_says ''It is 18 degrees and partly cloudy in San Francisco.'']\<rparr>"
proof -
  let ?bs = "[TextBlock ''Let me check.'', ToolUseBlock ''toolu_01'' ''get_weather'' sf_input]"
  let ?r = "JObj [(''location'', JStr ''San Francisco, CA''), (''temperature'', JInt 18),
      (''unit'', JStr ''celsius''), (''condition'', JStr ''Partly cloudy'')]"
  have h: "weather_api sf_input ''get_weather'' 0 (tool_request weather_tools [weather_user]) = Inr (tool_answer ?bs)"
    "stop_reason (tool_answer ?bs) = ToolUse"
    "first_tool_use (resp_content (tool_answer ?bs)) = Some (''toolu_01'', ''get_weather'', sf_input)"
    "call_get_weather sf_input = Inr ?r"
    "weather_line ?r = Inr (Weather_line (JInt 18) ''c'' (JStr ''Partly cloudy''))"
    "weather_api sf_input ''get_weather'' 1
       (tool_request weather_tools (weather_follow_up (resp_content (tool_answer ?bs)) ''toolu_01'' (dumps demo_json ?r)))
     = Inr \<lparr>resp_model = ''claude-sonnet-4-20250514'', stop_reason = EndTurn,
                resp_content = [TextBlock ''It is 18 degrees and partly cloudy in San Francisco.''],
                resp_usage = \<lparr>input_tokens = 450, output_tokens = 20\<rparr>\<rparr>"
    "first_text \<lparr>resp_model = ''claude-sonnet-4-20250514'', stop_reason = EndTurn,
                resp_content = [TextBlock ''It is 18 degrees and partly cloudy in San Francisco.''],
                resp_usage = \<lparr>input_tokens = 450, output_tokens = 20\<rparr>\<rparr>
       = Inr ''It is 18 degrees and partly cloudy in San Francisco.''"
    by (simp_all add: weather_api_first tool_answer_def sf_result weather_line_def weather_api_def
        first_text_def)
  have d: "dumps demo_json ?r = ''{}''" "resp_content (tool_answer ?bs) = ?bs"
    by (simp_all add: demo_json_def tool_answer_def)
  show ?thesis
    using h(1) weather_tool_round[where api="weather_api sf_input ''get_weather''" and json=demo_json, OF h]
    unfolding d by (rule conjI)
qed

theorem weather_empty_unit_index_error_witness:
  "weather_api [(''location'', JStr ''London''), (''unit'', JStr [])] ''get_weather'' 0
      (tool_request weather_tools [weather_user])
     = Inr (tool_answer [TextBlock ''Let me check.'',
              ToolUseBlock ''toolu_01'' ''get_weather'' [(''location'', JStr ''London''), (''unit'', JStr [])]])
   \<and> weather_example (weather_api [(''location'', JStr ''London''), (''unit'', JStr [])] ''get_weather'') demo_json =
     \<lparr>w_outcome = Inl (IndexError ''string index out of range''),
      w_requests = [tool_request weather_tools [weather_user]],
      w_out = [Stop_reason ToolUse, Wants_tool ''get_weather'',
               Arguments [(''location'', JStr ''London''), (''unit'', JStr [])]]\<rparr>"
proof -
  let ?inp = "[(''location'', JStr ''London''), (''unit'', JStr [])]"
  let ?bs = "[TextBlock ''Let me check.'', ToolUseBlock ''toolu_01'' ''get_weather'' ?inp]"
  have h: "weather_api ?inp ''get_weather'' 0 (tool_request weather_tools [weather_user]) = Inr (tool_answer ?bs)"
    "stop_reason (tool_answer ?bs) = ToolUse"
    "first_tool_use (resp_content (tool_answer ?bs)) = Some (''toolu_01'', ''get_weather'', ?inp)"
    by (simp_all add: weather_api_first tool_answer_def)
  show ?thesis using h(1) weather_empty_unit_index_error[where api="weather_api ?inp ''get_weather''" and json=demo_json, OF h] by blast
qed

end
