(* ===== verification/Json_Reports.thy ===== *)
theory Json_Reports
  imports Py_Json
begin

text \<open>
  The scripts that ask the model for JSON and post-process it:
  \<open>src/examples/04_structured_output.py\<close> (both examples) and
  \<open>src/examples/08_data_extractor.py\<close> (Examples 1 and 2; the sorting of events in
  Example 3 is not modelled). Each example sends one request, decodes
  \<open>message.content[0].text\<close> with \<open>json.loads\<close> and prints fields of the result.
  \<^item> \<open>script_request\<close>: the keyword arguments of \<open>client.messages.create\<close>, with the
    prompts of the scripts transcribed as the definitions below;
  \<^item> \<open>report_out\<close>: the lines printed, one constructor per kind of \<open>print\<close> (fixed
    headings by their text without the leading emoji, values by the JSON value that
    \<open>str()\<close> formats);
  \<^item> \<open>product_report\<close>, \<open>contacts_report\<close>: the post-processing of 04 (lines 59--73 and
    103--115), whose \<open>try\<close> catches only \<open>json.JSONDecodeError\<close>;
  \<^item> \<open>contact_card\<close>, \<open>contacts_extraction\<close>, \<open>sum_field\<close>, \<open>financial_summary\<close>:
    the post-processing of 08 (lines 83--94 and 153--159), which has no \<open>try\<close>;
  \<^item> \<open>structured_output_script\<close>, \<open>data_extractor_examples\<close>: the module-level runs,
    the client being the \<open>api\<close> oracle numbered by request.
  JSON numbers are integers in this model: a reply with a fractional amount is outside it.
\<close>

section \<open>Model\<close>

subsection \<open>Requests\<close>

definition script_request :: "int \<Rightarrow> real option \<Rightarrow> string \<Rightarrow> string \<Rightarrow> params" where
  "script_request max_tokens temperature system content =
     (let params = [''model'' \<mapsto> PStr ''claude-sonnet-4-20250514'', ''max_tokens'' \<mapsto> PInt max_tokens,
                    ''system'' \<mapsto> PStr system,
                    ''messages'' \<mapsto> PMessages [\<lparr>msg_role = User, msg_content = Str content\<rparr>]]
      in case temperature of None \<Rightarrow> params | Some t \<Rightarrow> params(''temperature'' \<mapsto> PReal t))"

subsubsection \<open>\<open>04_structured_output.py\<close>\<close>

text \<open>Lines 34--38.\<close>

definition text_to_analyze :: string where
  "text_to_analyze =
     [CHR 0x0A] @
     ''The new iPhone 15 Pro was released yesterday. It features a titanium design,'' @
     [CHR 0x0A] @
     ''USB-C charging, and an improved A17 Pro chip. The starting price is $999.'' @
     [CHR 0x0A] @
     ''Early reviews are overwhelmingly positive, praising the camera quality.'' @
     [CHR 0x0A]"

text \<open>Lines 43--50.\<close>

definition so_system1 :: string where
  "so_system1 =
     ''You are a data extraction assistant. Always respond with valid JSON only, no additional text.'' @
     [CHR 0x0A] @ ''Extract information in this exact format:'' @ [CHR 0x0A] @ ''{'' @
     [CHR 0x0A] @ ''  '' @ [CHR 0x22] @ ''product'' @ [CHR 0x22] @ '': '' @ [CHR 0x22] @
     ''product name'' @ [CHR 0x22] @ '','' @ [CHR 0x0A] @ ''  '' @ [CHR 0x22] @
     ''price'' @ [CHR 0x22] @ '': numeric_value,'' @ [CHR 0x0A] @ ''  '' @ [CHR 0x22] @
     ''key_features'' @ [CHR 0x22] @ '': ['' @ [CHR 0x22] @ ''feature1'' @ [CHR 0x22] @
     '', '' @ [CHR 0x22] @ ''feature2'' @ [CHR 0x22] @ ''],'' @ [CHR 0x0A] @ ''  '' @
     [CHR 0x22] @ ''sentiment'' @ [CHR 0x22] @ '': '' @ [CHR 0x22] @
     ''positive/negative/neutral'' @ [CHR 0x22, CHR 0x0A] @ ''}''"

text \<open>Lines 40--57.\<close>

definition so_request1 :: params where
  "so_request1 =
     script_request 1024 None so_system1
       (''Extract structured data from this text:'' @ [CHR 0x0A, CHR 0x0A] @ text_to_analyze)"

text \<open>Lines 82--90.\<close>

definition so_system2 :: string where
  "so_system2 =
     ''You are a data extraction assistant. Always respond with valid JSON only.'' @
     [CHR 0x0A] @ ''Return an array of objects with this structure:'' @ [CHR 0x0A] @
     ''['' @ [CHR 0x0A] @ ''  {'' @ [CHR 0x0A] @ ''    '' @ [CHR 0x22] @ ''name'' @
     [CHR 0x22] @ '': '' @ [CHR 0x22] @ ''person name'' @ [CHR 0x22] @ '','' @
     [CHR 0x0A] @ ''    '' @ [CHR 0x22] @ ''role'' @ [CHR 0x22] @ '': '' @ [CHR 0x22] @
     ''their role'' @ [CHR 0x22] @ '','' @ [CHR 0x0A] @ ''    '' @ [CHR 0x22] @
     ''email'' @ [CHR 0x22] @ '': '' @ [CHR 0x22] @ ''email if mentioned, else null'' @
     [CHR 0x22, CHR 0x0A] @ ''  }'' @ [CHR 0x0A] @ '']''"

text \<open>Lines 94--98.\<close>

definition so_prompt2 :: string where
  "so_prompt2 =
     ''Extract contact information:'' @ [CHR 0x0A] @ ''            '' @ [CHR 0x0A] @
     ''John Smith is the CEO of Acme Corp. You can reach him at john@acme.com.'' @
     [CHR 0x0A] @
     ''Sarah Johnson serves as the CTO and handles technical partnerships.'' @
     [CHR 0x0A] @ ''Mike Chen is the Head of Sales.''"

text \<open>Lines 79--101.\<close>

definition so_request2 :: params where
  "so_request2 = script_request 2048 None so_system2 so_prompt2"

subsubsection \<open>\<open>08_data_extractor.py\<close>\<close>

text \<open>Lines 37--52.\<close>

definition unstructured_text :: string where
  "unstructured_text =
     [CHR 0x0A] @ ''Hey team,'' @ [CHR 0x0A, CHR 0x0A] @ ''After yesterday'' @
     [CHR 0x27] @ ''s meeting, here are the contacts you need:'' @ [CHR 0x0A, CHR 0x0A] @
     ''1. John Smith is the new VP of Engineering at TechCorp. You can reach him at '' @
     [CHR 0x0A] @
     ''   john.smith@techcorp.com or call (555) 123-4567. His office is in Building 3.'' @
     [CHR 0x0A, CHR 0x0A] @
     ''2. Sarah Martinez, the Head of Sales, is based in our NYC office. Email her at'' @
     [CHR 0x0A] @ ''   s.martinez@company.com. She'' @ [CHR 0x27] @
     ''s available M-F, 9-5 EST.'' @ [CHR 0x0A, CHR 0x0A] @
     ''3. For legal questions, contact Mike Chen (General Counsel). His assistant is '' @
     [CHR 0x0A] @ ''   Jennifer Lee - jennifer.l@company.com, extension 1234.'' @
     [CHR 0x0A, CHR 0x0A] @ ''Thanks!'' @ [CHR 0x0A]"

text \<open>Lines 58--74.\<close>

definition dx_system1 :: string where
  "dx_system1 =
     ''You are a data extraction specialist. Extract contact information and return ONLY valid JSON.'' @
     [CHR 0x0A, CHR 0x0A] @ ''Format:'' @ [CHR 0x0A] @ ''{'' @ [CHR 0x0A] @ ''  '' @
     [CHR 0x22] @ ''contacts'' @ [CHR 0x22] @ '': ['' @ [CHR 0x0A] @ ''    {'' @
     [CHR 0x0A] @ ''      '' @ [CHR 0x22] @ ''name'' @ [CHR 0x22] @ '': '' @ [CHR 0x22] @
     ''Full Name'' @ [CHR 0x22] @ '','' @ [CHR 0x0A] @ ''      '' @ [CHR 0x22] @
     ''title'' @ [CHR 0x22] @ '': '' @ [CHR 0x22] @ ''Job Title (or null)'' @ [CHR 0x22] @
     '','' @ [CHR 0x0A] @ ''      '' @ [CHR 0x22] @ ''company'' @ [CHR 0x22] @ '': '' @
     [CHR 0x22] @ ''Company Name (or null)'' @ [CHR 0x22] @ '','' @ [CHR 0x0A] @
     ''      '' @ [CHR 0x22] @ ''email'' @ [CHR 0x22] @ '': '' @ [CHR 0x22] @
     ''email@domain.com (or null)'' @ [CHR 0x22] @ '','' @ [CHR 0x0A] @ ''      '' @
     [CHR 0x22] @ ''phone'' @ [CHR 0x22] @ '': '' @ [CHR 0x22] @
     ''Phone Number (or null)'' @ [CHR 0x22] @ '','' @ [CHR 0x0A] @ ''      '' @
     [CHR 0x22] @ ''location'' @ [CHR 0x22] @ '': '' @ [CHR 0x22] @
     ''Location (or null)'' @ [CHR 0x22, CHR 0x0A] @ ''    }'' @ [CHR 0x0A] @ ''  ]'' @
     [CHR 0x0A] @ ''}'' @ [CHR 0x0A, CHR 0x0A] @
     ''Include only information explicitly mentioned. Use null for missing data.''"

text \<open>Lines 54--81.\<close>

definition dx_request1 :: params where
  "dx_request1 =
     script_request 1024 (Some 0.2) dx_system1
       (''Extract all contact information:'' @ [CHR 0x0A, CHR 0x0A] @ unstructured_text)"

text \<open>Lines 99--113.\<close>

definition financial_text :: string where
  "financial_text =
     [CHR 0x0A] @ ''Q3 2024 Financial Summary:'' @ [CHR 0x0A, CHR 0x0A] @
     ''Revenue was $2.5M, up 35% YoY. Operating expenses came in at $1.8M, '' @
     [CHR 0x0A] @
     ''including $450K in R&D, $600K in sales & marketing, and $750K in G&A.'' @
     [CHR 0x0A, CHR 0x0A] @ ''Net income: $700K (28% margin)'' @ [CHR 0x0A] @
     ''Cash on hand: $5.2M'' @ [CHR 0x0A] @ ''ARR growth: 42%'' @ [CHR 0x0A, CHR 0x0A] @
     ''Major deals closed:'' @ [CHR 0x0A] @
     ''- Acme Corp: $150K annual contract (3-year commitment)'' @ [CHR 0x0A] @
     ''- TechStart Inc: $85K annual contract'' @ [CHR 0x0A] @
     ''- Global Systems: $220K annual contract (enterprise tier)'' @ [CHR 0x0A]"

text \<open>Lines 119--144.\<close>

definition dx_system2 :: string where
  "dx_system2 =
     ''You are a financial data extraction specialist. Extract all financial metrics and return ONLY valid JSON.'' @
     [CHR 0x0A, CHR 0x0A] @ ''Format:'' @ [CHR 0x0A] @ ''{'' @ [CHR 0x0A] @ ''  '' @
     [CHR 0x22] @ ''period'' @ [CHR 0x22] @ '': '' @ [CHR 0x22] @ ''Q3 2024'' @
     [CHR 0x22] @ '','' @ [CHR 0x0A] @ ''  '' @ [CHR 0x22] @ ''metrics'' @ [CHR 0x22] @
     '': {'' @ [CHR 0x0A] @ ''    '' @ [CHR 0x22] @ ''revenue'' @ [CHR 0x22] @
     '': 2500000,'' @ [CHR 0x0A] @ ''    '' @ [CHR 0x22] @ ''operating_expenses'' @
     [CHR 0x22] @ '': 1800000,'' @ [CHR 0x0A] @ ''    '' @ [CHR 0x22] @ ''net_income'' @
     [CHR 0x22] @ '': 700000,'' @ [CHR 0x0A] @ ''    '' @ [CHR 0x22] @ ''cash'' @
     [CHR 0x22] @ '': 5200000'' @ [CHR 0x0A] @ ''  },'' @ [CHR 0x0A] @ ''  '' @
     [CHR 0x22] @ ''growth'' @ [CHR 0x22] @ '': {'' @ [CHR 0x0A] @ ''    '' @ [CHR 0x22] @
     ''revenue_yoy'' @ [CHR 0x22] @ '': 35,'' @ [CHR 0x0A] @ ''    '' @ [CHR 0x22] @
     ''arr_growth'' @ [CHR 0x22] @ '': 42'' @ [CHR 0x0A] @ ''  },'' @ [CHR 0x0A] @
     ''  '' @ [CHR 0x22] @ ''deals'' @ [CHR 0x22] @ '': ['' @ [CHR 0x0A] @ ''    {'' @
     [CHR 0x0A] @ ''      '' @ [CHR 0x22] @ ''company'' @ [CHR 0x22] @ '': '' @
     [CHR 0x22] @ ''Company Name'' @ [CHR 0x22] @ '','' @ [CHR 0x0A] @ ''      '' @
     [CHR 0x22] @ ''amount'' @ [CHR 0x22] @ '': 150000,'' @ [CHR 0x0A] @ ''      '' @
     [CHR 0x22] @ ''type'' @ [CHR 0x22] @ '': '' @ [CHR 0x22] @ ''annual'' @ [CHR 0x22] @
     '','' @ [CHR 0x0A] @ ''      '' @ [CHR 0x22] @ ''duration_years'' @ [CHR 0x22] @
     '': 3'' @ [CHR 0x0A] @ ''    }'' @ [CHR 0x0A] @ ''  ]'' @ [CHR 0x0A] @ ''}'' @
     [CHR 0x0A, CHR 0x0A] @
     ''All amounts in USD. Percentages as numbers (35, not 0.35).''"

text \<open>Lines 115--151.\<close>

definition dx_request2 :: params where
  "dx_request2 =
     script_request 1024 (Some 0.1) dx_system2
       (''Extract financial data:'' @ [CHR 0x0A, CHR 0x0A] @ financial_text)"

subsection \<open>Printed lines\<close>

datatype report_out =
    Heading string
  | Dumped string
  | Field string json
  | Text_field string string
  | Name_role json json
  | Parse_failed py_exc
  | Raw_response string
  | Event_line json json

fun is_JSONDecodeError :: "py_exc \<Rightarrow> bool" where
  "is_JSONDecodeError (JSONDecodeError _) = True"
| "is_JSONDecodeError _ = False"

text \<open>\<open>if x.get(k): print(f"<label>{x[k]}")\<close>, the optional fields of a contact.\<close>

definition print_if_present :: "json \<Rightarrow> string \<Rightarrow> string \<Rightarrow> (report_out, unit) run" where
  "print_if_present x k label =
     run_bind (lift (json_get x k)) (\<lambda>v.
       if json_truthy v then run_bind (lift (json_getitem x k)) (\<lambda>v'. emit (Field label v'))
       else (Inr (), []))"

subsection \<open>Post-processing in \<open>04_structured_output.py\<close>\<close>

text \<open>Lines 59--73.\<close>

definition product_report :: "json_lib \<Rightarrow> response \<Rightarrow> (report_out, unit) run" where
  "product_report json message =
     run_bind (lift (first_text message)) (\<lambda>text.
       case loads json text of
         Inl e \<Rightarrow>
           if is_JSONDecodeError e
           then run_bind (emit (Parse_failed e)) (\<lambda>_.
                  run_bind (lift (first_text message)) (\<lambda>raw. emit (Raw_response raw)))
           else lift (Inl e)
       | Inr structured_data \<Rightarrow>
           run_bind (emit (Heading ''Extracted data:'')) (\<lambda>_.
           run_bind (emit (Dumped (dumps_indented json structured_data))) (\<lambda>_.
           run_bind (lift (json_getitem structured_data ''product'')) (\<lambda>v.
           run_bind (emit (Field ''Product: '' v)) (\<lambda>_.
           run_bind (lift (json_getitem structured_data ''price'')) (\<lambda>v.
           run_bind (emit (Field ''Price: $'' v)) (\<lambda>_.
           run_bind (lift (py_bind (json_getitem structured_data ''key_features'') (py_join '', ''))) (\<lambda>s.
           run_bind (emit (Text_field ''Features: '' s)) (\<lambda>_.
           run_bind (lift (json_getitem structured_data ''sentiment'')) (\<lambda>v.
           emit (Field ''Sentiment: '' v)))))))))))"

text \<open>The body of the loop of lines 109--112.\<close>

definition contact_line :: "json \<Rightarrow> (report_out, unit) run" where
  "contact_line contact =
     run_bind (lift (json_getitem contact ''name'')) (\<lambda>name.
     run_bind (lift (json_getitem contact ''role'')) (\<lambda>role.
     run_bind (emit (Name_role name role)) (\<lambda>_.
     print_if_present contact ''email'' ''Email: '')))"

text \<open>Lines 103--115.\<close>

definition contacts_report :: "json_lib \<Rightarrow> response \<Rightarrow> (report_out, unit) run" where
  "contacts_report json message =
     run_bind (lift (first_text message)) (\<lambda>text.
       case loads json text of
         Inl e \<Rightarrow> if is_JSONDecodeError e then emit (Parse_failed e) else lift (Inl e)
       | Inr contacts \<Rightarrow>
           run_bind (emit (Heading ''Extracted contacts:'')) (\<lambda>_.
           run_bind (emit (Dumped (dumps_indented json contacts))) (\<lambda>_.
           run_bind (lift (json_iter contacts)) (\<lambda>items.
           run_each contact_line items))))"

text \<open>The module-level statements of the script (lines 25--115).\<close>

definition structured_output_script :: "string option \<Rightarrow> api \<Rightarrow> json_lib \<Rightarrow> (report_out, unit) run" where
  "structured_output_script env_key api json =
     run_bind (lift (require_api_key env_key)) (\<lambda>_.
     run_bind (lift (api 0 so_request1)) (\<lambda>message.
     run_bind (product_report json message) (\<lambda>_.
     run_bind (lift (api 1 so_request2)) (\<lambda>message.
     contacts_report json message))))"

subsection \<open>Post-processing in \<open>08_data_extractor.py\<close>\<close>

text \<open>The body of the loop of lines 87--94.\<close>

definition contact_card :: "json \<Rightarrow> (report_out, unit) run" where
  "contact_card contact =
     run_bind (lift (json_getitem contact ''name'')) (\<lambda>name.
     run_bind (emit (Field ''- '' name)) (\<lambda>_.
     run_bind (print_if_present contact ''title'' ''Role: '') (\<lambda>_.
     run_bind (print_if_present contact ''email'' ''Email: '') (\<lambda>_.
     print_if_present contact ''phone'' ''Phone: ''))))"

text \<open>Lines 83--94: no \<open>try\<close>, a decoding error ends the script.\<close>

definition contacts_extraction :: "json_lib \<Rightarrow> response \<Rightarrow> (report_out, unit) run" where
  "contacts_extraction json message =
     run_bind (lift (first_text message)) (\<lambda>text.
     run_bind (lift (loads json text)) (\<lambda>contacts_data.
     run_bind (emit (Dumped (dumps_indented json contacts_data))) (\<lambda>_.
     run_bind (emit (Heading ''Formatted Contacts:'')) (\<lambda>_.
     run_bind (lift (py_bind (json_getitem contacts_data ''contacts'') json_iter)) (\<lambda>items.
     run_each contact_card items)))))"

text \<open>
  \<open>sum(d[k] for d in ds)\<close>: the generator reads one field at a time, and \<open>sum\<close> adds it
  to the running total, which starts at the integer 0.
\<close>

fun sum_field :: "string \<Rightarrow> int \<Rightarrow> json list \<Rightarrow> py_exc + int" where
  "sum_field k acc [] = Inr acc"
| "sum_field k acc (d # ds) =
     py_bind (json_getitem d k) (\<lambda>v.
       case json_num v of
         Some n \<Rightarrow> sum_field k (acc + n) ds
       | None \<Rightarrow> Inl (TypeError ''unsupported operand type(s) for +''))"

text \<open>Lines 153--159.\<close>

definition financial_summary :: "json_lib \<Rightarrow> response \<Rightarrow> (report_out, unit) run" where
  "financial_summary json message =
     run_bind (lift (first_text message)) (\<lambda>text.
     run_bind (lift (loads json text)) (\<lambda>financial_data.
     run_bind (emit (Dumped (dumps_indented json financial_data))) (\<lambda>_.
     run_bind (emit (Heading ''Summary:'')) (\<lambda>_.
     run_bind (lift (py_bind (json_getitem financial_data ''metrics'') (\<lambda>m.
                     py_bind (json_getitem m ''revenue'') py_format_comma))) (\<lambda>s.
     run_bind (emit (Text_field ''Revenue: $'' s)) (\<lambda>_.
     run_bind (lift (py_bind (json_getitem financial_data ''metrics'') (\<lambda>m.
                     py_bind (json_getitem m ''net_income'') py_format_comma))) (\<lambda>s.
     run_bind (emit (Text_field ''Net Income: $'' s)) (\<lambda>_.
     run_bind (lift (py_bind (json_getitem financial_data ''deals'') (\<lambda>deals.
                     py_bind (json_iter deals) (\<lambda>ds.
                     py_bind (sum_field ''amount'' 0 ds) (\<lambda>total. py_format_comma (JInt total)))))) (\<lambda>s.
     emit (Text_field ''Total Deals: $'' s))))))))))"

text \<open>The key check and Examples 1 and 2 of the script (lines 28--159).\<close>

definition data_extractor_examples :: "string option \<Rightarrow> api \<Rightarrow> json_lib \<Rightarrow> (report_out, unit) run" where
  "data_extractor_examples env_key api json =
     run_bind (lift (require_api_key env_key)) (\<lambda>_.
     run_bind (lift (api 0 dx_request1)) (\<lambda>message.
     run_bind (contacts_extraction json message) (\<lambda>_.
     run_bind (lift (api 1 dx_request2)) (\<lambda>message.
     financial_summary json message))))"

subsection \<open>Example replies\<close>

text \<open>
  A reply to the request of 04 Example 2 that wraps the array in an object, as the
  prompts of 08 ask for, and a \<open>json\<close> module that decodes it.
\<close>

definition wrapped_contacts :: json where
  "wrapped_contacts =
     JObj [(''contacts'', JList [JObj [(''name'', JStr ''John Smith''), (''role'', JStr ''CEO''),
                                       (''email'', JStr ''john@acme.com'')]])]"

definition text_reply :: "string \<Rightarrow> response" where
  "text_reply t =
     \<lparr>resp_model = ''claude-sonnet-4-20250514'', stop_reason = EndTurn, resp_content = [TextBlock t],
      resp_usage = \<lparr>input_tokens = 120, output_tokens = 40\<rparr>\<rparr>"

definition decoding_json :: "json \<Rightarrow> json_lib" where
  "decoding_json v = \<lparr>dumps = (\<lambda>_. ''{}''), dumps_indented = (\<lambda>_. ''{}''), loads = (\<lambda>_. Inr v)\<rparr>"

section \<open>Properties\<close>

text \<open>C39: the Total Deals line of 08 Example 2 sums the amounts exactly when every deal has a numeric amount (an integer or a boolean), and the total is their sum; a missing amount raises KeyError and a null or string amount raises TypeError.\<close>

theorem sum_field_total:
  "sum_field k acc ds = Inr t \<longleftrightarrow>
     (\<exists>ns. list_all2 (\<lambda>d n. \<exists>v. json_getitem d k = Inr v \<and> json_num v = Some n) ds ns
           \<and> t = acc + sum_list ns)"
proof (induction ds arbitrary: acc)
  case Nil
  then show ?case by auto
next
  case (Cons d ds)
  show ?case
  proof (cases "json_getitem d k")
    case (Inl e)
    then show ?thesis by (auto simp: list_all2_Cons1)
  next
    case (Inr v)
    then show ?thesis
      using Cons.IH by (cases "json_num v") (auto simp: list_all2_Cons1 algebra_simps)
  qed
qed

text \<open>C40: when the reply of 04 Example 2 decodes to a non-empty JSON object instead of an array, the loop iterates over its keys and contact['name'] raises TypeError on a string after the data was printed; the handler catches only JSONDecodeError, so the script ends with that TypeError.\<close>

theorem contacts_object_reply_type_error:
  assumes "first_text message = Inr text"
    and "loads json text = Inr (JObj ((k, v) # kvs))"
  shows "contacts_report json message =
     (Inl (TypeError ''string indices must be integers''),
      [Heading ''Extracted contacts:'', Dumped (dumps_indented json (JObj ((k, v) # kvs)))])"
  using assms by (simp add: contacts_report_def contact_line_def lift_def)

section \<open>Witnesses\<close>

theorem contacts_object_reply_type_error_witness:
  "first_text (text_reply ''(a JSON object)'') = Inr ''(a JSON object)''
   \<and> loads (decoding_json wrapped_contacts) ''(a JSON object)''
       = Inr (JObj [(''contacts'', JList [JObj [(''name'', JStr ''John Smith''), (''role'', JStr ''CEO''),
                                                (''email'', JStr ''john@acme.com'')]])])
   \<and> contacts_report (decoding_json wrapped_contacts) (text_reply ''(a JSON object)'') =
     (Inl (TypeError ''string indices must be integers''),
      [Heading ''Extracted contacts:'', Dumped ''{}''])"
proof -
  have h: "first_text (text_reply ''(a JSON object)'') = Inr ''(a JSON object)''"
    "loads (decoding_json wrapped_contacts) ''(a JSON object)''
       = Inr (JObj [(''contacts'', JList [JObj [(''name'', JStr ''John Smith''), (''role'', JStr ''CEO''),
                                                (''email'', JStr ''john@acme.com'')]])])"
    by (simp_all add: text_reply_def first_text_def decoding_json_def wrapped_contacts_def)
  have d: "dumps_indented (decoding_json wrapped_contacts)
      (JObj [(''contacts'', JList [JObj [(''name'', JStr ''John Smith''), (''role'', JStr ''CEO''),
                                        (''email'', JStr ''john@acme.com'')]])]) = ''{}''"
    by (simp add: decoding_json_def)
  show ?thesis
    using h contacts_object_reply_type_error[OF h] unfolding d by blast
qed

lemma sum_field_example:
  "sum_field ''amount'' 0 [JObj [(''amount'', JInt 150000)], JObj [(''amount'', JInt 85000)],
                          JObj [(''amount'', JInt 220000)]] = Inr 455000
   \<and> sum_field ''amount'' 0 [JObj [(''amount'', JInt 150000)], JObj [(''amount'', JNull)]]
       = Inl (TypeError ''unsupported operand type(s) for +'')"
  by simp

end
