(* ===== verification/Text_Scripts.thy ===== *)
theory Text_Scripts
  imports Py_Json
begin

text \<open>
  The example scripts that send fixed requests and print the answers:
  \<open>01_basic_chat.py\<close>, \<open>02_streaming_chat.py\<close>, \<open>03_system_prompts.py\<close>,
  \<open>05_code_review.py\<close>, \<open>06_email_writer.py\<close> and \<open>07_content_summarizer.py\<close>.
  Each request is a definition \<open><script>_request<i>\<close> built by \<open>text_request\<close> from the
  transcribed prompts (an f-string is the concatenation of its parts); a script run is
  \<open>reply_script\<close>: each request is sent in order, its \<open>message.content[0].text\<close> printed,
  and the first exception ends the script. \<open>01\<close> also prints the metadata of the reply
  and \<open>02\<close> streams the answer (\<open>stream_api\<close>). Headings made of fixed text are not
  modelled; the client is the \<open>api\<close> oracle numbered by request. The lemmas give the
  run of every script against a server that answers, and \<open>reply_script_stops_at_failure\<close>
  the run that fails at one request: the earlier replies printed, then that exception.
\<close>

section \<open>Model\<close>

definition text_request :: "int \<Rightarrow> real option \<Rightarrow> string option \<Rightarrow> string \<Rightarrow> params" where
  "text_request max_tokens temperature system content =
     (let params = [''model'' \<mapsto> PStr ''claude-sonnet-4-20250514'', ''max_tokens'' \<mapsto> PInt max_tokens,
                    ''messages'' \<mapsto> PMessages [\<lparr>msg_role = User, msg_content = Str content\<rparr>]];
          params = (case temperature of None \<Rightarrow> params | Some t \<Rightarrow> params(''temperature'' \<mapsto> PReal t))
      in case system of None \<Rightarrow> params | Some s \<Rightarrow> params(''system'' \<mapsto> PStr s))"

datatype script_out =
    Reply string string
  | Model_line string
  | Token_line string nat
  | Stop_line stop_reason
  | Chunk string

text \<open>\<open>message = client.messages.create(**p)\<close> followed by \<open>print(f"<label>{message.content[0].text}")\<close>.\<close>

definition reply_step :: "api \<Rightarrow> nat \<Rightarrow> string \<Rightarrow> params \<Rightarrow> (script_out, response) run" where
  "reply_step api k label p =
     run_bind (lift (api k p)) (\<lambda>message.
     run_bind (lift (first_text message)) (\<lambda>text.
     run_bind (emit (Reply label text)) (\<lambda>_. (Inr message, []))))"

fun reply_script :: "api \<Rightarrow> nat \<Rightarrow> (string \<times> params) list \<Rightarrow> (script_out, unit) run" where
  "reply_script api k [] = (Inr (), [])"
| "reply_script api k ((label, p) # rest) = run_bind (reply_step api k label p) (\<lambda>_. reply_script api (Suc k) rest)"

text \<open>
  The streaming endpoint: opening the stream may raise; an open stream yields its text
  chunks and then either the final message or the exception that interrupted it.
\<close>

type_synonym stream_api = "nat \<Rightarrow> params \<Rightarrow> py_exc + (string list \<times> (py_exc + response))"

section \<open>Requests\<close>

subsection \<open>\<open>01_basic_chat.py\<close>\<close>

text \<open>Lines 36--36.\<close>

definition bc_user1 :: string where
  "bc_user1 =
     ''What is the capital of France?''"

text \<open>Lines 30--39.\<close>

definition bc_request1 :: params where
  "bc_request1 = text_request 1024 None None bc_user1"

subsection \<open>\<open>02_streaming_chat.py\<close>\<close>

text \<open>Lines 41--41.\<close>

definition sc_user1 :: string where
  "sc_user1 =
     ''Explain quantum computing in simple terms.''"

text \<open>Lines 35--44.\<close>

definition sc_request1 :: params where
  "sc_request1 = text_request 1024 None None sc_user1"

subsection \<open>\<open>03_system_prompts.py\<close>\<close>

text \<open>Lines 31--31.\<close>

definition sp_system1 :: string where
  "sp_system1 =
     ''You are a helpful assistant who speaks like a pirate. Use pirate slang and expressions in all your responses.''"

text \<open>Lines 35--35.\<close>

definition sp_user1 :: string where
  "sp_user1 =
     ''Tell me about the ocean.''"

text \<open>Lines 28--38.\<close>

definition sp_request1 :: params where
  "sp_request1 = text_request 1024 None (Some sp_system1) sp_user1"

text \<open>Lines 46--46.\<close>

definition sp_system2 :: string where
  "sp_system2 =
     ''You are a professional business consultant. Provide concise, formal responses with clear structure.''"

text \<open>Lines 50--50.\<close>

definition sp_user2 :: string where
  "sp_user2 =
     ''Tell me about the ocean.''"

text \<open>Lines 43--53.\<close>

definition sp_request2 :: params where
  "sp_request2 = text_request 1024 None (Some sp_system2) sp_user2"

text \<open>Lines 61--65.\<close>

definition sp_system3 :: string where
  "sp_system3 =
     ''You are an expert summarizer. For every response:'' @ [CHR 0x0A] @
     ''1. Start with a one-sentence summary'' @ [CHR 0x0A] @
     ''2. Follow with 3-5 key points as bullet points'' @ [CHR 0x0A] @
     ''3. End with a practical takeaway'' @ [CHR 0x0A] @
     ''Keep responses concise and actionable.''"

text \<open>Lines 69--69.\<close>

definition sp_user3 :: string where
  "sp_user3 =
     ''Explain machine learning.''"

text \<open>Lines 58--72.\<close>

definition sp_request3 :: params where
  "sp_request3 = text_request 1024 None (Some sp_system3) sp_user3"

subsection \<open>\<open>05_code_review.py\<close>\<close>

text \<open>Lines 42--64.\<close>

definition cr_code_to_review :: string where
  "cr_code_to_review =
     [CHR 0x0A] @ ''def get_user_data(user_id):'' @ [CHR 0x0A] @ ''    import sqlite3'' @
     [CHR 0x0A] @ ''    '' @ [CHR 0x0A] @ ''    conn = sqlite3.connect('' @ [CHR 0x27] @
     ''users.db'' @ [CHR 0x27] @ '')'' @ [CHR 0x0A] @ ''    cursor = conn.cursor()'' @
     [CHR 0x0A] @ ''    '' @ [CHR 0x0A] @ ''    # Vulnerable to SQL injection!'' @
     [CHR 0x0A] @ ''    query = f'' @ [CHR 0x22] @
     ''SELECT * FROM users WHERE id = {user_id}'' @ [CHR 0x22, CHR 0x0A] @
     ''    cursor.execute(query)'' @ [CHR 0x0A] @ ''    '' @ [CHR 0x0A] @
     ''    result = cursor.fetchall()'' @ [CHR 0x0A] @ ''    conn.close()'' @ [CHR 0x0A] @
     ''    return result'' @ [CHR 0x0A, CHR 0x0A] @ ''def process_items(items):'' @
     [CHR 0x0A] @ ''    results = []'' @ [CHR 0x0A] @ ''    # Inefficient loop'' @
     [CHR 0x0A] @ ''    for item in items:'' @ [CHR 0x0A] @ ''        if item > 0:'' @
     [CHR 0x0A] @ ''            results.append(item * 2)'' @ [CHR 0x0A] @
     ''    return results'' @ [CHR 0x0A]"

text \<open>Lines 73--82.\<close>

definition cr_system1 :: string where
  "cr_system1 =
     ''You are an expert code reviewer with deep knowledge of security, performance, and best practices.'' @
     [CHR 0x0A, CHR 0x0A] @ ''Review code and provide:'' @ [CHR 0x0A] @
     ''1. A brief summary of what the code does'' @ [CHR 0x0A] @
     ''2. Security vulnerabilities (mark as [SECURITY])'' @ [CHR 0x0A] @
     ''3. Performance issues (mark as [PERFORMANCE])'' @ [CHR 0x0A] @
     ''4. Code quality issues (mark as [STYLE])'' @ [CHR 0x0A] @
     ''5. Specific, actionable suggestions for improvement'' @ [CHR 0x0A, CHR 0x0A] @
     ''Format your review clearly with sections and bullet points.''"

text \<open>Lines 86--86.\<close>

definition cr_user1 :: string where
  "cr_user1 =
     ''Please review this Python code:'' @ [CHR 0x0A, CHR 0x0A] @ ''```python'' @
     [CHR 0x0A] @ cr_code_to_review @ [CHR 0x0A] @ ''```''"

text \<open>Lines 69--89.\<close>

definition cr_request1 :: params where
  "cr_request1 = text_request 2048 (Some 0.3) (Some cr_system1) cr_user1"

text \<open>Lines 101--105.\<close>

definition cr_system2 :: string where
  "cr_system2 =
     ''You are a security auditor. Focus exclusively on security vulnerabilities.'' @
     [CHR 0x0A] @ ''For each issue found, provide:'' @ [CHR 0x0A] @
     ''- Severity level (Critical/High/Medium/Low)'' @ [CHR 0x0A] @
     ''- Description of the vulnerability'' @ [CHR 0x0A] @
     ''- Concrete code example showing the fix''"

text \<open>Lines 109--109.\<close>

definition cr_user2 :: string where
  "cr_user2 =
     ''Security audit this code:'' @ [CHR 0x0A, CHR 0x0A] @ ''```python'' @ [CHR 0x0A] @
     cr_code_to_review @ [CHR 0x0A] @ ''```''"

text \<open>Lines 97--112.\<close>

definition cr_request2 :: params where
  "cr_request2 = text_request 1024 (Some 0.2) (Some cr_system2) cr_user2"

subsection \<open>\<open>06_email_writer.py\<close>\<close>

text \<open>Lines 35--42.\<close>

definition ew_email_context :: "(string \<times> string) list" where
  "ew_email_context =
     [
      (''recipient_name'', ''Sarah Johnson''),
      (''recipient_company'', ''TechCorp''),
      (''sender_name'', ''Alex Chen''),
      (''sender_company'', ''Acme Solutions''),
      (''purpose'', ''propose a partnership for AI integration''),
      (''value_proposition'', ''our AI platform has helped 50+ companies reduce costs by 30%'')]"

text \<open>Lines 105--110.\<close>

definition ew_customer_issue :: string where
  "ew_customer_issue =
     [CHR 0x0A] @ ''Customer: John Smith'' @ [CHR 0x0A] @
     ''Issue: Product stopped working after recent update'' @ [CHR 0x0A] @
     ''Tone: Frustrated (mentioned in ticket: '' @ [CHR 0x22] @ ''This is unacceptable'' @
     [CHR 0x22] @ '')'' @ [CHR 0x0A] @
     ''Resolution: Engineering team identified the bug, fix deployed, offering 1 month credit'' @
     [CHR 0x0A]"

text \<open>Lines 48--53.\<close>

definition ew_system1 :: string where
  "ew_system1 =
     ''You are a professional email writer. Generate emails that are:'' @ [CHR 0x0A] @
     ''- Professional but warm'' @ [CHR 0x0A] @ ''- Concise and scannable'' @ [CHR 0x0A] @
     ''- Include a clear call-to-action'' @ [CHR 0x0A] @
     ''- Personalized based on context provided'' @ [CHR 0x0A] @
     ''- Include both subject line and body''"

text \<open>Lines 57--64.\<close>

definition ew_user1 :: string where
  "ew_user1 =
     ''Write a cold outreach email with these details:'' @ [CHR 0x0A, CHR 0x0A] @
     ''Recipient: '' @ the (map_of ew_email_context ''recipient_name'') @ '' at '' @
     the (map_of ew_email_context ''recipient_company'') @ [CHR 0x0A] @ ''Sender: '' @
     the (map_of ew_email_context ''sender_name'') @ '' at '' @
     the (map_of ew_email_context ''sender_company'') @ [CHR 0x0A] @ ''Purpose: '' @
     the (map_of ew_email_context ''purpose'') @ [CHR 0x0A] @ ''Value: '' @
     the (map_of ew_email_context ''value_proposition'') @ [CHR 0x0A, CHR 0x0A] @
     ''Keep it under 150 words.''"

text \<open>Lines 44--67.\<close>

definition ew_request1 :: params where
  "ew_request1 = text_request 1024 (Some 0.7) (Some ew_system1) ew_user1"

text \<open>Lines 78--82.\<close>

definition ew_system2 :: string where
  "ew_system2 =
     ''You are a professional email writer. Generate emails that are:'' @ [CHR 0x0A] @
     ''- Polite and non-pushy'' @ [CHR 0x0A] @ ''- Reference previous conversation'' @
     [CHR 0x0A] @ ''- Provide value, not just '' @ [CHR 0x22] @ ''checking in'' @
     [CHR 0x22, CHR 0x0A] @ ''- Include a specific next step''"

text \<open>Lines 86--95.\<close>

definition ew_user2 :: string where
  "ew_user2 =
     ''Write a follow-up email to a prospect I met at a conference last week.'' @
     [CHR 0x0A, CHR 0x0A] @ ''Context:'' @ [CHR 0x0A] @ ''- Met Sarah at TechConf 2024'' @
     [CHR 0x0A] @ ''- Discussed their need for better data analytics'' @ [CHR 0x0A] @
     ''- She seemed interested but wanted to think about it'' @ [CHR 0x0A] @ ''- It'' @
     [CHR 0x27] @ ''s been 5 days since the conversation'' @ [CHR 0x0A] @
     ''- I want to share a relevant case study and schedule a demo'' @
     [CHR 0x0A, CHR 0x0A] @ ''Keep it friendly and under 100 words.''"

text \<open>Lines 74--98.\<close>

definition ew_request2 :: params where
  "ew_request2 = text_request 1024 (Some 0.7) (Some ew_system2) ew_user2"

text \<open>Lines 116--121.\<close>

definition ew_system3 :: string where
  "ew_system3 =
     ''You are a customer support specialist. Generate emails that:'' @ [CHR 0x0A] @
     ''- Acknowledge the customer'' @ [CHR 0x27] @ ''s frustration with empathy'' @
     [CHR 0x0A] @ ''- Explain what happened clearly'' @ [CHR 0x0A] @
     ''- Describe the solution and next steps'' @ [CHR 0x0A] @
     ''- Offer compensation when appropriate'' @ [CHR 0x0A] @
     ''- End on a positive, relationship-building note''"

text \<open>Lines 125--125.\<close>

definition ew_user3 :: string where
  "ew_user3 =
     ''Write a customer support response email:'' @ [CHR 0x0A, CHR 0x0A] @
     ew_customer_issue"

text \<open>Lines 112--128.\<close>

definition ew_request3 :: params where
  "ew_request3 = text_request 1024 (Some 0.6) (Some ew_system3) ew_user3"

subsection \<open>\<open>07_content_summarizer.py\<close>\<close>

text \<open>Lines 36--50.\<close>

definition cs_long_article :: string where
  "cs_long_article =
     [CHR 0x0A] @ ''The Impact of Artificial Intelligence on Modern Healthcare'' @
     [CHR 0x0A, CHR 0x0A] @
     ''Artificial intelligence (AI) is revolutionizing healthcare in ways that were unimaginable just a decade ago. From diagnostic tools to personalized treatment plans, AI is enhancing the capabilities of healthcare professionals and improving patient outcomes across the globe.'' @
     [CHR 0x0A, CHR 0x0A] @
     ''One of the most significant applications of AI in healthcare is in medical imaging. Machine learning algorithms can now analyze X-rays, MRIs, and CT scans with accuracy that rivals or even surpasses human radiologists. A recent study published in Nature Medicine found that AI systems could detect breast cancer in mammograms with 94.5% accuracy, compared to 88% for human radiologists. This technology is particularly valuable in areas with a shortage of medical specialists.'' @
     [CHR 0x0A, CHR 0x0A] @
     ''AI is also transforming drug discovery and development. Traditional drug development can take 10-15 years and cost billions of dollars. AI algorithms can analyze vast databases of molecular structures and predict which compounds are most likely to be effective against specific diseases. This has already led to faster identification of potential treatments for conditions ranging from cancer to rare genetic disorders.'' @
     [CHR 0x0A, CHR 0x0A] @
     ''Personalized medicine is another area where AI is making substantial contributions. By analyzing a patient'' @
     [CHR 0x27] @
     ''s genetic information, lifestyle factors, and medical history, AI systems can help doctors create tailored treatment plans that are more effective and have fewer side effects than one-size-fits-all approaches.'' @
     [CHR 0x0A, CHR 0x0A] @
     ''However, the integration of AI in healthcare also raises important questions about data privacy, algorithmic bias, and the changing role of healthcare professionals. As these technologies become more prevalent, it'' @
     [CHR 0x27] @
     ''s crucial that we address these challenges to ensure AI serves all patients equitably.'' @
     [CHR 0x0A, CHR 0x0A] @
     ''Despite these challenges, the future of AI in healthcare looks promising. Experts predict that AI will become an indispensable tool for healthcare providers, helping them make better decisions, reduce errors, and ultimately save more lives.'' @
     [CHR 0x0A]"

text \<open>Lines 59--63.\<close>

definition cs_system1 :: string where
  "cs_system1 =
     ''You are a professional summarizer. Create clear, accurate summaries that:'' @
     [CHR 0x0A] @ ''- Capture the main points'' @ [CHR 0x0A] @
     ''- Maintain the original tone'' @ [CHR 0x0A] @ ''- Are concise but complete'' @
     [CHR 0x0A] @ ''- Use simple, accessible language''"

text \<open>Lines 67--67.\<close>

definition cs_user1 :: string where
  "cs_user1 =
     ''Summarize this article in 3-4 sentences:'' @ [CHR 0x0A, CHR 0x0A] @ cs_long_article"

text \<open>Lines 55--70.\<close>

definition cs_request1 :: params where
  "cs_request1 = text_request 1024 (Some 0.3) (Some cs_system1) cs_user1"

text \<open>Lines 81--86.\<close>

definition cs_system2 :: string where
  "cs_system2 =
     ''You are a professional summarizer. Create structured summaries with:'' @ [CHR 0x0A] @
     ''1. A one-paragraph summary (2-3 sentences)'' @ [CHR 0x0A] @
     ''2. Key points as bullet points'' @ [CHR 0x0A] @ ''3. One practical takeaway'' @
     [CHR 0x0A, CHR 0x0A] @ ''Use clear formatting with headers.''"

text \<open>Lines 90--90.\<close>

definition cs_user2 :: string where
  "cs_user2 =
     ''Create a structured summary of this article:'' @ [CHR 0x0A, CHR 0x0A] @
     cs_long_article"

text \<open>Lines 77--93.\<close>

definition cs_request2 :: params where
  "cs_request2 = text_request 1024 (Some 0.3) (Some cs_system2) cs_user2"

text \<open>Lines 104--107.\<close>

definition cs_system3 :: string where
  "cs_system3 =
     ''You are a professional summarizer for busy executives. Create ultra-concise summaries:'' @
     [CHR 0x0A] @ ''- Maximum 2 sentences'' @ [CHR 0x0A] @
     ''- Focus on the single most important point'' @ [CHR 0x0A] @
     ''- Use clear, decisive language''"

text \<open>Lines 111--111.\<close>

definition cs_user3 :: string where
  "cs_user3 =
     ''Create an executive summary:'' @ [CHR 0x0A, CHR 0x0A] @ cs_long_article"

text \<open>Lines 100--114.\<close>

definition cs_request3 :: params where
  "cs_request3 = text_request 512 (Some 0.3) (Some cs_system3) cs_user3"

text \<open>Lines 125--130.\<close>

definition cs_system4 :: string where
  "cs_system4 =
     ''You are a science communicator who explains complex topics to general audiences.'' @
     [CHR 0x0A] @ ''Create summaries that:'' @ [CHR 0x0A] @
     ''- Avoid jargon and technical terms'' @ [CHR 0x0A] @
     ''- Use analogies and examples'' @ [CHR 0x0A] @
     ''- Are engaging and easy to understand'' @ [CHR 0x0A] @
     ''- Highlight why it matters to everyday people''"

text \<open>Lines 134--134.\<close>

definition cs_user4 :: string where
  "cs_user4 =
     ''Explain this article to someone with no technical background:'' @
     [CHR 0x0A, CHR 0x0A] @ cs_long_article"

text \<open>Lines 121--137.\<close>

definition cs_request4 :: params where
  "cs_request4 = text_request 1024 (Some 0.4) (Some cs_system4) cs_user4"


section \<open>Script runs\<close>

text \<open>\<open>01_basic_chat.py\<close>, lines 30--50.\<close>

definition basic_chat :: "string option \<Rightarrow> api \<Rightarrow> (script_out, unit) run" where
  "basic_chat env_key api =
     run_bind (lift (require_api_key env_key)) (\<lambda>_.
     run_bind (reply_step api 0 ''Claude: '' bc_request1) (\<lambda>message.
     run_bind (emit (Model_line (resp_model message))) (\<lambda>_.
     run_bind (emit (Token_line ''Input tokens: '' (input_tokens (resp_usage message)))) (\<lambda>_.
     run_bind (emit (Token_line ''Output tokens: '' (output_tokens (resp_usage message)))) (\<lambda>_.
     emit (Stop_line (stop_reason message)))))))"

text \<open>\<open>02_streaming_chat.py\<close>, lines 35--55.\<close>

definition streaming_chat :: "string option \<Rightarrow> stream_api \<Rightarrow> (script_out, unit) run" where
  "streaming_chat env_key sapi =
     run_bind (lift (require_api_key env_key)) (\<lambda>_.
     run_bind (lift (sapi 0 sc_request1)) (\<lambda>(chunks, final).
     run_bind (run_each (\<lambda>text. emit (Chunk text)) chunks) (\<lambda>_.
     run_bind (lift final) (\<lambda>final_message.
     run_bind (emit (Token_line ''Total tokens used: ''
                       (input_tokens (resp_usage final_message) + output_tokens (resp_usage final_message)))) (\<lambda>_.
     emit (Stop_line (stop_reason final_message)))))))"

text \<open>\<open>03_system_prompts.py\<close>, lines 27--73.\<close>

definition system_prompts :: "string option \<Rightarrow> api \<Rightarrow> (script_out, unit) run" where
  "system_prompts env_key api =
     run_bind (lift (require_api_key env_key)) (\<lambda>_.
     reply_script api 0 [(''Pirate Claude: '', sp_request1), (''Professional Claude: '', sp_request2),
                         (''Structured Claude: '', sp_request3)])"

text \<open>\<open>05_code_review.py\<close>, lines 69--114.\<close>

definition code_review :: "string option \<Rightarrow> api \<Rightarrow> (script_out, unit) run" where
  "code_review env_key api =
     run_bind (lift (require_api_key env_key)) (\<lambda>_. reply_script api 0 [([], cr_request1), ([], cr_request2)])"

text \<open>\<open>06_email_writer.py\<close>, lines 44--130.\<close>

definition email_writer :: "string option \<Rightarrow> api \<Rightarrow> (script_out, unit) run" where
  "email_writer env_key api =
     run_bind (lift (require_api_key env_key)) (\<lambda>_. reply_script api 0 [([], ew_request1), ([], ew_request2), ([], ew_request3)])"

text \<open>\<open>07_content_summarizer.py\<close>, lines 55--139.\<close>

definition content_summarizer :: "string option \<Rightarrow> api \<Rightarrow> (script_out, unit) run" where
  "content_summarizer env_key api =
     run_bind (lift (require_api_key env_key)) (\<lambda>_.
     reply_script api 0 [([], cs_request1), ([], cs_request2), ([], cs_request3), ([], cs_request4)])"

subsection \<open>A server that fails\<close>

text \<open>A server that answers the first review of \<open>05\<close> and then loses the connection.\<close>

definition review_down_api :: api where
  "review_down_api n p =
     (if n = 0
      then Inr \<lparr>resp_model = ''claude-sonnet-4-20250514'', stop_reason = EndTurn,
                resp_content = [TextBlock ''The function looks correct.''],
                resp_usage = \<lparr>input_tokens = 250, output_tokens = 8\<rparr>\<rparr>
      else Inl (APIConnectionError ''Connection error.''))"

section \<open>Lemmas\<close>

text \<open>
  A script of replies runs to its end exactly when every request is answered by a reply
  whose first block is text; it then prints the labelled texts in order. Otherwise it stops
  at the first failing request, after the replies before it.
\<close>

lemma reply_script_answered:
  assumes "length ms = length rs" and "length ts = length rs"
    and "\<And>j. j < length rs \<Longrightarrow> api (k + j) (snd (rs ! j)) = Inr (ms ! j) \<and> first_text (ms ! j) = Inr (ts ! j)"
  shows "reply_script api k rs = (Inr (), map2 (\<lambda>(label, _) t. Reply label t) rs ts)"
  using assms
proof (induction rs arbitrary: k ms ts)
  case Nil
  then show ?case by simp
next
  case (Cons r rs)
  obtain label p where r: "r = (label, p)" by (cases r)
  obtain m ms' where ms: "ms = m # ms'" using Cons.prems(1) by (cases ms) auto
  obtain t ts' where ts: "ts = t # ts'" using Cons.prems(2) by (cases ts) auto
  have first: "api k p = Inr m" "first_text m = Inr t" using Cons.prems(3)[of 0] r ms ts by auto
  have "reply_script api (Suc k) rs = (Inr (), map2 (\<lambda>(label, _) t. Reply label t) rs ts')"
    using Cons.prems Cons.IH[of ms' ts' "Suc k"] ms ts by fastforce
  then show ?case using first r ts by (simp add: reply_step_def lift_def)
qed


text \<open>The loop \<open>for text in stream.text_stream: print(text)\<close> prints every chunk, in order.\<close>

lemma run_each_chunks: "run_each (\<lambda>text. emit (Chunk text)) cs = (Inr (), map Chunk cs)"
  by (induction cs) simp_all

text \<open>C30: 02_streaming_chat.py prints each chunk as it arrives: without an API key it raises ValueError before any request; when opening the stream raises, nothing is printed; otherwise every chunk of the stream is printed in order, and then either the exception that interrupted the stream propagates (the chunks already printed stay printed, no metadata is printed) or the total token count and the stop reason of the final message are printed.\<close>

theorem streaming_chat_prints_as_it_streams:
  "streaming_chat env_key sapi =
     (if py_truthy env_key
      then (case sapi 0 sc_request1 of
              Inl e \<Rightarrow> (Inl e, [])
            | Inr (chunks, Inl e) \<Rightarrow> (Inl e, map Chunk chunks)
            | Inr (chunks, Inr m) \<Rightarrow>
                (Inr (), map Chunk chunks @
                   [Token_line ''Total tokens used: '' (input_tokens (resp_usage m) + output_tokens (resp_usage m)),
                    Stop_line (stop_reason m)]))
      else (Inl (ValueError ''Please set ANTHROPIC_API_KEY environment variable''), []))"
  by (cases "sapi 0 sc_request1")
     (auto simp: streaming_chat_def require_api_key_def run_each_chunks lift_def split: sum.splits,
      simp_all add: emit_def)

text \<open>C36: a script of replies that fails at request j (the call raises, or the reply has no first text block) raises that exception after printing exactly the replies of the requests before j, in order; what the server would answer to later requests plays no part, since none is sent.\<close>

theorem reply_script_stops_at_failure:
  assumes "j < length rs" and "length ts = j"
    and "\<And>i. i < j \<Longrightarrow> \<exists>m. api (k + i) (snd (rs ! i)) = Inr m \<and> first_text m = Inr (ts ! i)"
    and "py_bind (api (k + j) (snd (rs ! j))) first_text = Inl e"
  shows "reply_script api k rs = (Inl e, map2 (\<lambda>(label, _) t. Reply label t) (take j rs) ts)"
  using assms
proof (induction rs arbitrary: k j ts)
  case Nil
  then show ?case by simp
next
  case (Cons r rs)
  obtain label p where r: "r = (label, p)" by (cases r)
  show ?case
  proof (cases j)
    case 0
    then have "py_bind (api k p) first_text = Inl e" using Cons.prems(4) r by simp
    then show ?thesis using 0 Cons.prems(2) r
      by (cases "api k p") (auto simp: reply_step_def lift_def)
  next
    case (Suc j')
    obtain t ts' where ts: "ts = t # ts'" using Cons.prems(2) Suc by (cases ts) auto
    obtain m where first: "api k p = Inr m" "first_text m = Inr t"
      using Cons.prems(3)[of 0] Suc r ts by auto
    have "reply_script api (Suc k) rs = (Inl e, map2 (\<lambda>(label, _) t. Reply label t) (take j' rs) ts')"
    proof (rule Cons.IH)
      show "j' < length rs" "length ts' = j'" using Cons.prems(1,2) Suc ts by auto
      show "\<exists>m. api (Suc k + i) (snd (rs ! i)) = Inr m \<and> first_text m = Inr (ts' ! i)" if "i < j'" for i
        using Cons.prems(3)[of "Suc i"] that Suc ts by auto
      show "py_bind (api (Suc k + j') (snd (rs ! j'))) first_text = Inl e"
        using Cons.prems(4) Suc by simp
    qed
    then show ?thesis using first r ts Suc by (simp add: reply_step_def lift_def)
  qed
qed

theorem reply_script_stops_at_failure_witness:
  "1 < length [([] :: string, cr_request1), ([], cr_request2)] \<and> length [''The function looks correct.''] = 1
   \<and> (\<exists>m. review_down_api 0 cr_request1 = Inr m \<and> first_text m = Inr ''The function looks correct.'')
   \<and> py_bind (review_down_api 1 cr_request2) first_text = Inl (APIConnectionError ''Connection error.'')
   \<and> code_review (Some ''sk-test'') review_down_api =
       (Inl (APIConnectionError ''Connection error.''), [Reply [] ''The function looks correct.''])"
proof -
  have h: "1 < length [([] :: string, cr_request1), ([], cr_request2)]" "length [''The function looks correct.''] = 1"
    "\<And>i. i < 1 \<Longrightarrow> \<exists>m. review_down_api (0 + i) (snd ([([] :: string, cr_request1), ([], cr_request2)] ! i)) = Inr m
                   \<and> first_text m = Inr ([''The function looks correct.''] ! i)"
    "py_bind (review_down_api (0 + 1) (snd ([([] :: string, cr_request1), ([], cr_request2)] ! 1))) first_text
       = Inl (APIConnectionError ''Connection error.'')"
    by (auto simp: review_down_api_def first_text_def)
  have e: "\<exists>m. review_down_api 0 cr_request1 = Inr m \<and> first_text m = Inr ''The function looks correct.''"
    using h(3)[of 0] by simp
  show ?thesis
    using h(1,2,4) e reply_script_stops_at_failure[where api = review_down_api and k = 0, OF h]
    by (simp add: code_review_def require_api_key_def lift_def)
qed

end
