(* ===== verification/Database_Tool.thy ===== *)
theory Database_Tool
  imports Tool_Use Py_Json
begin

text \<open>
  \<open>src/examples/10_tool_use.py\<close>, Example 3 (lines 245--280): \<open>process_tool_call\<close> with
  one tool, \<open>query_customers\<close>, over a mock customer table.
  \<^item> \<open>database_tools\<close>: the tool list of lines 248--263;
  \<^item> \<open>mock_db\<close>, \<open>query_customers\<close>: the simulated query of lines 265--272, which takes
    the JSON value the model sent as \<open>customer_id\<close> (\<open>dict.get\<close> raises \<open>TypeError\<close> on
    a list or a dictionary, which are unhashable, and finds nothing for a number);
  \<^item> \<open>call_query_customers\<close>: \<open>query_customers(**tool_input)\<close>;
  \<^item> \<open>py_str_dict\<close>: \<open>str(result)\<close> of the dictionary of strings the tool returns, the
    content \<open>process_tool_call\<close> puts in the tool result (line 226);
  \<^item> \<open>database_example\<close>: the call of lines 274--278 through the loop of \<open>Tool_Use\<close>; the
    final \<open>print\<close> of line 280 only echoes the result.
\<close>

section \<open>Model\<close>

definition customer_id_schema :: json where
  "customer_id_schema =
     JObj [(''type'', JStr ''object''),
           (''properties'',
              JObj [(''customer_id'', JObj [(''type'', JStr ''string''),
                                           (''description'', JStr ''The customer ID to look up'')])]),
           (''required'', JList [JStr ''customer_id''])]"

definition database_tools :: "tool list" where
  "database_tools =
     [\<lparr>tool_name = ''query_customers'',
       tool_description = ''Query customer database. Returns customer information.'',
       input_schema = customer_id_schema\<rparr>]"

type_synonym record_dict = "(string \<times> string) list"

definition mock_db :: "(string \<times> record_dict) list" where
  "mock_db =
     [(''C001'', [(''name'', ''John Smith''), (''email'', ''john@example.com''), (''plan'', ''Premium'')]),
      (''C002'', [(''name'', ''Sarah Johnson''), (''email'', ''sarah@example.com''), (''plan'', ''Basic'')]),
      (''C003'', [(''name'', ''Mike Chen''), (''email'', ''mike@example.com''), (''plan'', ''Enterprise'')])]"

definition not_found :: record_dict where
  "not_found = [(''error'', ''Customer not found'')]"

definition query_customers :: "json \<Rightarrow> py_exc + record_dict" where
  "query_customers customer_id =
     (case customer_id of
        JStr k \<Rightarrow> Inr (case map_of mock_db k of Some r \<Rightarrow> r | None \<Rightarrow> not_found)
      | JList _ \<Rightarrow> Inl (TypeError ''unhashable type: list'')
      | JObj _ \<Rightarrow> Inl (TypeError ''unhashable type: dict'')
      | _ \<Rightarrow> Inr not_found)"

definition call_query_customers :: "tool_input \<Rightarrow> py_exc + record_dict" where
  "call_query_customers tool_input =
     (case bind_kwargs [''customer_id''] tool_input of
        Some [customer_id] \<Rightarrow> query_customers customer_id
      | _ \<Rightarrow> Inl (TypeError ''query_customers() got an unexpected or missing keyword argument''))"

text \<open>\<open>str(d)\<close> of a dictionary of strings: \<open>{'k': 'v', ...}\<close> with \<open>repr\<close> of each string.\<close>

definition py_str_dict :: "record_dict \<Rightarrow> string" where
  "py_str_dict d =
     ''{'' @ py_str_join '', '' (map (\<lambda>(k, v). py_repr_str k @ '': '' @ py_repr_str v) d) @ ''}''"

definition database_function_map :: "record_dict function_map" where
  "database_function_map = [''query_customers'' \<mapsto> call_query_customers]"

definition database_query :: string where
  "database_query = ''What is the email address for customer C001?''"

definition database_example :: "api \<Rightarrow> ((py_exc + string) \<times> loop_state) option" where
  "database_example api =
     process_tool_call \<lparr>create = api, to_str = py_str_dict\<rparr> database_query database_tools
       database_function_map"

subsection \<open>A conversation\<close>

text \<open>
  A server that answers the query of line 275 with one invocation of
  \<open>query_customers\<close> for \<open>C001\<close> and then with the final text.
\<close>

definition db_turn1 :: response where
  "db_turn1 =
     \<lparr>resp_model = ''claude-sonnet-4-20250514'', stop_reason = ToolUse,
      resp_content = [ToolUseBlock ''toolu_db'' ''query_customers'' [(''customer_id'', JStr ''C001'')]],
      resp_usage = \<lparr>input_tokens = 380, output_tokens = 60\<rparr>\<rparr>"

definition db_turn2 :: response where
  "db_turn2 =
     \<lparr>resp_model = ''claude-sonnet-4-20250514'', stop_reason = EndTurn,
      resp_content = [TextBlock ''The email address for customer C001 is john@example.com.''],
      resp_usage = \<lparr>input_tokens = 520, output_tokens = 20\<rparr>\<rparr>"

definition db_api :: api where
  "db_api n p = (if n = 0 then Inr db_turn1 else Inr db_turn2)"

section \<open>Lemmas\<close>

text \<open>\<open>mock_db.get(customer_id, default)\<close> raises only on an unhashable key.\<close>

lemma db_turn1_stop: "stop_reason db_turn1 = ToolUse"
  by (simp add: db_turn1_def)

lemma query_customers_Inl_iff:
  "(\<exists>e. query_customers x = Inl e) \<longleftrightarrow> (\<exists>xs. x = JList xs) \<or> (\<exists>kvs. x = JObj kvs)"
  by (cases x) (simp_all add: query_customers_def)

lemma query_customers_JStr:
  "query_customers (JStr k) = Inr (case map_of mock_db k of Some r \<Rightarrow> r | None \<Rightarrow> not_found)"
  by (simp add: query_customers_def)

text \<open>The content of the tool result for \<open>C001\<close>: \<open>str\<close> of the record, with quotes.\<close>

lemma c001_result_str:
  "py_str_dict [(''name'', ''John Smith''), (''email'', ''john@example.com''), (''plan'', ''Premium'')]
   = ''{'' @ [CHR 0x27] @ ''name'' @ [CHR 0x27] @ '': '' @ [CHR 0x27] @ ''John Smith'' @ [CHR 0x27] @ '', ''
       @ [CHR 0x27] @ ''email'' @ [CHR 0x27] @ '': '' @ [CHR 0x27] @ ''john@example.com'' @ [CHR 0x27] @ '', ''
       @ [CHR 0x27] @ ''plan'' @ [CHR 0x27] @ '': '' @ [CHR 0x27] @ ''Premium'' @ [CHR 0x27] @ ''}''"
  by (simp add: py_str_dict_def py_repr_str_def py_repr_char_def py_printable_def Let_def)

lemma db_run_tools:
  "run_tools database_function_map py_str_dict (resp_content db_turn1) =
     Inr [\<lparr>tool_use_id = ''toolu_db'',
           result_content = py_str_dict [(''name'', ''John Smith''), (''email'', ''john@example.com''), (''plan'', ''Premium'')]\<rparr>]"
  by (simp add: db_turn1_def database_function_map_def call_query_customers_def query_customers_def
      mock_db_def py_simps)

text \<open>The run of Example 3 against that server: two requests, the answer's text returned.\<close>

lemma database_example_run:
  "\<exists>s. database_example db_api = Some (Inr ''The email address for customer C001 is john@example.com.'', s)
       \<and> length (requests s) = 2"
  using process_tool_call_one_round[where env = "\<lparr>create = db_api, to_str = py_str_dict\<rparr>"
      and tools = database_tools and fm = database_function_map and q = database_query
      and first_resp = db_turn1 and final_resp = db_turn2
      and rs = "[\<lparr>tool_use_id = ''toolu_db'',
         result_content = py_str_dict [(''name'', ''John Smith''), (''email'', ''john@example.com''), (''plan'', ''Premium'')]\<rparr>]"]
  by (simp add: database_example_def db_api_def db_run_tools db_turn1_stop db_turn2_def first_text_def)

end
