(* ===== verification/Event_Calendar.thy ===== *)
theory Event_Calendar
  imports Json_Reports "HOL-Library.Multiset" "HOL-Library.List_Lexorder" "HOL-Library.Char_ord"
begin

text \<open>
  Example 3 of \<open>src/examples/08_data_extractor.py\<close> (lines 161--216): the events the
  model extracts are printed in the order of \<open>sorted(events_data['events'],
  key=lambda x: x['date'])\<close>.
  \<^item> \<open>py_lt\<close>: Python's \<open><\<close> on decoded JSON values: strings by code points, numbers
    (with \<open>bool\<close> as \<open>int\<close>) numerically, lists lexicographically, any other pair raises
    \<open>TypeError\<close>. Lists skip their common prefix by structural equality, where Python
    uses \<open>==\<close> (which also equates \<open>1\<close> and \<open>True\<close>);
  \<^item> \<open>py_sorted_key\<close>: \<open>sorted(xs, key=k)\<close>. Python computes every key first, in order, and
    then sorts the (key, item) pairs stably; the sort is modelled as a stable insertion
    sort that raises the \<open>TypeError\<close> of the first comparison that fails. On keys that
    \<open><\<close> orders totally (the ISO date strings the prompt asks for) every stable sort
    gives the same list, Python's timsort included; when a comparison fails, the pair
    named in the message may differ from timsort's;
  \<^item> \<open>py_unorderable\<close>: the keys \<open><\<close> compares with nothing (\<open>None\<close>, dictionaries);
    with such a key among two or more items every sort raises \<open>TypeError\<close>, since each
    item of such a sort is compared at least once;
  \<^item> \<open>event_entry\<close>, \<open>event_extraction\<close>: the prints of lines 207--216;
  \<^item> \<open>data_extractor_script\<close>: the whole module run, Examples 1 to 3.
\<close>

section \<open>Model\<close>

subsection \<open>Python's comparison and \<open>sorted\<close>\<close>

fun py_str_lt :: "string \<Rightarrow> string \<Rightarrow> bool" where
  "py_str_lt [] ys = (ys \<noteq> [])"
| "py_str_lt (x # xs) [] = False"
| "py_str_lt (x # xs) (y # ys) = (of_char x < (of_char y :: nat) \<or> (x = y \<and> py_str_lt xs ys))"

fun py_lt :: "json \<Rightarrow> json \<Rightarrow> py_exc + bool"
  and py_list_lt :: "json list \<Rightarrow> json list \<Rightarrow> py_exc + bool" where
  "py_lt (JStr a) (JStr b) = Inr (py_str_lt a b)"
| "py_lt (JList xs) (JList ys) = py_list_lt xs ys"
| "py_lt x y =
     (case (json_num x, json_num y) of
        (Some a, Some b) \<Rightarrow> Inr (a < b)
      | _ \<Rightarrow> Inl (TypeError ''< not supported between these instances''))"
| "py_list_lt [] ys = Inr (ys \<noteq> [])"
| "py_list_lt (x # xs) [] = Inr False"
| "py_list_lt (x # xs) (y # ys) = (if x = y then py_list_lt xs ys else py_lt x y)"

text \<open>The keys that \<open><\<close> compares with nothing: \<open>None\<close> and dictionaries.\<close>

fun py_unorderable :: "json \<Rightarrow> bool" where
  "py_unorderable JNull = True"
| "py_unorderable (JObj _) = True"
| "py_unorderable _ = False"

text \<open>Insert a (key, item) pair after every pair whose key is not greater.\<close>

fun py_insort :: "json \<times> json \<Rightarrow> (json \<times> json) list \<Rightarrow> py_exc + (json \<times> json) list" where
  "py_insort x [] = Inr [x]"
| "py_insort x (y # ys) =
     py_bind (py_lt (fst x) (fst y)) (\<lambda>lt.
       if lt then Inr (x # y # ys) else py_bind (py_insort x ys) (\<lambda>r. Inr (y # r)))"

fun py_insort_all :: "(json \<times> json) list \<Rightarrow> (json \<times> json) list \<Rightarrow> py_exc + (json \<times> json) list" where
  "py_insort_all acc [] = Inr acc"
| "py_insort_all acc (x # xs) = py_bind (py_insort x acc) (\<lambda>acc'. py_insort_all acc' xs)"

text \<open>\<open>[f(x) for x in xs]\<close> for an \<open>f\<close> that may raise: the first exception propagates.\<close>

fun py_map :: "('a \<Rightarrow> py_exc + 'b) \<Rightarrow> 'a list \<Rightarrow> py_exc + 'b list" where
  "py_map f [] = Inr []"
| "py_map f (x # xs) = py_bind (f x) (\<lambda>y. py_bind (py_map f xs) (\<lambda>ys. Inr (y # ys)))"

definition py_sorted_key :: "(json \<Rightarrow> py_exc + json) \<Rightarrow> json list \<Rightarrow> py_exc + json list" where
  "py_sorted_key key xs =
     py_bind (py_map key xs) (\<lambda>ks.
     py_bind (py_insort_all [] (zip ks xs)) (\<lambda>ps. Inr (map snd ps)))"

text \<open>
  The stable insertion of the proofs: an item goes after every item whose key is not
  greater (\<open>insort_key\<close> of the library puts it before the equal ones).
\<close>

fun ins_after :: "('a \<Rightarrow> 'k::linorder) \<Rightarrow> 'a \<Rightarrow> 'a list \<Rightarrow> 'a list" where
  "ins_after f x [] = [x]"
| "ins_after f x (y # ys) = (if f x < f y then x # y # ys else y # ins_after f x ys)"

subsection \<open>The script\<close>

definition event_text :: string where
  "event_text =
     [CHR 0x0A] @ ''Upcoming Schedule:'' @ [CHR 0x0A, CHR 0x0A] @
     ''March 15, 2024 - Product launch webinar at 2pm EST. Sarah will present the '' @
     [CHR 0x0A] @ ''new features. Register at launch.company.com'' @ [CHR 0x0A, CHR 0x0A] @
     ''March 22-24 - TechConf 2024 in San Francisco. Our booth is #305. '' @ [CHR 0x0A] @
     ''The team dinner is on March 23rd at 7pm.'' @ [CHR 0x0A, CHR 0x0A] @
     ''April 1, 2024 - Q1 board meeting. Financial reports due March 28th.'' @
     [CHR 0x0A, CHR 0x0A] @
     ''Note: The April 10th customer advisory board meeting has been moved to April 17th.'' @
     [CHR 0x0A]"

definition dx_system3 :: string where
  "dx_system3 =
     ''Extract all events with dates. Return ONLY valid JSON.'' @ [CHR 0x0A, CHR 0x0A] @
     ''Format:'' @ [CHR 0x0A] @ ''{'' @ [CHR 0x0A] @ ''  '' @ [CHR 0x22] @ ''events'' @
     [CHR 0x22] @ '': ['' @ [CHR 0x0A] @ ''    {'' @ [CHR 0x0A] @ ''      '' @ [CHR 0x22] @
     ''date'' @ [CHR 0x22] @ '': '' @ [CHR 0x22] @ ''2024-03-15'' @ [CHR 0x22] @ '','' @
     [CHR 0x0A] @ ''      '' @ [CHR 0x22] @ ''end_date'' @ [CHR 0x22] @ '': null,'' @
     [CHR 0x0A] @ ''      '' @ [CHR 0x22] @ ''title'' @ [CHR 0x22] @ '': '' @ [CHR 0x22] @
     ''Event Title'' @ [CHR 0x22] @ '','' @ [CHR 0x0A] @ ''      '' @ [CHR 0x22] @
     ''description'' @ [CHR 0x22] @ '': '' @ [CHR 0x22] @ ''Brief description'' @ [CHR 0x22] @
     '','' @ [CHR 0x0A] @ ''      '' @ [CHR 0x22] @ ''location'' @ [CHR 0x22] @ '': '' @
     [CHR 0x22] @ ''Location (or null)'' @ [CHR 0x22] @ '','' @ [CHR 0x0A] @ ''      '' @
     [CHR 0x22] @ ''time'' @ [CHR 0x22] @ '': '' @ [CHR 0x22] @ ''2:00 PM EST (or null)'' @
     [CHR 0x22, CHR 0x0A] @ ''    }'' @ [CHR 0x0A] @ ''  ]'' @ [CHR 0x0A] @ ''}'' @
     [CHR 0x0A, CHR 0x0A] @
     ''Use ISO date format (YYYY-MM-DD). Include all mentioned details.''"

text \<open>Lines 178--205.\<close>

definition dx_request3 :: params where
  "dx_request3 =
     script_request 1024 (Some 0.2) dx_system3
       (''Extract all events:'' @ [CHR 0x0A, CHR 0x0A] @ event_text)"

text \<open>The body of the loop of lines 211--216.\<close>

definition event_entry :: "json \<Rightarrow> (report_out, unit) run" where
  "event_entry event =
     run_bind (lift (json_getitem event ''date'')) (\<lambda>date.
     run_bind (lift (json_getitem event ''title'')) (\<lambda>title.
     run_bind (emit (Event_line date title)) (\<lambda>_.
     run_bind (print_if_present event ''time'' ''  Time: '') (\<lambda>_.
     print_if_present event ''location'' ''  Location: ''))))"

text \<open>Lines 207--216.\<close>

definition event_extraction :: "json_lib \<Rightarrow> response \<Rightarrow> (report_out, unit) run" where
  "event_extraction json message =
     run_bind (lift (first_text message)) (\<lambda>text.
     run_bind (lift (loads json text)) (\<lambda>events_data.
     run_bind (emit (Dumped (dumps_indented json events_data))) (\<lambda>_.
     run_bind (emit (Heading ''Calendar Summary:'')) (\<lambda>_.
     run_bind (lift (py_bind (json_getitem events_data ''events'') (\<lambda>es.
                     py_bind (json_iter es) (py_sorted_key (\<lambda>x. json_getitem x ''date''))))) (\<lambda>evs.
     run_each event_entry evs)))))"

text \<open>The module run of \<open>08_data_extractor.py\<close>: Examples 1 and 2, then Example 3.\<close>

definition data_extractor_script :: "string option \<Rightarrow> api \<Rightarrow> json_lib \<Rightarrow> (report_out, unit) run" where
  "data_extractor_script env_key api json =
     run_bind (data_extractor_examples env_key api json) (\<lambda>_.
     run_bind (lift (api 2 dx_request3)) (\<lambda>message.
     event_extraction json message))"

subsection \<open>An example reply\<close>

text \<open>Two of the events of \<open>event_text\<close>, extracted out of date order.\<close>

definition webinar :: json where
  "webinar = JObj [(''date'', JStr ''2024-03-15''), (''title'', JStr ''Product launch webinar''),
                   (''time'', JStr ''2:00 PM EST''), (''location'', JNull)]"

definition board_meeting :: json where
  "board_meeting = JObj [(''date'', JStr ''2024-04-01''), (''title'', JStr ''Q1 board meeting''),
                         (''time'', JNull), (''location'', JNull)]"

definition events_reply :: json where
  "events_reply = JObj [(''events'', JList [board_meeting, webinar])]"

text \<open>A reply that leaves the date of an event open.\<close>

definition offsite :: json where
  "offsite = JObj [(''date'', JNull), (''title'', JStr ''Team offsite''), (''time'', JNull), (''location'', JNull)]"

definition null_date_reply :: json where
  "null_date_reply = JObj [(''events'', JList [webinar, offsite])]"

section \<open>Lemmas\<close>

text \<open>Python's \<open><\<close> on strings is the lexicographic order of \<open>List_Lexorder\<close>.\<close>

lemma Nil_less_iff: "([] < ys) = (ys \<noteq> [])"
  by (cases ys) simp_all

lemma py_str_lt_iff: "py_str_lt xs ys \<longleftrightarrow> xs < ys"
  by (induction xs ys rule: py_str_lt.induct) (auto simp: less_char_def Nil_less_iff)

lemma mset_ins_after [simp]: "mset (ins_after f x xs) = add_mset x (mset xs)"
  by (induction xs) auto

lemma set_ins_after [simp]: "set (ins_after f x xs) = insert x (set xs)"
  by (induction xs) auto

lemma sorted_ins_after: "sorted (map f xs) \<Longrightarrow> sorted (map f (ins_after f x xs))"
  by (induction xs) (auto simp: not_less)

lemma filter_ins_after_out: "\<not> P x \<Longrightarrow> filter P (ins_after f x xs) = filter P xs"
  by (induction xs) auto

lemma filter_ins_after_eq:
  "sorted (map f xs) \<Longrightarrow> filter (\<lambda>y. f y = f x) (ins_after f x xs) = filter (\<lambda>y. f y = f x) xs @ [x]"
proof (induction xs)
  case (Cons a xs)
  show ?case
  proof (cases "f x < f a")
    case True
    then have "filter (\<lambda>y. f y = f x) xs = []" using Cons.prems by (fastforce simp: filter_empty_conv)
    then show ?thesis using True by auto
  qed (use Cons in auto)
qed simp

lemma ins_after_sort_key: "ins_after f x (sort_key f xs) = sort_key f (xs @ [x])"
proof (rule properties_for_sort_key[symmetric])
  show "mset (ins_after f x (sort_key f xs)) = mset (xs @ [x])" by simp
  show "sorted (map f (ins_after f x (sort_key f xs)))" by (simp add: sorted_ins_after)
  fix k
  show "filter (\<lambda>y. f k = f y) (ins_after f x (sort_key f xs)) = filter (\<lambda>y. f k = f y) (xs @ [x])"
  proof (cases "f k = f x")
    case True
    then show ?thesis using filter_ins_after_eq[of f "sort_key f xs" x] sort_key_stable[of f "f x" xs]
      by (simp add: eq_commute[of "f x"])
  next
    case False
    have "(\<lambda>y. f k = f y) = (\<lambda>y. f y = f k)" by auto
    then show ?thesis using False by (simp add: filter_ins_after_out sort_key_stable)
  qed
qed


lemma py_insort_strs:
  "py_insort (JStr (f x), x) (map (\<lambda>y. (JStr (f y), y)) ys) =
     Inr (map (\<lambda>y. (JStr (f y), y)) (ins_after f x ys))"
  by (induction ys) (simp_all add: py_str_lt_iff)

lemma py_insort_all_strs:
  "py_insort_all (map (\<lambda>y. (JStr (f y), y)) acc) (map (\<lambda>y. (JStr (f y), y)) xs) =
     Inr (map (\<lambda>y. (JStr (f y), y)) (foldl (\<lambda>a x. ins_after f x a) acc xs))"
  by (induction xs arbitrary: acc) (simp_all add: py_insort_strs[of f _ _, simplified])

lemma foldl_ins_after_sort_key: "foldl (\<lambda>a x. ins_after f x a) [] xs = sort_key f xs"
  by (induction xs rule: rev_induct) (simp_all add: ins_after_sort_key)

lemma py_map_Inr: "\<forall>x\<in>set xs. k x = Inr (h x) \<Longrightarrow> py_map k xs = Inr (map h xs)"
  by (induction xs) simp_all

lemma zip_map_self: "zip (map h xs) xs = map (\<lambda>x. (h x, x)) xs"
  by (induction xs) simp_all

text \<open>On string keys, the model of \<open>sorted\<close> is the library's stable \<open>sort_key\<close>.\<close>

lemma py_sorted_key_strings:
  assumes "\<forall>x\<in>set xs. key x = Inr (JStr (f x))"
  shows "py_sorted_key key xs = Inr (sort_key f xs)"
proof -
  have "py_map key xs = Inr (map (\<lambda>x. JStr (f x)) xs)" using assms by (rule py_map_Inr)
  then show ?thesis
    using py_insort_all_strs[of f "[]" xs]
    by (simp add: py_sorted_key_def zip_map_self foldl_ins_after_sort_key comp_def)
qed

text \<open>
  An event whose date is \<open>null\<close> (the format of the prompt allows \<open>null\<close> only for
  \<open>end_date\<close>) makes the sort raise \<open>TypeError\<close> as soon as there is a second event,
  and an event without a date raises \<open>KeyError\<close> before any comparison.
\<close>

lemma calendar_null_date_type_error:
  "py_sorted_key (\<lambda>x. json_getitem x ''date'') [JObj [(''date'', JNull)], webinar] =
     Inl (TypeError ''< not supported between these instances'')"
  by (simp add: py_sorted_key_def webinar_def)

lemma calendar_missing_date_key_error:
  "py_sorted_key (\<lambda>x. json_getitem x ''date'') [webinar, JObj [(''title'', JStr ''TechConf 2024'')]] =
     Inl (KeyError ''date'')"
  by (simp add: py_sorted_key_def webinar_def)

text \<open>A comparison fails only with the \<open>TypeError\<close> of unorderable operands.\<close>

abbreviation lt_type_error :: py_exc where
  "lt_type_error \<equiv> TypeError ''< not supported between these instances''"

lemma py_lt_error:
  "py_lt a b = Inl e \<Longrightarrow> e = lt_type_error"
  "py_list_lt as bs = Inl e \<Longrightarrow> e = lt_type_error"
  by (induction a b and as bs rule: py_lt_py_list_lt.induct) (auto split: option.splits if_splits)

lemma py_lt_unorderable:
  "py_unorderable a \<Longrightarrow> py_lt a b = Inl lt_type_error"
  "py_unorderable b \<Longrightarrow> py_lt a b = Inl lt_type_error"
  by (cases a; cases b; simp)+

lemma py_insort_error: "py_insort x acc = Inl e \<Longrightarrow> e = lt_type_error"
  by (induction acc) (auto simp: py_bind_def py_lt_error split: sum.splits if_splits)

lemma py_insort_nonempty: "py_insort x acc = Inr acc' \<Longrightarrow> acc' \<noteq> []"
  by (induction acc arbitrary: acc') (auto simp: py_bind_def split: sum.splits if_splits)

text \<open>
  Once an unorderable key is among the pairs and there are two of them, some insertion
  compares it: inserting it into a non-empty list compares it with the head, and an
  item inserted after it into a singleton list compares with it.
\<close>

lemma py_insort_all_unorderable:
  assumes "\<exists>y\<in>set xs. py_unorderable (fst y)" and "acc \<noteq> [] \<or> 2 \<le> length xs"
  shows "py_insort_all acc xs = Inl lt_type_error"
  using assms
proof (induction xs arbitrary: acc)
  case Nil
  then show ?case by simp
next
  case (Cons x xs)
  show ?case
  proof (cases "py_unorderable (fst x)")
    case True
    show ?thesis
    proof (cases acc)
      case Nil
      then obtain y ys where "xs = y # ys" using Cons.prems(2) by (cases xs) auto
      then show ?thesis using Nil True by (cases x) (simp add: py_lt_unorderable)
    next
      case (Cons a as)
      then show ?thesis using True by (cases x) (simp add: py_lt_unorderable)
    qed
  next
    case False
    then have bad: "\<exists>y\<in>set xs. py_unorderable (fst y)" using Cons.prems(1) by auto
    show ?thesis
    proof (cases "py_insort x acc")
      case (Inl e)
      then show ?thesis using py_insort_error[OF Inl] by simp
    next
      case (Inr acc')
      then show ?thesis using Cons.IH[OF bad] py_insort_nonempty[OF Inr] by simp
    qed
  qed
qed

lemma py_map_length: "py_map f xs = Inr ys \<Longrightarrow> length ys = length xs"
  by (induction xs arbitrary: ys) (auto simp: py_bind_Inr_iff)

lemma py_sorted_key_unorderable:
  assumes "\<forall>x\<in>set xs. key x = Inr (k x)" and "\<exists>x\<in>set xs. py_unorderable (k x)"
    and "2 \<le> length xs"
  shows "py_sorted_key key xs = Inl lt_type_error"
proof -
  have "\<exists>y\<in>set (zip (map k xs) xs). py_unorderable (fst y)"
    using assms(2) by (auto simp: zip_map_self)
  then show ?thesis
    using py_map_Inr[OF assms(1)] py_insort_all_unorderable[of "zip (map k xs) xs" "[]"] assms(3)
    by (simp add: py_sorted_key_def)
qed

section \<open>Properties\<close>

text \<open>C35: when the reply decodes to an object whose events all carry a string date, Example 3 of 08 prints the heading and then the events in the order of the library's stable sort by date (a permutation of the events, sorted by date, events with equal dates in their original order), stopping at the first event whose entry raises.\<close>

theorem calendar_in_date_order:
  assumes "first_text message = Inr text" and "loads json text = Inr events_data"
    and "json_getitem events_data ''events'' = Inr (JList evs)"
    and "\<forall>e\<in>set evs. json_getitem e ''date'' = Inr (JStr (date e))"
  shows "event_extraction json message =
           (fst (run_each event_entry (sort_key date evs)),
            Dumped (dumps_indented json events_data) # Heading ''Calendar Summary:''
              # snd (run_each event_entry (sort_key date evs)))"
  using assms(1-3) py_sorted_key_strings[OF assms(4)] by (simp add: event_extraction_def lift_def)

text \<open>C28: when the reply of 08 Example 3 lists at least two events, every event has a date and one of the dates is null (the prompt's format allows null only for end_date) or an object, sorted(..., key=lambda x: x['date']) raises TypeError: the script prints the dump and the heading and then no event at all.\<close>

theorem calendar_unorderable_date_type_error:
  assumes "first_text message = Inr text" and "loads json text = Inr events_data"
    and "json_getitem events_data ''events'' = Inr (JList evs)"
    and "\<forall>e\<in>set evs. json_getitem e ''date'' = Inr (date e)"
    and "\<exists>e\<in>set evs. py_unorderable (date e)" and "2 \<le> length evs"
  shows "event_extraction json message =
           (Inl (TypeError ''< not supported between these instances''),
            [Dumped (dumps_indented json events_data), Heading ''Calendar Summary:''])"
  using assms(1-3) py_sorted_key_unorderable[OF assms(4-6)] by (simp add: event_extraction_def lift_def)

theorem calendar_unorderable_date_type_error_witness:
  "first_text (text_reply ''{events}'') = Inr ''{events}''
   \<and> loads (decoding_json null_date_reply) ''{events}'' = Inr null_date_reply
   \<and> json_getitem null_date_reply ''events'' = Inr (JList [webinar, offsite])
   \<and> py_unorderable JNull \<and> json_getitem offsite ''date'' = Inr JNull
   \<and> event_extraction (decoding_json null_date_reply) (text_reply ''{events}'') =
       (Inl (TypeError ''< not supported between these instances''),
        [Dumped ''{}'', Heading ''Calendar Summary:''])"
proof -
  let ?date = "\<lambda>e. if e = webinar then JStr ''2024-03-15'' else JNull"
  have h: "first_text (text_reply ''{events}'') = Inr ''{events}''"
    "loads (decoding_json null_date_reply) ''{events}'' = Inr null_date_reply"
    "json_getitem null_date_reply ''events'' = Inr (JList [webinar, offsite])"
    "\<forall>e\<in>set [webinar, offsite]. json_getitem e ''date'' = Inr (?date e)"
    "\<exists>e\<in>set [webinar, offsite]. py_unorderable (?date e)"
    "2 \<le> length [webinar, offsite]"
    by (simp_all add: text_reply_def first_text_def decoding_json_def null_date_reply_def webinar_def
        offsite_def)
  have o: "py_unorderable JNull \<and> json_getitem offsite ''date'' = Inr JNull"
    by (simp add: offsite_def)
  show ?thesis
    using h(1-3) o calendar_unorderable_date_type_error[OF h] by (simp add: decoding_json_def)
qed

theorem calendar_in_date_order_witness:
  "first_text (text_reply ''{events}'') = Inr ''{events}''
   \<and> loads (decoding_json events_reply) ''{events}'' = Inr events_reply
   \<and> json_getitem events_reply ''events'' = Inr (JList [board_meeting, webinar])
   \<and> event_extraction (decoding_json events_reply) (text_reply ''{events}'') =
       (Inr (), [Dumped ''{}'', Heading ''Calendar Summary:'',
                 Event_line (JStr ''2024-03-15'') (JStr ''Product launch webinar''),
                 Field ''  Time: '' (JStr ''2:00 PM EST''),
                 Event_line (JStr ''2024-04-01'') (JStr ''Q1 board meeting'')])"
proof -
  let ?date = "\<lambda>e. if e = webinar then ''2024-03-15'' else ''2024-04-01''"
  have h: "first_text (text_reply ''{events}'') = Inr ''{events}''"
    "loads (decoding_json events_reply) ''{events}'' = Inr events_reply"
    "json_getitem events_reply ''events'' = Inr (JList [board_meeting, webinar])"
    "\<forall>e\<in>set [board_meeting, webinar]. json_getitem e ''date'' = Inr (JStr (?date e))"
    by (simp_all add: text_reply_def first_text_def decoding_json_def events_reply_def webinar_def
        board_meeting_def)
  have s: "sort_key ?date [board_meeting, webinar] = [webinar, board_meeting]"
    by (simp add: webinar_def board_meeting_def)
  have r: "run_each event_entry [webinar, board_meeting] =
      (Inr (), [Event_line (JStr ''2024-03-15'') (JStr ''Product launch webinar''),
                Field ''  Time: '' (JStr ''2:00 PM EST''),
                Event_line (JStr ''2024-04-01'') (JStr ''Q1 board meeting'')])"
    by (simp add: event_entry_def print_if_present_def webinar_def board_meeting_def lift_def emit_def)
  show ?thesis
    using h(1-3) calendar_in_date_order[OF h] unfolding s r by (simp add: decoding_json_def)
qed

end
