(* ===== verification/Tool_Use_Script.thy ===== *)
theory Tool_Use_Script
  imports Weather_Tool Database_Tool
begin

text \<open>
  The module run of \<open>src/examples/10_tool_use.py\<close>: the check of
  \<open>ANTHROPIC_API_KEY\<close> (lines 26--28), Example 1 (\<open>Weather_Tool\<close>), Example 2 (the
  calculator through \<open>process_tool_call\<close>, lines 236--243) and Example 3
  (\<open>Database_Tool\<close>, lines 274--280), one after the other with the one module-level
  \<open>client\<close>: the requests of a later example are numbered after those of the earlier
  ones, and an exception or a loop that never returns ends the script.
  \<^item> \<open>script_line\<close>: the lines printed, those of Example 1, those of the tool loop and
    \<open>Claude: {result}\<close> after Examples 2 and 3;
  \<^item> \<open>tool_use_script\<close>: the run, \<open>None\<close> when a loop never returns.
\<close>

section \<open>Model\<close>

datatype script_line = Weather_out weather_out | Loop_out tool_print | Claude_result string

record script_run =
  s_outcome :: "py_exc + unit"
  s_requests :: "params list"
  s_out :: "script_line list"

definition tool_use_script :: "string option \<Rightarrow> api \<Rightarrow> json_lib \<Rightarrow> script_run option" where
  "tool_use_script env_key api json =
     (case require_api_key env_key of
        Inl e \<Rightarrow> Some \<lparr>s_outcome = Inl e, s_requests = [], s_out = []\<rparr>
      | Inr _ \<Rightarrow>
          (let r1 = weather_example api json;
               reqs1 = w_requests r1;
               out1 = map Weather_out (w_out r1)
           in case w_outcome r1 of
                Inl e \<Rightarrow> Some \<lparr>s_outcome = Inl e, s_requests = reqs1, s_out = out1\<rparr>
              | Inr _ \<Rightarrow>
                  (case process_tool_call \<lparr>create = (\<lambda>n. api (length reqs1 + n)), to_str = py_str_int\<rparr>
                          calc_query calculator_tools calculator_function_map of
                     None \<Rightarrow> None
                   | Some (r2, s2) \<Rightarrow>
                       (let reqs2 = reqs1 @ requests s2;
                            out2 = out1 @ map Loop_out (printed s2)
                        in case r2 of
                             Inl e \<Rightarrow> Some \<lparr>s_outcome = Inl e, s_requests = reqs2, s_out = out2\<rparr>
                           | Inr result \<Rightarrow>
                               (case process_tool_call \<lparr>create = (\<lambda>n. api (length reqs2 + n)), to_str = py_str_dict\<rparr>
                                       database_query database_tools database_function_map of
                                  None \<Rightarrow> None
                                | Some (r3, s3) \<Rightarrow>
                                    (let reqs3 = reqs2 @ requests s3;
                                         out3 = out2 @ [Claude_result result] @ map Loop_out (printed s3)
                                     in case r3 of
                                          Inl e \<Rightarrow> Some \<lparr>s_outcome = Inl e, s_requests = reqs3, s_out = out3\<rparr>
                                        | Inr result' \<Rightarrow>
                                            Some \<lparr>s_outcome = Inr (), s_requests = reqs3,
                                                  s_out = out3 @ [Claude_result result']\<rparr>))))))"

subsection \<open>An example server\<close>

text \<open>
  A server that answers Example 1 in text, then the calculator and the customer query
  with one round of tools each.
\<close>

definition text_answer :: "string \<Rightarrow> response" where
  "text_answer t = \<lparr>resp_model = ''claude-sonnet-4-20250514'', stop_reason = EndTurn, resp_content = [TextBlock t],
                    resp_usage = \<lparr>input_tokens = 300, output_tokens = 30\<rparr>\<rparr>"

definition script_api :: api where
  "script_api n p =
     (if n = 0 then Inr (text_answer ''I cannot check the weather.'')
      else if n = 1 then Inr calc_turn1 else if n = 2 then Inr calc_turn2
      else if n = 3 then Inr db_turn1 else Inr db_turn2)"

section \<open>Lemmas\<close>

text \<open>Without the key nothing is sent and nothing is printed.\<close>

lemma tool_use_script_no_key:
  "tool_use_script None api json = Some \<lparr>s_outcome = Inl (ValueError ''Please set ANTHROPIC_API_KEY environment variable''),
                                          s_requests = [], s_out = []\<rparr>"
  by (simp add: tool_use_script_def require_api_key_def)

text \<open>
  The whole run against that server: five requests, the calculator's two results, its
  answer, the customer record and the final answer, in that order.
\<close>

lemma tool_use_script_run:
  "\<exists>reqs. tool_use_script (Some ''sk-test'') script_api demo_json =
     Some \<lparr>s_outcome = Inr (), s_requests = reqs,
           s_out = [Weather_out (Stop_reason EndTurn),
                    Loop_out (Using_tool ''add'' [(''a'', JInt 15), (''b'', JInt 7)]), Loop_out (Tool_result ''22''),
                    Loop_out (Using_tool ''multiply'' [(''a'', JInt 22), (''b'', JInt 3)]), Loop_out (Tool_result ''66''),
                    Claude_result ''You have 66 apples.'',
                    Loop_out (Using_tool ''query_customers'' [(''customer_id'', JStr ''C001'')]),
                    Loop_out (Tool_result (py_str_dict [(''name'', ''John Smith''), (''email'', ''john@example.com''), (''plan'', ''Premium'')])),
                    Claude_result ''The email address for customer C001 is john@example.com.'']\<rparr>
     \<and> length reqs = 5"
proof -
  have w: "weather_example script_api demo_json =
      \<lparr>w_outcome = Inr (), w_requests = [tool_request weather_tools [weather_user]], w_out = [Stop_reason EndTurn]\<rparr>"
    by (simp add: weather_example_defs script_api_def text_answer_def)
  have c: "process_tool_call \<lparr>create = (\<lambda>n. script_api (Suc n)), to_str = py_str_int\<rparr>
             calc_query calculator_tools calculator_function_map =
           Some (first_text calc_turn2, \<lparr>messages = [\<lparr>msg_role = User, msg_content = Str calc_query\<rparr>,
                      \<lparr>msg_role = Assistant, msg_content = Blocks (resp_content calc_turn1)\<rparr>,
                      \<lparr>msg_role = User, msg_content = Results calc_results\<rparr>],
           requests = [tool_request calculator_tools [\<lparr>msg_role = User, msg_content = Str calc_query\<rparr>],
                       tool_request calculator_tools
                         [\<lparr>msg_role = User, msg_content = Str calc_query\<rparr>,
                          \<lparr>msg_role = Assistant, msg_content = Blocks (resp_content calc_turn1)\<rparr>,
                          \<lparr>msg_role = User, msg_content = Results calc_results\<rparr>]],
           printed = run_tools_out calculator_function_map py_str_int (resp_content calc_turn1)\<rparr>)"
    using process_tool_call_one_round[where env = "\<lparr>create = (\<lambda>n. script_api (Suc n)), to_str = py_str_int\<rparr>"
        and tools = calculator_tools and fm = calculator_function_map and q = calc_query and first_resp = calc_turn1
        and rs = calc_results and final_resp = calc_turn2]
    by (simp add: script_api_def calc_turn1_stop calc_run_tools calc_turn2_def)
  have d: "process_tool_call \<lparr>create = (\<lambda>n. script_api (Suc (Suc (Suc n)))), to_str = py_str_dict\<rparr>
             database_query database_tools database_function_map =
           Some (first_text db_turn2, \<lparr>messages = [\<lparr>msg_role = User, msg_content = Str database_query\<rparr>,
                      \<lparr>msg_role = Assistant, msg_content = Blocks (resp_content db_turn1)\<rparr>,
                      \<lparr>msg_role = User, msg_content = Results [\<lparr>tool_use_id = ''toolu_db'',
           result_content = py_str_dict [(''name'', ''John Smith''), (''email'', ''john@example.com''), (''plan'', ''Premium'')]\<rparr>]\<rparr>],
           requests = [tool_request database_tools [\<lparr>msg_role = User, msg_content = Str database_query\<rparr>],
                       tool_request database_tools
                         [\<lparr>msg_role = User, msg_content = Str database_query\<rparr>,
                          \<lparr>msg_role = Assistant, msg_content = Blocks (resp_content db_turn1)\<rparr>,
                          \<lparr>msg_role = User, msg_content = Results [\<lparr>tool_use_id = ''toolu_db'',
           result_content = py_str_dict [(''name'', ''John Smith''), (''email'', ''john@example.com''), (''plan'', ''Premium'')]\<rparr>]\<rparr>]],
           printed = run_tools_out database_function_map py_str_dict (resp_content db_turn1)\<rparr>)"
    using process_tool_call_one_round[where env = "\<lparr>create = (\<lambda>n. script_api (Suc (Suc (Suc n)))), to_str = py_str_dict\<rparr>"
        and tools = database_tools and fm = database_function_map and q = database_query and first_resp = db_turn1
        and rs = "[\<lparr>tool_use_id = ''toolu_db'',
           result_content = py_str_dict [(''name'', ''John Smith''), (''email'', ''john@example.com''), (''plan'', ''Premium'')]\<rparr>]"
        and final_resp = db_turn2]
    by (simp add: script_api_def db_run_tools db_turn2_def db_turn1_stop)
  have o: "run_tools_out database_function_map py_str_dict (resp_content db_turn1) =
      [Using_tool ''query_customers'' [(''customer_id'', JStr ''C001'')],
       Tool_result (py_str_dict [(''name'', ''John Smith''), (''email'', ''john@example.com''), (''plan'', ''Premium'')])]"
    by (simp add: db_turn1_def database_function_map_def call_query_customers_def query_customers_def
        mock_db_def py_simps)
  have t: "first_text calc_turn2 = Inr ''You have 66 apples.''"
    "first_text db_turn2 = Inr ''The email address for customer C001 is john@example.com.''"
    by (simp_all add: first_text_def calc_turn2_def db_turn2_def)
  show ?thesis
    by (simp add: tool_use_script_def require_api_key_def w c d o t calc_run_tools_out del: first_text_simps)
qed

end
