(* ===== verification/Spec2Isabelle.thy ===== *)
theory Spec2Isabelle
  imports Error_Handler Tool_Use Multi_Turn Client Weather_Tool Json_Reports Text_Scripts Database_Tool
    Event_Calendar Tool_Use_Script
begin

text \<open>
  \<^bold>\<open>A verification library for the Claude API starter kit.\<close>
  The repository is a thin wrapper around the vendor SDK (\<open>src/utils\<close>) and ten example
  scripts (\<open>src/examples\<close>). The SDK and the remote model are not code of the
  repository: every remote call is an oracle, a function from the request number and the
  keyword arguments of the call to a response or an exception
  (\<open>Anthropic_Api.api\<close>), so each theorem holds for every behaviour of the server.
  Python's floats are modelled as exact reals and its integers as \<open>int\<close>; printing is
  modelled by the list of lines printed, one constructor per \<open>print\<close> of the source.

  \<^bold>\<open>Theories.\<close>
  \<^item> \<open>Py_Prelude\<close>: Python semantics the sources rely on (truth values, \<open>a or b\<close>,
    slices \<open>xs[i:]\<close>, subscripts, \<open>range\<close>, \<open>str\<close> of an integer, keyword binding with
    and without defaults, \<open>s.split(c)[0]\<close>, \<open>round\<close> with halves to even) and the
    collection \<open>py_simps\<close> of their evaluation rules.
  \<^item> \<open>Anthropic_Api\<close>: the part of the SDK the sources use, from the spec: the exception
    classes and their \<open>isinstance\<close> tests, content blocks, messages, responses, tool
    descriptors and request parameters; \<open>first_text\<close> is \<open>response.content[0].text\<close>.
  \<^item> \<open>Error_Handler\<close>: \<open>src/utils/error_handler.py\<close>. \<open>handle_api_errors\<close> is the
    decorator's wrapper (one call, the four \<open>except\<close> clauses in order);
    \<open>retry_loop\<close>/\<open>retry_with_backoff\<close> are the retry wrapper, the \<open>for attempt in
    range(max_retries + 1)\<close> loop as structural recursion over the list of attempts, its
    effects (invocations, prints, sleeps) as an event list; \<open>time_sleep\<close> is
    \<open>time.sleep\<close>, which raises \<open>ValueError\<close> on a negative delay. \<open>retry_spec\<close> is
    the contract of spec section 4.1 and \<open>retry_with_backoff_refines_spec\<close> the
    refinement, for non-negative delays.
  \<^item> \<open>Client\<close>: \<open>src/utils/client.py\<close>, the class \<open>ClaudeClient\<close>: key resolution,
    the request dictionary with \<open>params.update(kwargs)\<close>, \<open>chat\<close>, \<open>multi_turn_chat\<close>
    and \<open>chat_stream\<close> (a generator, so the decorator only wraps its creation).
  \<^item> \<open>Tool_Use\<close>: \<open>process_tool_call\<close> of \<open>src/examples/10_tool_use.py\<close>, the
    tool-call loop. \<open>while True\<close> is a \<^theory_text>\<open>partial_function (option)\<close>
    (\<open>None\<close> is a run that never ends), one turn is \<open>tool_loop_body\<close>, the inner loop
    \<open>run_tools\<close>; \<open>tool_reach\<close> is the inductive set of reachable loop states and
    \<open>loop_inv\<close> the transcript invariant of spec section 3, proved by rule induction;
    \<open>tool_loop_invariant\<close> is the fixpoint induction the loop's properties share. The
    state also holds the lines the loop prints (\<open>run_tools_out\<close>). The calculator tools
    of Example 2 and a conversation with them.
  \<^item> \<open>Weather_Tool\<close>: Example 1 of the same script (one hand-written round of tool use).
  \<^item> \<open>Database_Tool\<close>: Example 3 of the same script, the customer query through
    \<open>process_tool_call\<close>, with \<open>str\<close> of the returned dictionary as the tool result.
  \<^item> \<open>Tool_Use_Script\<close>: the module run of the same script, the key check and the three
    examples chained with one client, the request numbers continuing across them.
  \<^item> \<open>Multi_Turn\<close>: \<open>src/examples/09_multi_turn_chat.py\<close>, with the global
    \<open>conversation_history\<close> and the requests sent as an explicit state record; the
    module-level Examples 1, 2 and 4, chained with the key check and the resets of the
    history into \<open>multi_turn_module\<close>.
  \<^item> \<open>Py_Json\<close>, \<open>Json_Reports\<close>, \<open>Event_Calendar\<close>: Python's operations on decoded
    JSON values and the post-processing of \<open>04_structured_output.py\<close> and
    \<open>08_data_extractor.py\<close>; the module \<open>json\<close> is an interface (\<open>json_lib\<close>).
    \<open>Event_Calendar\<close> holds Example 3 of \<open>08\<close>, whose \<open>sorted(..., key=...)\<close> is a stable
    insertion sort over Python's \<open><\<close> on the keys.
  \<^item> \<open>Text_Scripts\<close>: the scripts \<open>01\<close>, \<open>02\<close>, \<open>03\<close>, \<open>05\<close>, \<open>06\<close>, \<open>07\<close>, which
    send fixed requests (their prompts transcribed) and print the text of each reply;
    \<open>reply_script_answered\<close> gives the run of such a script when every request is
    answered. \<open>02\<close> prints the chunks of a stream (\<open>stream_api\<close>) as they arrive.
  \<^item> This theory: the properties across components, and the typing \<open>request_wf\<close> of the
    interface (\<open>Anthropic_Api\<close>) checked on every request the scripts send.

  \<^bold>\<open>What is proved.\<close>
  Retry (C1--C6, C25): success after transient failures within the budget with the
  geometric sleep schedule, giving up after exactly \<open>max_retries + 1\<close> attempts, and the
  refinement of the contract, all three for a non-negative \<open>initial_delay\<close> and
  \<open>backoff_factor\<close>; no retry of other errors; the bounds on sleeps and invocations for
  every behaviour of the wrapped function and every configuration; that a negative budget
  never calls it; and that the first negative delay of the schedule makes the wrapper
  raise the \<open>ValueError\<close> of \<open>time.sleep\<close> in place of retrying (C25).
  Error logging (C7, C8): transparency and the most specific diagnostic first.
  Tool loop (C9--C16, C27, C38): the inner loop's results in order with their ids, one
  turn appends exactly the assistant entry and the results entry, an unknown tool raises
  \<open>KeyError\<close>, a final answer or an API error ends the loop, the transcript invariant on
  every reachable state and every request, termination when the model stops asking, the
  round trip of the results: looking
  a request's id up among the results gives \<open>str\<close> of its function's value (C27), and
  liveness: a loop that never returns sends a request at every length, each answered by
  a request for tools that all ran (C38).
  Chat history (C17--C23, C37): the effect of \<open>chat\<close> on success and on failure,
  preservation of complete exchanges, the bounds of the memory limit and the shape of the
  trimmed transcript for even, odd and zero limits, and the run of Example 2; the lemmas
  \<open>example4_sizes\<close> and \<open>multi_turn_module_answered\<close> give the run of Example 4 and of
  the whole module against a server that always answers.
  Client (C24, C26, C29): key resolution, \<open>kwargs\<close> overriding the arguments and the
  errors of a reply without text; the lemma \<open>chat_stream_errors_unlogged\<close> records that
  streaming errors bypass the decorator.
  JSON post-processing (C28, C35, C39, C40): the calendar of 08 Example 3 lists the
  events in the order of the library's stable \<open>sort_key\<close> by date (C35), and raises
  \<open>TypeError\<close> before any event when a date is null (C28); the sum of the deals; the
  \<open>TypeError\<close> of a reply of the wrong shape. The lemma \<open>format_comma_reference\<close>
  equates the \<open>{x:,}\<close> format with the reference grouping of PEP 378.
  Weather example (C31--C34): the branches of the script and its errors; the lemma
  \<open>to_fahrenheit_bound\<close> bounds the rounding of the Fahrenheit conversion.
  Text scripts (C30, C36): \<open>02\<close> prints the chunks of the stream as they arrive and keeps
  them when the stream is interrupted (C30); a script of replies (\<open>01\<close>--\<open>06\<close>) that fails at one request
  raises that exception after printing exactly the earlier replies, in order, and sends
  nothing after it.
  Across components (this theory): \<open>retried_chat_recovers\<close>, the client's \<open>chat\<close>
  under \<open>retry_with_backoff\<close> recovers from transient failures within the budget;
  \<open>script_requests_typed\<close>, every fixed request of the scripts \<open>01\<close>--\<open>08\<close> is well typed,
  and \<open>process_tool_call_requests_typed\<close>, so is every request of the tool loop.

  \<^bold>\<open>Fuel and bounds.\<close>
  No fuel is used. The tool loop may run forever (the model may keep asking for tools), so
  it is a partial function; \<open>process_tool_call_terminates\<close> proves that it returns when
  the model stops asking after \<open>n\<close> requests, by induction on the requests left, and
  \<open>process_tool_call_diverges\<close> characterises the runs that do not return (\<open>None\<close>);
  \<open>tool_loop_never_leaves\<close> proves \<open>None\<close> for a model that always asks. Every other
  loop of the sources runs over a finite list and is structural recursion.

  \<^bold>\<open>Not modelled.\<close>
  The SDK's transport, streaming protocol and JSON schema validation (outside the
  repository, spec section 1); the behaviour of \<open>json.dumps\<close>/\<open>json.loads\<close>; the
  interactive loop of \<open>09\<close>, which is inside a string literal and never runs; the prints
  that only echo fixed headings and the echo prints of \<open>09\<close>; \<open>src/utils/__init__.py\<close>, which only re-exports. \<open>request_wf\<close> does not check that a
  request has no keys beyond the six it types: a \<open>params\<close> map has no finite domain to
  enumerate. Python's \<open>==\<close> inside list comparison is structural equality here.
\<close>

section \<open>Retrying the client\<close>

text \<open>
  The two decorators of \<open>src/utils/error_handler.py\<close> stacked on the client: a call of
  \<open>ClaudeClient.chat\<close> (already wrapped by \<open>handle_api_errors\<close>, which re-raises what
  it logs) retried by \<open>retry_with_backoff\<close>, attempt \<open>i\<close> being the \<open>i\<close>-th request to
  the server. \<open>flaky_api n\<close> rate-limits the first \<open>n\<close> requests and then answers.
\<close>

definition chat_attempts ::
  "api \<Rightarrow> claude_client \<Rightarrow> string \<Rightarrow> string option \<Rightarrow> int \<Rightarrow> real \<Rightarrow> params \<Rightarrow> int \<Rightarrow> py_exc + string" where
  "chat_attempts api c m sys mt t kw i = fst (client_chat api (nat i) c m sys mt t kw)"

definition flaky_api :: "nat \<Rightarrow> api" where
  "flaky_api n k p =
     (if k < n then Inl (APIStatusError RateLimit ''429 Too Many Requests'')
      else Inr \<lparr>resp_model = default_model, stop_reason = EndTurn, resp_content = [TextBlock ''Hello!''],
                resp_usage = \<lparr>input_tokens = 10, output_tokens = 3\<rparr>\<rparr>)"

text \<open>
  A chat that is rate-limited (or loses its connection) on its first \<open>n\<close> requests, with
  \<open>n\<close> within the budget and non-negative delays, is answered by the retried client
  after exactly the first \<open>n\<close> sleeps of the geometric schedule.
\<close>

theorem retried_chat_recovers:
  assumes "int n \<le> max_retries cfg"
    and "\<forall>i<n. \<exists>e. api i (chat_params c (single_user m) sys mt t kw) = Inl e \<and> retryable e"
    and "api n (chat_params c (single_user m) sys mt t kw) = Inr r"
    and "resp_content r = TextBlock txt # bs"
    and "0 \<le> initial_delay cfg" and "0 \<le> backoff_factor cfg"
  shows "fst (retry_with_backoff cfg (chat_attempts api c m sys mt t kw)) = Inr (Some txt)
    \<and> sleeps (snd (retry_with_backoff cfg (chat_attempts api c m sys mt t kw)))
        = backoff_schedule (initial_delay cfg) (backoff_factor cfg) n"
proof -
  have fail: "\<forall>i<n. fails_retryably (chat_attempts api c m sys mt t kw (int i))"
    using assms(2) by (auto simp: chat_attempts_def client_call_defs)
  have ok: "chat_attempts api c m sys mt t kw (int n) = Inr txt"
    using assms(3,4) by (simp add: chat_attempts_def client_call_defs)
  show ?thesis
    using retry_with_backoff_stops_at[OF assms(1) fail _ backoff_nonneg[OF assms(5,6)]] ok by simp
qed

theorem retried_chat_recovers_witness:
  "int 2 \<le> max_retries demo_cfg
   \<and> fst (retry_with_backoff demo_cfg (chat_attempts (flaky_api 2) demo_client ''Hi'' None 4096 1 Map.empty))
       = Inr (Some ''Hello!'')
   \<and> sleeps (snd (retry_with_backoff demo_cfg (chat_attempts (flaky_api 2) demo_client ''Hi'' None 4096 1 Map.empty)))
       = [1, 2]"
proof -
  let ?p = "chat_params demo_client (single_user ''Hi'') None 4096 1 Map.empty"
  have h: "int 2 \<le> max_retries demo_cfg"
    "\<forall>i<2. \<exists>e. flaky_api 2 i ?p = Inl e \<and> retryable e"
    "flaky_api 2 2 ?p = Inr \<lparr>resp_model = default_model, stop_reason = EndTurn, resp_content = [TextBlock ''Hello!''],
                resp_usage = \<lparr>input_tokens = 10, output_tokens = 3\<rparr>\<rparr>"
    "resp_content \<lparr>resp_model = default_model, stop_reason = EndTurn, resp_content = [TextBlock ''Hello!''],
                resp_usage = \<lparr>input_tokens = 10, output_tokens = 3\<rparr>\<rparr> = TextBlock ''Hello!'' # []"
    "0 \<le> initial_delay demo_cfg" "0 \<le> backoff_factor demo_cfg"
    by (simp_all add: demo_cfg_def flaky_api_def retryable_def)
  have s: "backoff_schedule (initial_delay demo_cfg) (backoff_factor demo_cfg) 2 = [1, 2]"
    by (simp add: backoff_schedule_def demo_cfg_def upt_rec)
  show ?thesis
    using h(1) retried_chat_recovers[where api="flaky_api 2", OF h] unfolding s by simp
qed

section \<open>Typing of the requests\<close>

text \<open>
  Every request the scripts send satisfies the interface's typing \<open>request_wf\<close>: the
  fixed requests of the scripts \<open>01\<close>--\<open>08\<close>, and every request of the tool loop,
  whose transcript the loop invariant keeps non-empty and opened by the user.
\<close>

text \<open>Every request that process_tool_call sends, up to its return, is well typed: a model identifier, a positive max_tokens, a tools list, and a non-empty transcript that opens with the user's question.\<close>

theorem process_tool_call_requests_typed:
  assumes "process_tool_call env q tools fm = Some (r, s')"
  shows "list_all request_wf (requests s')"
proof -
  have wf: "request_wf (tool_request tools (messages s))" if "loop_inv s" for s
    using that by (auto simp: loop_inv_def request_wf_def tool_request_def transcript_ok_def split: list.splits)
  have sent: "list_all request_wf (requests s')"
    if "loop_inv s \<and> list_all request_wf (requests s)"
      and "tool_loop_body env tools fm s = Continue s' \<or> tool_loop_body env tools fm s = Leave r s'" for s s' r
    using that tool_loop_body_requests[OF that(2)] wf[of s] by simp
  show ?thesis
    using assms unfolding process_tool_call_def
  proof (rule tool_loop_invariant[where I = "\<lambda>s. loop_inv s \<and> list_all request_wf (requests s)"])
    show "loop_inv (init_state q) \<and> list_all request_wf (requests (init_state q))"
      by (simp add: loop_inv_def init_state_def transcript_ok_def requests_ok_def)
  next
    fix s s' assume "loop_inv s \<and> list_all request_wf (requests s)" "tool_loop_body env tools fm s = Continue s'"
    then show "loop_inv s' \<and> list_all request_wf (requests s')"
      using tool_loop_body_inv(1) sent by blast
  next
    fix s r s' assume "loop_inv s \<and> list_all request_wf (requests s)" "tool_loop_body env tools fm s = Leave r s'"
    then show "list_all request_wf (requests s')" using sent by blast
  qed
qed

theorem process_tool_call_requests_typed_witness:
  "process_tool_call calc_env calc_query calculator_tools calculator_function_map =
     Some (Inr ''You have 66 apples.'',
           calc_state1\<lparr>requests := requests calc_state1 @ [tool_request calculator_tools (messages calc_state1)]\<rparr>)
   \<and> list_all request_wf (requests calc_state1 @ [tool_request calculator_tools (messages calc_state1)])"
  using calc_conversation process_tool_call_requests_typed[OF calc_conversation] by simp

lemma script_requests_typed:
  "list_all request_wf [bc_request1, sc_request1, sp_request1, sp_request2, sp_request3, cr_request1,
     cr_request2, ew_request1, ew_request2, ew_request3, cs_request1, cs_request2, cs_request3,
     cs_request4, so_request1, so_request2, dx_request1, dx_request2, dx_request3]"
  by (simp add: request_wf_def bc_request1_def sc_request1_def sp_request1_def sp_request2_def sp_request3_def
      cr_request1_def cr_request2_def ew_request1_def ew_request2_def ew_request3_def cs_request1_def
      cs_request2_def cs_request3_def cs_request4_def so_request1_def so_request2_def dx_request1_def
      dx_request2_def dx_request3_def text_request_def script_request_def)

end
